(* ===== verification/EMS_Prelude.thy ===== *)
theory EMS_Prelude
  imports Main "HOL-Library.Sublist"
begin

text \<open>
  Shared vocabulary of the EMS development: the type of clock readings, the
  named collections that the component theories fill, and the list lemmas that
  every store operation needs. The employee store rewrites its collection
  with \<open>Array.prototype.map\<close> over a conditional (\<open>emp.id === id ? ... : emp\<close>) and
  with \<open>Array.prototype.filter\<close>; the lemmas below are about exactly these two
  shapes, stated once for any key function.
\<close>

section \<open>Types shared by the components\<close>

text \<open>
  A reading of the browser clock, \<open>new Date()\<close>, in milliseconds since the epoch.
  The source stores \<open>toISOString()\<close> of it; that rendering is injective and
  order-preserving on the instants a browser produces, so the model keeps the
  instant itself.
\<close>

type_synonym timestamp = nat

named_theorems ems_simps "equations of the store operations, for evaluation and rewriting"
named_theorems ems_inv "preservation lemmas of the component invariants"

section \<open>Conditional map: rewrite the elements that match a key\<close>

text \<open>
  \<open>xs.map(x => key(x) === k ? f(x) : x)\<close> is written in HOL as
  \<open>map (\<lambda>x. if key x = k then f x else x) xs\<close>.
\<close>

lemma map_if_no_match [simp]:
  "\<forall>x\<in>set xs. \<not> P x \<Longrightarrow> map (\<lambda>x. if P x then f x else x) xs = xs"
  by (induction xs) auto

lemma map_if_keys:
  assumes "\<And>x. key (f x) = key x"
  shows "map key (map (\<lambda>x. if P x then f x else x) xs) = map key xs"
  using assms by (induction xs) auto

lemma distinct_map_if_keys:
  assumes "\<And>x. key (f x) = key x"
  shows "distinct (map key (map (\<lambda>x. if P x then f x else x) xs)) = distinct (map key xs)"
proof -
  have "map key (map (\<lambda>x. if P x then f x else x) xs) = map key xs"
    using assms by (rule map_if_keys)
  then show ?thesis by (rule arg_cong)
qed

lemma map_if_keys_comp [simp]:
  "(\<And>x. key (f x) = key x) \<Longrightarrow> map (key \<circ> (\<lambda>x. if P x then f x else x)) xs = map key xs"
  by (induction xs) auto

lemma map_if_comp:
  "map (\<lambda>x. if P x then g x else x) (map (\<lambda>x. if P x then f x else x) xs) =
   map (\<lambda>x. if P x then g (f x) else x) xs"
  if "\<And>x. P (f x) = P x"
  using that by (induction xs) auto

lemma filter_map_if_count:
  assumes "\<And>x. P x \<Longrightarrow> Q (f x) = R x" and "\<And>x. \<not> P x \<Longrightarrow> Q x = R x"
  shows "length (filter Q (map (\<lambda>x. if P x then f x else x) xs)) = length (filter R xs)"
  using assms by (induction xs) auto

section \<open>Substrings of concatenations\<close>

lemma sublist_skip_left: "sublist xs ys \<Longrightarrow> sublist xs (zs @ ys)"
  unfolding sublist_def by (metis append_assoc)

section \<open>Lookup by key in a list\<close>

lemma find_append_none:
  "find P xs = None \<Longrightarrow> find P (xs @ ys) = find P ys"
  by (induction xs) auto

lemma find_None_iff_all: "find P xs = None \<longleftrightarrow> (\<forall>x\<in>set xs. \<not> P x)"
  by (induction xs) auto

lemma find_Some_in: "find P xs = Some x \<Longrightarrow> x \<in> set xs \<and> P x"
  by (induction xs) (auto split: if_splits)

lemma find_distinct_key:
  assumes "distinct (map key xs)" and "x \<in> set xs"
  shows "find (\<lambda>y. key y = key x) xs = Some x"
  using assms by (induction xs) (auto simp: image_iff)

lemma find_map_if:
  assumes "\<And>x. key (f x) = key x"
  shows "find (\<lambda>x. key x = k) (map (\<lambda>x. if key x = k then f x else x) xs) =
         map_option f (find (\<lambda>x. key x = k) xs)"
  using assms by (induction xs) auto

section \<open>Filtering by key\<close>

lemma filter_key_absent [simp]:
  "k \<notin> key ` set xs \<Longrightarrow> filter (\<lambda>x. key x \<noteq> k) xs = xs"
  by (induction xs) auto

lemma filter_key_keys:
  "map key (filter (\<lambda>x. key x \<noteq> k) xs) = filter (\<lambda>j. j \<noteq> k) (map key xs)"
  by (induction xs) auto

lemma length_filter_split:
  "length xs = length (filter P xs) + length (filter (\<lambda>x. \<not> P x) xs)"
  by (induction xs) auto

end
