(* ===== verification/Storage.thy ===== *)
theory Storage
  imports EMS_Prelude
begin

text \<open>
  The persistence adapter \<open>@/utils/localStorage\<close> (\<open>STORAGE_KEYS\<close>, \<open>getItem\<close>,
  \<open>setItem\<close>, \<open>removeItem\<close>) and the configuration \<open>@/utils/constants\<close>
  (\<open>MOCK_CREDENTIALS\<close>, \<open>GENDERS\<close>). Neither file is part of the sources, so
  both are modelled from their contract in the specification (sections 4.3 and 6):
  the store holds serialized text under three independent keys; \<open>getItem\<close>
  returns the deserialized value, or the caller's default when the key is absent
  or its text does not parse; \<open>setItem\<close> overwrites; \<open>removeItem\<close> deletes.
  The deserialized value is an untyped JSON value, as \<open>JSON.parse\<close> gives it:
  the type argument of \<open>getItem<T>\<close> is not checked at run time, so the callers
  see whatever was stored.
\<close>

section \<open>JSON values and JavaScript truthiness\<close>

datatype json =
    JNull
  | JBool bool
  | JNum int
  | JStr string
  | JArr "json list"
  | JObj "(string \<times> json) list"

text \<open>JavaScript truthiness of a parsed value: \<open>null\<close>, \<open>false\<close>, \<open>0\<close> and the empty
  string are falsy; every array and object is truthy.\<close>

fun js_truthy :: "json \<Rightarrow> bool" where
  "js_truthy JNull = False"
| "js_truthy (JBool b) = b"
| "js_truthy (JNum n) = (n \<noteq> 0)"
| "js_truthy (JStr s) = (s \<noteq> [])"
| "js_truthy (JArr xs) = True"
| "js_truthy (JObj kvs) = True"

text \<open>Property access \<open>o.k\<close> on a parsed object. \<open>JSON.parse\<close> keeps the last
  of duplicated keys, so the binding read is the last one; the parsed object's
  prototype, \<open>Object.prototype\<close>, has no data property a caller of this library
  reads. On a value that is not an object the access is \<open>None\<close>.\<close>

fun json_field :: "string \<Rightarrow> json \<Rightarrow> json option" where
  "json_field k (JObj kvs) = map_of (rev kvs) k"
| "json_field k _ = None"

text \<open>\<open>v.length\<close> on a parsed value other than \<open>null\<close>: the length of an array
  or a string, an object's own \<open>length\<close> property (whatever value it holds), and
  \<open>undefined\<close> (\<open>None\<close>) for a boolean or a number. On \<open>null\<close> the access throws a
  \<open>TypeError\<close>; the caller tests for \<open>JNull\<close> first.\<close>

fun js_length :: "json \<Rightarrow> json option" where
  "js_length (JArr xs) = Some (JNum (int (length xs)))"
| "js_length (JStr s) = Some (JNum (int (length s)))"
| "js_length (JObj kvs) = json_field ''length'' (JObj kvs)"
| "js_length _ = None"

text \<open>\<open>v.length === 0\<close>, for a parsed value other than \<open>null\<close>.\<close>

definition length_is_zero :: "json \<Rightarrow> bool" where
  "length_is_zero v \<longleftrightarrow> js_length v = Some (JNum 0)"

section \<open>The keyed store\<close>

datatype storage_key = AUTH | USER | EMPLOYEES

text \<open>The text under a key either parses (\<open>Json\<close>) or is text \<open>JSON.parse\<close>
  rejects (\<open>Corrupt\<close>), which a caller sees as absent.\<close>

datatype stored = Json json | Corrupt string

type_synonym storage = "storage_key \<Rightarrow> stored option"

definition getItem :: "storage_key \<Rightarrow> json \<Rightarrow> storage \<Rightarrow> json" where
  "getItem k dflt st = (case st k of Some (Json v) \<Rightarrow> v | _ \<Rightarrow> dflt)"

definition setItem :: "storage_key \<Rightarrow> json \<Rightarrow> storage \<Rightarrow> storage" where
  "setItem k v st = st(k \<mapsto> Json v)"

definition removeItem :: "storage_key \<Rightarrow> storage \<Rightarrow> storage" where
  "removeItem k st = st(k := None)"

section \<open>Configuration constants\<close>

text \<open>The demo credential pair, as shown on the login screen (\<open>admin / admin123\<close>).\<close>

definition MOCK_USERNAME :: string where "MOCK_USERNAME = ''admin''"
definition MOCK_PASSWORD :: string where "MOCK_PASSWORD = ''admin123''"

section \<open>Adapter laws\<close>

lemma length_is_zero_simps [simp]:
  "length_is_zero (JArr xs) \<longleftrightarrow> xs = []" "length_is_zero (JStr s) \<longleftrightarrow> s = []"
  "\<not> length_is_zero JNull" "\<not> length_is_zero (JBool b)" "\<not> length_is_zero (JNum n)"
  "length_is_zero (JObj kvs) \<longleftrightarrow> map_of (rev kvs) ''length'' = Some (JNum 0)"
  by (simp_all add: length_is_zero_def)

lemma getItem_setItem_same [simp]: "getItem k d (setItem k v st) = v"
  by (simp add: getItem_def setItem_def)

lemma getItem_setItem_other [simp]: "k \<noteq> k' \<Longrightarrow> getItem k d (setItem k' v st) = getItem k d st"
  by (simp add: getItem_def setItem_def)

lemma getItem_removeItem_same [simp]: "getItem k d (removeItem k st) = d"
  by (simp add: getItem_def removeItem_def)

lemma getItem_removeItem_other [simp]:
  "k \<noteq> k' \<Longrightarrow> getItem k d (removeItem k' st) = getItem k d st"
  by (simp add: getItem_def removeItem_def)

lemma getItem_absent [simp]: "st k = None \<Longrightarrow> getItem k d st = d"
  by (simp add: getItem_def)

lemma getItem_corrupt [simp]: "st k = Some (Corrupt s) \<Longrightarrow> getItem k d st = d"
  by (simp add: getItem_def)

lemma setItem_setItem_same [simp]: "setItem k v (setItem k w st) = setItem k v st"
  by (simp add: setItem_def)

lemma setItem_other_commute:
  "k \<noteq> k' \<Longrightarrow> setItem k v (setItem k' w st) = setItem k' w (setItem k v st)"
  by (auto simp: setItem_def fun_upd_twist)

end
