(* ===== verification/JS_String.thy ===== *)
theory JS_String
  imports EMS_Prelude
begin

text \<open>
  The JavaScript string built-ins the employee store calls, as HOL functions on
  \<open>string\<close>: \<open>String.prototype.toLowerCase\<close>, \<open>String.prototype.includes\<close>,
  \<open>String.prototype.padStart\<close> and \<open>Number.prototype.toString\<close> on a
  non-negative integer. A JavaScript string is a sequence of UTF-16 code units;
  HOL's \<open>char\<close> has 256 values, so the model covers the strings whose code
  units are all below 256 (ASCII and Latin-1), and on them it is exact:
  \<open>toLowerCase\<close> maps \<open>A\<close>..\<open>Z\<close> and the Latin-1 capitals U+00C0..U+00DE
  other than U+00D7 (the multiplication sign) 32 positions down, as the Unicode
  case mapping of that range does, and leaves every other code unit alone.
  These are runtime functions, not code of the repository.
\<close>

section \<open>toLowerCase\<close>

definition js_upper_code :: "nat \<Rightarrow> bool" where
  "js_upper_code n \<longleftrightarrow> (65 \<le> n \<and> n \<le> 90) \<or> (192 \<le> n \<and> n \<le> 222 \<and> n \<noteq> 215)"

definition js_lower_char :: "char \<Rightarrow> char" where
  "js_lower_char c = (if js_upper_code (of_char c) then char_of (of_char c + (32::nat)) else c)"

definition toLowerCase :: "string \<Rightarrow> string" where
  "toLowerCase s = map js_lower_char s"

section \<open>includes and startsWith\<close>

fun startsWith :: "string \<Rightarrow> string \<Rightarrow> bool" where
  "startsWith s [] = True"
| "startsWith [] (c # t) = False"
| "startsWith (d # s) (c # t) = (d = c \<and> startsWith s t)"

text \<open>\<open>s.includes(t)\<close>: \<open>t\<close> occurs in \<open>s\<close> at some position; the empty string
  occurs everywhere.\<close>

fun js_includes :: "string \<Rightarrow> string \<Rightarrow> bool" where
  "js_includes [] t = (t = [])"
| "js_includes (c # s) t = (startsWith (c # s) t \<or> js_includes s t)"

section \<open>padStart and decimal printing\<close>

text \<open>\<open>s.padStart(n, c)\<close> with a one-character pad string: the pad is repeated in
  front until the length is \<open>n\<close>; a string that is already long enough is
  returned unchanged.\<close>

definition padStart :: "nat \<Rightarrow> char \<Rightarrow> string \<Rightarrow> string" where
  "padStart n c s = replicate (n - length s) c @ s"

definition digit_char :: "nat \<Rightarrow> char" where
  "digit_char d = char_of (48 + d)"

text \<open>\<open>n.toString()\<close> for a non-negative integer \<open>n\<close>: its decimal digits, most
  significant first, with no leading zero (and \<open>''0''\<close> for zero).\<close>

fun dec_string :: "nat \<Rightarrow> string" where
  "dec_string n = (if n < 10 then [digit_char n] else dec_string (n div 10) @ [digit_char (n mod 10)])"

declare dec_string.simps [simp del]

text \<open>Reading decimal digits back, as \<open>parseInt(s, 10)\<close> does on a string of
  digits; \<open>None\<close> when a character is not a digit or the string is empty.\<close>

definition digit_val :: "char \<Rightarrow> nat option" where
  "digit_val c = (let n = of_char c in if 48 \<le> n \<and> n \<le> 57 then Some (n - 48) else None)"

fun parse_dec_acc :: "nat \<Rightarrow> string \<Rightarrow> nat option" where
  "parse_dec_acc acc [] = Some acc"
| "parse_dec_acc acc (c # s) =
     (case digit_val c of None \<Rightarrow> None | Some d \<Rightarrow> parse_dec_acc (10 * acc + d) s)"

definition parse_dec :: "string \<Rightarrow> nat option" where
  "parse_dec s = (if s = [] then None else parse_dec_acc 0 s)"

section \<open>split\<close>

text \<open>\<open>s.split(c)\<close> with a one-character separator: the pieces between the
  separators, in order; a string without the separator is one piece, and the
  empty string gives one empty piece.\<close>

fun split_on :: "char \<Rightarrow> string \<Rightarrow> string list" where
  "split_on c [] = [[]]"
| "split_on c (x # xs) =
     (if x = c then [] # split_on c xs
      else (case split_on c xs of w # ws \<Rightarrow> (x # w) # ws | [] \<Rightarrow> [[x]]))"

section \<open>Lemmas on the string built-ins\<close>

lemma startsWith_prefix: "startsWith s t \<longleftrightarrow> prefix t s"
  by (induction s t rule: startsWith.induct) auto

lemma js_includes_sublist: "js_includes s t \<longleftrightarrow> sublist t s"
  by (induction s) (auto simp: startsWith_prefix sublist_Cons_right)

lemma js_includes_Nil [simp]: "js_includes s []"
  by (simp add: js_includes_sublist)

lemma toLowerCase_Nil [simp]: "toLowerCase [] = []"
  by (simp add: toLowerCase_def)

lemma length_toLowerCase [simp]: "length (toLowerCase s) = length s"
  by (simp add: toLowerCase_def)

lemma js_lower_char_idem [simp]: "js_lower_char (js_lower_char c) = js_lower_char c"
proof (cases "js_upper_code (of_char c)")
  case True
  then have "of_char c + 32 < (256::nat)" by (auto simp: js_upper_code_def)
  then have "of_char (char_of (of_char c + (32::nat)) :: char) = (of_char c + 32 :: nat)"
    by simp
  with True show ?thesis by (simp add: js_lower_char_def js_upper_code_def; arith)
next
  case False
  then show ?thesis by (simp add: js_lower_char_def)
qed

lemma toLowerCase_idem [simp]: "toLowerCase (toLowerCase s) = toLowerCase s"
  by (simp add: toLowerCase_def)

lemma digit_val_digit_char [simp]: "d < 10 \<Longrightarrow> digit_val (digit_char d) = Some d"
  by (simp add: digit_val_def digit_char_def)

lemma dec_string_not_Nil [simp]: "dec_string n \<noteq> []"
  by (subst dec_string.simps) simp

lemma parse_dec_acc_append:
  "parse_dec_acc acc (s @ t) = (case parse_dec_acc acc s of None \<Rightarrow> None | Some a \<Rightarrow> parse_dec_acc a t)"
  by (induction acc s rule: parse_dec_acc.induct) (auto split: option.splits)

lemma parse_dec_acc_dec_string:
  "parse_dec_acc acc (dec_string n) = Some (acc * 10 ^ length (dec_string n) + n)"
proof (induction n arbitrary: acc rule: dec_string.induct)
  case (1 n)
  show ?case
  proof (cases "n < 10")
    case True
    then show ?thesis by (subst (1 2) dec_string.simps) simp
  next
    case False
    then have eq: "dec_string n = dec_string (n div 10) @ [digit_char (n mod 10)]"
      by (subst dec_string.simps) simp
    have "parse_dec_acc acc (dec_string (n div 10)) =
          Some (acc * 10 ^ length (dec_string (n div 10)) + n div 10)"
      using "1" False by simp
    then show ?thesis
      by (simp add: eq parse_dec_acc_append algebra_simps)
  qed
qed

lemma parse_dec_acc_zeros: "parse_dec_acc 0 (replicate k (CHR ''0'') @ s) = parse_dec_acc 0 s"
  by (induction k) (simp_all add: digit_val_def)

lemma parse_dec_padStart_dec_string:
  "parse_dec (padStart k (CHR ''0'') (dec_string n)) = Some n"
  by (simp add: parse_dec_def padStart_def parse_dec_acc_zeros parse_dec_acc_dec_string)

lemma length_dec_string_le:
  "n < 10 ^ k \<Longrightarrow> 0 < k \<Longrightarrow> length (dec_string n) \<le> k"
proof (induction n arbitrary: k rule: dec_string.induct)
  case (1 n)
  show ?case
  proof (cases "n < 10")
    case True
    with "1.prems" show ?thesis by (subst dec_string.simps) simp
  next
    case False
    then obtain k' where k: "k = Suc k'" using "1.prems" by (cases k) auto
    with False "1.prems" have "n div 10 < 10 ^ k'" and "0 < k'"
      by (auto simp: less_mult_imp_div_less intro: gr0I)
    then have "length (dec_string (n div 10)) \<le> k'" using "1.IH" False by simp
    with k False show ?thesis by (subst dec_string.simps) simp
  qed
qed
lemma split_on_not_Nil [simp]: "split_on c s \<noteq> []"
  by (induction s) (auto split: list.splits)

lemma hd_split_on: "hd (split_on c s) = takeWhile (\<lambda>x. x \<noteq> c) s"
  by (induction s) (auto split: list.splits)

lemma replicate_numeral_unfold:
  "replicate (numeral k) x = x # replicate (pred_numeral k) x"
  by (simp add: numeral_eq_Suc)

text \<open>The equations that evaluate the built-ins on literal strings and numerals.\<close>

lemmas js_string_eval = toLowerCase_def js_lower_char_def js_upper_code_def char_of_def bit_0
  padStart_def dec_string.simps digit_char_def digit_val_def parse_dec_def replicate_numeral_unfold

end
