(* ===== verification/Employee_Types.thy ===== *)
theory Employee_Types
  imports Storage JS_String
begin

text \<open>
  The data model of \<open>src/src/types/employee.ts\<close>: \<open>EmployeeFormData\<close> (the six
  fields a form edits), \<open>Employee\<close> (the form fields plus the identifier and the
  two timestamps) and \<open>EmployeeFilters\<close>. \<open>Employee\<close> is declared as an
  extension of \<open>EmployeeFormData\<close>: TypeScript types are structural, and the
  store builds an employee by spreading a form object and adding three fields,
  which is record extension. Fields whose source name is a HOL constant get a
  prefix: \<open>id\<close> is \<open>emp_id\<close>, \<open>image\<close> is \<open>emp_image\<close>; the filter's
  \<open>gender\<close> is \<open>filter_gender\<close>. This theory also holds the JSON encoding that
  \<open>JSON.stringify\<close> gives the collection and the decoding that reading it back
  amounts to.
\<close>

section \<open>Records and enumerations\<close>

datatype gender = Male | Female | Other

fun gender_str :: "gender \<Rightarrow> string" where
  "gender_str Male = ''Male''"
| "gender_str Female = ''Female''"
| "gender_str Other = ''Other''"

record employee_form_data =
  name :: string
  gender :: gender
  dob :: string
  state :: string
  emp_image :: string
  active :: bool

record employee = employee_form_data +
  emp_id :: string
  createdAt :: timestamp
  updatedAt :: timestamp

record employee_filters =
  search :: string
  filter_gender :: string
  status :: string

text \<open>\<open>Partial<EmployeeFilters>\<close>: each field given or not.\<close>

record filters_patch =
  search_p :: "string option"
  gender_p :: "string option"
  status_p :: "string option"

text \<open>The form fields of an employee, as \<open>EmployeeForm\<close> copies them into its
  state when it edits one.\<close>

definition form_of :: "employee \<Rightarrow> employee_form_data" where
  "form_of e = employee_form_data.truncate e"

section \<open>JSON encoding of the collection\<close>

definition gender_of_str :: "string \<Rightarrow> gender option" where
  "gender_of_str s =
     (if s = ''Male'' then Some Male else if s = ''Female'' then Some Female
      else if s = ''Other'' then Some Other else None)"

text \<open>
  \<open>JSON.stringify\<close> of an employee: an object with the nine fields. The key
  order of the text depends on how the object was built (spread order), but
  reading a field back does not, so the encoding lists them in declaration
  order. A timestamp is the instant itself (see \<open>timestamp\<close>).
\<close>

definition encode_employee :: "employee \<Rightarrow> json" where
  "encode_employee e = JObj
     [(''id'', JStr (emp_id e)), (''name'', JStr (name e)),
      (''gender'', JStr (gender_str (gender e))), (''dob'', JStr (dob e)),
      (''state'', JStr (state e)), (''image'', JStr (emp_image e)),
      (''active'', JBool (active e)), (''createdAt'', JNum (int (createdAt e))),
      (''updatedAt'', JNum (int (updatedAt e)))]"

definition encode_employees :: "employee list \<Rightarrow> json" where
  "encode_employees es = JArr (map encode_employee es)"

fun as_str :: "json option \<Rightarrow> string option" where
  "as_str (Some (JStr s)) = Some s"
| "as_str _ = None"

fun as_bool :: "json option \<Rightarrow> bool option" where
  "as_bool (Some (JBool b)) = Some b"
| "as_bool _ = None"

fun as_time :: "json option \<Rightarrow> timestamp option" where
  "as_time (Some (JNum i)) = (if 0 \<le> i then Some (nat i) else None)"
| "as_time _ = None"

text \<open>A parsed value is an \<open>Employee\<close> when it is an object whose nine fields
  have the declared types.\<close>

definition decode_employee :: "json \<Rightarrow> employee option" where
  "decode_employee j =
     (case (as_str (json_field ''id'' j), as_str (json_field ''name'' j),
            Option.bind (as_str (json_field ''gender'' j)) gender_of_str, as_str (json_field ''dob'' j),
            as_str (json_field ''state'' j), as_str (json_field ''image'' j),
            as_bool (json_field ''active'' j), as_time (json_field ''createdAt'' j),
            as_time (json_field ''updatedAt'' j)) of
        (Some i, Some n, Some g, Some d, Some s, Some im, Some a, Some c, Some u) \<Rightarrow>
          Some \<lparr>name = n, gender = g, dob = d, state = s, emp_image = im, active = a,
                emp_id = i, createdAt = c, updatedAt = u\<rparr>
      | _ \<Rightarrow> None)"

fun decode_employees :: "json \<Rightarrow> employee list option" where
  "decode_employees (JArr js) = those (map decode_employee js)"
| "decode_employees _ = None"

section \<open>Lemmas\<close>

lemma gender_of_str_gender_str [simp]: "gender_of_str (gender_str g) = Some g"
  by (cases g) (simp_all add: gender_of_str_def)

lemma decode_encode_employee [simp]: "decode_employee (encode_employee e) = Some e"
  by (simp add: decode_employee_def encode_employee_def)

lemma those_map_Some: "(\<forall>x\<in>set xs. f x = Some x) \<Longrightarrow> those (map f xs) = Some xs"
  by (induction xs) auto

lemma those_length: "those xs = Some ys \<Longrightarrow> length ys = length xs"
  by (induction xs arbitrary: ys) (auto split: option.splits)

lemma decode_encode_employees [simp]: "decode_employees (encode_employees es) = Some es"
  by (simp add: encode_employees_def those_map_Some)

lemma form_of_fields [simp]:
  "name (form_of e) = name e" "gender (form_of e) = gender e" "dob (form_of e) = dob e"
  "state (form_of e) = state e" "emp_image (form_of e) = emp_image e"
  "active (form_of e) = active e"
  by (simp_all add: form_of_def employee_form_data.defs)

end
