(* ===== verification/Employee_Store.thy ===== *)
theory Employee_Store
  imports Employee_Types
begin

text \<open>
  The employee store, \<open>src/src/context/EmployeeContext.tsx\<close>. Its state is the
  provider's two React state cells, \<open>employees\<close> and \<open>filters\<close> (the record
  \<open>emp_ctx\<close>), together with the browser storage that \<open>saveEmployees\<close> writes
  through to. Every operation of the context is a function from the pair
  \<open>(emp_ctx, storage)\<close> to the new pair; the values the code draws from the
  environment are parameters: the random draw of \<open>generateId\<close> (the value of
  \<open>Math.floor(Math.random() * 10000)\<close>, so a number below 10000) and each
  reading of the clock (\<open>new Date()\<close>), one parameter per call in the source.
  The derived views \<open>filteredEmployees\<close> and \<open>stats\<close> are functions of the state.
  The operations are also collected as a datatype \<open>emp_op\<close> with one step
  function, which is the interface the view layer calls.
\<close>

section \<open>Identifiers and seed data\<close>

definition generateId :: "nat \<Rightarrow> string" where
  "generateId r = ''EMP'' @ padStart 4 (CHR ''0'') (dec_string r)"

text \<open>The four seed records. Their timestamps are eight separate clock readings
  taken when the module is loaded, \<open>clk 0\<close> to \<open>clk 7\<close> in source order.\<close>

definition SAMPLE_EMPLOYEES :: "(nat \<Rightarrow> timestamp) \<Rightarrow> employee list" where
  "SAMPLE_EMPLOYEES clk =
    [\<lparr>name = ''Rahul Sharma'', gender = Male, dob = ''1995-04-12'', state = ''Maharashtra'',
      emp_image = '''', active = True, emp_id = ''EMP001'', createdAt = clk 0, updatedAt = clk 1\<rparr>,
     \<lparr>name = ''Priya Patel'', gender = Female, dob = ''1992-08-25'', state = ''Gujarat'',
      emp_image = '''', active = True, emp_id = ''EMP002'', createdAt = clk 2, updatedAt = clk 3\<rparr>,
     \<lparr>name = ''Amit Kumar'', gender = Male, dob = ''1988-12-03'', state = ''Delhi'',
      emp_image = '''', active = False, emp_id = ''EMP003'', createdAt = clk 4, updatedAt = clk 5\<rparr>,
     \<lparr>name = ''Sneha Reddy'', gender = Female, dob = ''1997-06-18'', state = ''Telangana'',
      emp_image = '''', active = True, emp_id = ''EMP004'', createdAt = clk 6, updatedAt = clk 7\<rparr>]"

section \<open>Provider state and mounting\<close>

record emp_ctx =
  employees :: "employee list"
  filters :: employee_filters

type_synonym emp_state = "emp_ctx \<times> storage"

definition init_emp_ctx :: emp_ctx where
  "init_emp_ctx = \<lparr>employees = [], filters = \<lparr>search = [], filter_gender = [], status = []\<rparr>\<rparr>"

text \<open>
  The mount effect reads the saved collection with default \<open>[]\<close> and tests
  \<open>savedEmployees.length === 0\<close>. A stored \<open>null\<close> makes that access throw a
  \<open>TypeError\<close> (\<open>LengthOfNull\<close>). A value whose length is 0 (an empty array, an
  empty string, or an object whose own \<open>length\<close> property is 0) reseeds and
  writes the seed through. Anything else is put into state as it is: when it
  is an array of employees the store continues with it; when it is not (a
  number, an object, an array of other values) the state holds a value that is
  not an \<open>Employee[]\<close> and the derived views read fields that are not there.
  That case is the error \<open>NotAnEmployeeArray\<close>.
\<close>

datatype mount_error = NotAnEmployeeArray json | LengthOfNull

definition mount_employees :: "employee list \<Rightarrow> emp_ctx \<Rightarrow> storage \<Rightarrow> mount_error + emp_state" where
  "mount_employees samples c st =
     (let savedEmployees = getItem EMPLOYEES (JArr []) st in
      if savedEmployees = JNull then Inl LengthOfNull
      else if length_is_zero savedEmployees
      then Inr (c\<lparr>employees := samples\<rparr>, setItem EMPLOYEES (encode_employees samples) st)
      else (case decode_employees savedEmployees of
              Some es \<Rightarrow> Inr (c\<lparr>employees := es\<rparr>, st)
            | None \<Rightarrow> Inl (NotAnEmployeeArray savedEmployees)))"

section \<open>Operations\<close>

definition saveEmployees :: "employee list \<Rightarrow> emp_state \<Rightarrow> emp_state" where
  "saveEmployees es s = ((fst s)\<lparr>employees := es\<rparr>, setItem EMPLOYEES (encode_employees es) (snd s))"

text \<open>\<open>{...data, id: generateId(), createdAt: new Date()..., updatedAt: new Date()...}\<close>:
  the form object extended by the three fields; two clock readings.\<close>

definition addEmployee ::
  "nat \<Rightarrow> timestamp \<Rightarrow> timestamp \<Rightarrow> employee_form_data \<Rightarrow> emp_state \<Rightarrow> emp_state" where
  "addEmployee r t1 t2 data s =
     (let newEmployee = employee_form_data.extend data (employee.fields (generateId r) t1 t2)
      in saveEmployees (employees (fst s) @ [newEmployee]) s)"

text \<open>\<open>{...emp, ...data, updatedAt}\<close>: the form fields come from \<open>data\<close>, the
  identifier and \<open>createdAt\<close> from \<open>emp\<close>, and \<open>updatedAt\<close> is the clock.\<close>

definition updateEmployee ::
  "timestamp \<Rightarrow> string \<Rightarrow> employee_form_data \<Rightarrow> emp_state \<Rightarrow> emp_state" where
  "updateEmployee now i data s =
     (let updated = map (\<lambda>emp. if emp_id emp = i
                          then (employee_form_data.extend data (employee_form_data.more emp))
                                 \<lparr>updatedAt := now\<rparr>
                          else emp) (employees (fst s))
      in saveEmployees updated s)"

definition deleteEmployee :: "string \<Rightarrow> emp_state \<Rightarrow> emp_state" where
  "deleteEmployee i s = saveEmployees (filter (\<lambda>emp. emp_id emp \<noteq> i) (employees (fst s))) s"

definition toggleEmployeeStatus :: "timestamp \<Rightarrow> string \<Rightarrow> emp_state \<Rightarrow> emp_state" where
  "toggleEmployeeStatus now i s =
     (let updated = map (\<lambda>emp. if emp_id emp = i
                          then emp\<lparr>active := \<not> active emp, updatedAt := now\<rparr>
                          else emp) (employees (fst s))
      in saveEmployees updated s)"

text \<open>\<open>setFiltersState(prev => ({...prev, ...newFilters}))\<close>: the given fields
  override, the others stay; the storage is not touched.\<close>

definition setFilters :: "filters_patch \<Rightarrow> emp_state \<Rightarrow> emp_state" where
  "setFilters p s =
     (let prev = filters (fst s);
          merged = \<lparr>search = (case search_p p of None \<Rightarrow> search prev | Some v \<Rightarrow> v),
                    filter_gender = (case gender_p p of None \<Rightarrow> filter_gender prev | Some v \<Rightarrow> v),
                    status = (case status_p p of None \<Rightarrow> status prev | Some v \<Rightarrow> v)\<rparr>
      in ((fst s)\<lparr>filters := merged\<rparr>, snd s))"

definition getEmployeeById :: "string \<Rightarrow> emp_ctx \<Rightarrow> employee option" where
  "getEmployeeById i c = find (\<lambda>emp. emp_id emp = i) (employees c)"

section \<open>Derived views\<close>

definition matchesFilters :: "employee_filters \<Rightarrow> employee \<Rightarrow> bool" where
  "matchesFilters f emp \<longleftrightarrow>
     (let matchesSearch = js_includes (toLowerCase (name emp)) (toLowerCase (search f));
          matchesGender = (filter_gender f = [] \<or> gender_str (gender emp) = filter_gender f);
          matchesStatus = (status f = [] \<or> (if status f = ''active'' then active emp else \<not> active emp))
      in matchesSearch \<and> matchesGender \<and> matchesStatus)"

definition filteredEmployees :: "emp_ctx \<Rightarrow> employee list" where
  "filteredEmployees c = filter (matchesFilters (filters c)) (employees c)"

record emp_stats =
  total :: nat
  active_count :: nat
  inactive_count :: nat

definition stats :: "emp_ctx \<Rightarrow> emp_stats" where
  "stats c = \<lparr>total = length (employees c),
              active_count = length (filter (\<lambda>emp. active emp) (employees c)),
              inactive_count = length (filter (\<lambda>emp. \<not> active emp) (employees c))\<rparr>"

section \<open>The provider's value\<close>

text \<open>The data part of the value \<open>EmployeeProvider\<close> puts into the context on each
  render: the collection, the filtered view and the counts recomputed from the
  current state, and the filters. The operations it also passes are
  \<open>emp_step\<close> below.\<close>

record emp_context_value =
  ctx_employees :: "employee list"
  ctx_filteredEmployees :: "employee list"
  ctx_filters :: employee_filters
  ctx_stats :: emp_stats

definition provider_value :: "emp_ctx \<Rightarrow> emp_context_value" where
  "provider_value c =
     \<lparr>ctx_employees = employees c, ctx_filteredEmployees = filteredEmployees c,
      ctx_filters = filters c, ctx_stats = stats c\<rparr>"

section \<open>The context hook\<close>

datatype hook_error = OutsideProvider string

definition useEmployees :: "emp_ctx option \<Rightarrow> hook_error + emp_ctx" where
  "useEmployees ctx = (case ctx of
      None \<Rightarrow> Inl (OutsideProvider ''useEmployees must be used within an EmployeeProvider'')
    | Some c \<Rightarrow> Inr c)"

section \<open>The operations as one interface\<close>

datatype emp_op =
    AddEmployee nat timestamp timestamp employee_form_data
  | UpdateEmployee timestamp string employee_form_data
  | DeleteEmployee string
  | ToggleEmployeeStatus timestamp string
  | SetFilters filters_patch

fun emp_step :: "emp_op \<Rightarrow> emp_state \<Rightarrow> emp_state" where
  "emp_step (AddEmployee r t1 t2 d) = addEmployee r t1 t2 d"
| "emp_step (UpdateEmployee t i d) = updateEmployee t i d"
| "emp_step (DeleteEmployee i) = deleteEmployee i"
| "emp_step (ToggleEmployeeStatus t i) = toggleEmployeeStatus t i"
| "emp_step (SetFilters p) = setFilters p"


section \<open>Properties of the store operations\<close>

subsection \<open>Rewriting the operations\<close>

lemma fst_saveEmployees [simp, ems_simps]: "fst (saveEmployees es s) = (fst s)\<lparr>employees := es\<rparr>"
  by (simp add: saveEmployees_def)

lemma snd_saveEmployees [simp, ems_simps]: "snd (saveEmployees es s) = setItem EMPLOYEES (encode_employees es) (snd s)"
  by (simp add: saveEmployees_def)

lemma update_record_eq:
  "(employee_form_data.extend d (employee_form_data.more e))\<lparr>updatedAt := now\<rparr> =
   e\<lparr>name := name d, gender := gender d, dob := dob d, state := state d,
     emp_image := emp_image d, active := active d, updatedAt := now\<rparr>"
  by (cases e, cases d) (simp add: employee_form_data.defs)

lemma new_employee_eq:
  "employee_form_data.extend d (employee.fields i t1 t2) =
   \<lparr>name = name d, gender = gender d, dob = dob d, state = state d,
    emp_image = emp_image d, active = active d, emp_id = i, createdAt = t1, updatedAt = t2\<rparr>"
  by (cases d) (simp add: employee_form_data.defs employee.defs)

lemma employees_updateEmployee [ems_simps]:
  "employees (fst (updateEmployee now i d s)) =
   map (\<lambda>emp. if emp_id emp = i then emp\<lparr>name := name d, gender := gender d, dob := dob d,
        state := state d, emp_image := emp_image d, active := active d, updatedAt := now\<rparr> else emp)
     (employees (fst s))"
  by (simp add: updateEmployee_def update_record_eq)


lemma employees_toggleEmployeeStatus [ems_simps]:
  "employees (fst (toggleEmployeeStatus now i s)) =
   map (\<lambda>emp. if emp_id emp = i then emp\<lparr>active := \<not> active emp, updatedAt := now\<rparr> else emp)
     (employees (fst s))"
  by (simp add: toggleEmployeeStatus_def)


lemma employees_deleteEmployee [ems_simps]:
  "employees (fst (deleteEmployee i s)) = filter (\<lambda>emp. emp_id emp \<noteq> i) (employees (fst s))"
  by (simp add: deleteEmployee_def)


lemma employees_addEmployee [ems_simps]:
  "employees (fst (addEmployee r t1 t2 d s)) = employees (fst s) @
   [\<lparr>name = name d, gender = gender d, dob = dob d, state = state d,
     emp_image = emp_image d, active = active d, emp_id = generateId r, createdAt = t1, updatedAt = t2\<rparr>]"
  by (simp add: addEmployee_def new_employee_eq)


lemma mount_stored:
  "mount_employees samples c (setItem EMPLOYEES v st) =
     (if v = JNull then Inl LengthOfNull
      else if length_is_zero v
      then Inr (c\<lparr>employees := samples\<rparr>, setItem EMPLOYEES (encode_employees samples) st)
      else (case decode_employees v of
              Some es \<Rightarrow> Inr (c\<lparr>employees := es\<rparr>, setItem EMPLOYEES v st)
            | None \<Rightarrow> Inl (NotAnEmployeeArray v)))"
  by (simp add: mount_employees_def Let_def)

lemma mount_unreadable:
  "st EMPLOYEES = None \<or> (\<exists>txt. st EMPLOYEES = Some (Corrupt txt)) \<Longrightarrow>
   mount_employees samples c st = Inr (c\<lparr>employees := samples\<rparr>, setItem EMPLOYEES (encode_employees samples) st)"
  by (auto simp: mount_employees_def length_is_zero_def)


subsection \<open>The filtered view and the statistics\<close>

lemma stats_total_split: "total (stats c) = active_count (stats c) + inactive_count (stats c)"
proof -
  have "length (employees c) =
        length (filter active (employees c)) + length (filter (\<lambda>x. \<not> active x) (employees c))"
    by (rule length_filter_split)
  then show ?thesis by (simp add: stats_def)
qed

lemma matchesFilters_status_only:
  "matchesFilters \<lparr>search = [], filter_gender = [], status = st\<rparr> =
     (\<lambda>e. st = [] \<or> (if st = ''active'' then active e else \<not> active e))"
  by (simp add: fun_eq_iff matchesFilters_def)

lemma stats_filters_indep [simp]: "stats (c\<lparr>filters := f\<rparr>) = stats c"
  by (simp add: stats_def)

text \<open>C1: the filtered view keeps the collection's order and holds exactly the
  records whose lower-cased name contains the lower-cased search text, whose
  gender equals the gender filter when one is set, and whose status agrees with
  the status filter when one is set (\<open>active\<close> selects the active records,
  any other non-empty value the inactive ones).\<close>
lemma filteredEmployees_spec:
  "subseq (filteredEmployees c) (employees c) \<and>
   (e \<in> set (filteredEmployees c) \<longleftrightarrow>
      e \<in> set (employees c) \<and>
      sublist (toLowerCase (search (filters c))) (toLowerCase (name e)) \<and>
      (filter_gender (filters c) = [] \<or> gender_str (gender e) = filter_gender (filters c)) \<and>
      (status (filters c) = [] \<or> (status (filters c) = ''active'' \<and> active e) \<or>
       (status (filters c) \<noteq> ''active'' \<and> \<not> active e)))"
  by (auto simp: filteredEmployees_def matchesFilters_def js_includes_sublist)


text \<open>C2: the counts the dashboard shows agree with the list's status filter: the
  active count is the number of records the list shows when the status select is
  set to \<open>active\<close> (and nothing else is filtered), the inactive count the number
  it shows under \<open>inactive\<close>, and the total is their sum; changing the filters
  changes no count.\<close>
lemma stats_spec:
  "total (stats c) = active_count (stats c) + inactive_count (stats c) \<and>
   active_count (stats c) =
     length (filteredEmployees (c\<lparr>filters := \<lparr>search = [], filter_gender = [], status = ''active''\<rparr>\<rparr>)) \<and>
   inactive_count (stats c) =
     length (filteredEmployees (c\<lparr>filters := \<lparr>search = [], filter_gender = [], status = ''inactive''\<rparr>\<rparr>)) \<and>
   stats (c\<lparr>filters := f\<rparr>) = stats c"
  using stats_total_split [of c]
  by (simp add: stats_def filteredEmployees_def matchesFilters_status_only)

subsection \<open>Update, delete and toggle\<close>

text \<open>After \<open>updateEmployee now i data\<close>, looking up \<open>i\<close> gives the record found
  before with its six form fields replaced by \<open>data\<close> and \<open>updatedAt\<close> set to
  \<open>now\<close>; its identifier and \<open>createdAt\<close> are kept; no record is found if none was.\<close>
lemma getEmployeeById_updateEmployee:
  "getEmployeeById i (fst (updateEmployee now i d s)) =
   map_option (\<lambda>e. e\<lparr>name := name d, gender := gender d, dob := dob d, state := state d,
                       emp_image := emp_image d, active := active d, updatedAt := now\<rparr>)
     (getEmployeeById i (fst s))"
  unfolding getEmployeeById_def employees_updateEmployee
  by (rule find_map_if) simp


text \<open>C3: update, delete and toggle with an identifier no record has leave the
  collection unchanged.\<close>
lemma ops_absent_id_noop:
  assumes "i \<notin> emp_id ` set (employees (fst s))"
  shows "employees (fst (updateEmployee now i d s)) = employees (fst s) \<and>
         employees (fst (deleteEmployee i s)) = employees (fst s) \<and>
         employees (fst (toggleEmployeeStatus now i s)) = employees (fst s)"
  using assms
  by (auto simp: employees_updateEmployee employees_deleteEmployee employees_toggleEmployeeStatus
           intro!: map_if_no_match)


theorem ops_absent_id_noop_witness:
  "''EMP9999'' \<notin> emp_id ` set (employees (fst (init_emp_ctx\<lparr>employees := SAMPLE_EMPLOYEES (\<lambda>k. k)\<rparr>, Map.empty :: storage))) \<and>
   employees (fst (deleteEmployee ''EMP9999'' (init_emp_ctx\<lparr>employees := SAMPLE_EMPLOYEES (\<lambda>k. k)\<rparr>, Map.empty :: storage))) =
   SAMPLE_EMPLOYEES (\<lambda>k. k)"
  using ops_absent_id_noop [of "''EMP9999''" "(init_emp_ctx\<lparr>employees := SAMPLE_EMPLOYEES (\<lambda>k. k)\<rparr>, Map.empty :: storage)" 9 "form_of (hd (SAMPLE_EMPLOYEES (\<lambda>k. k)))"]
  by (simp add: SAMPLE_EMPLOYEES_def)

text \<open>Toggling the same record twice restores every \<open>active\<close> flag; only the
  matching records' \<open>updatedAt\<close> changes, to the second clock reading.\<close>
lemma toggle_twice:
  "employees (fst (toggleEmployeeStatus t2 i (toggleEmployeeStatus t1 i s))) =
   map (\<lambda>emp. if emp_id emp = i then emp\<lparr>updatedAt := t2\<rparr> else emp) (employees (fst s))"
  by (simp add: employees_toggleEmployeeStatus map_if_comp)



subsection \<open>Adding and identifiers\<close>

lemma generateId_parts:
  assumes "r < 10000"
  shows "length (generateId r) = 7 \<and> take 3 (generateId r) = ''EMP'' \<and>
         parse_dec (drop 3 (generateId r)) = Some r"
proof -
  have "length (dec_string r) \<le> 4"
    using assms by (intro length_dec_string_le) simp_all
  then show ?thesis
    by (simp add: generateId_def padStart_def parse_dec_padStart_dec_string [unfolded padStart_def])
qed

lemma generateId_inj: "inj generateId"
proof (rule injI)
  fix a b assume "generateId a = generateId b"
  then have "parse_dec (padStart 4 (CHR ''0'') (dec_string a)) = parse_dec (padStart 4 (CHR ''0'') (dec_string b))"
    by (simp add: generateId_def)
  then show "a = b" by (simp add: parse_dec_padStart_dec_string)
qed

text \<open>When the generated identifier is not yet in the collection, looking it
  up after \<open>addEmployee\<close> gives the new record: the submitted form fields, the
  identifier and the two clock readings as \<open>createdAt\<close> and \<open>updatedAt\<close>.\<close>

lemma getEmployeeById_addEmployee_fresh:
  assumes "generateId r \<notin> emp_id ` set (employees (fst s))"
  shows "getEmployeeById (generateId r) (fst (addEmployee r t1 t2 d s)) =
         Some \<lparr>name = name d, gender = gender d, dob = dob d, state = state d,
               emp_image = emp_image d, active = active d, emp_id = generateId r,
               createdAt = t1, updatedAt = t2\<rparr>"
proof -
  have "find (\<lambda>emp. emp_id emp = generateId r) (employees (fst s)) = None"
    using assms by (auto simp: find_None_iff_all intro: rev_image_eqI)
  then show ?thesis
    by (simp add: getEmployeeById_def employees_addEmployee find_append_none)
qed

theorem getEmployeeById_addEmployee_fresh_witness:
  "generateId 7 \<notin> emp_id ` set (employees (fst (init_emp_ctx\<lparr>employees := SAMPLE_EMPLOYEES (\<lambda>k. k)\<rparr>, Map.empty :: storage))) \<and>
   getEmployeeById (generateId 7) (fst (addEmployee 7 10 11 (form_of (hd (SAMPLE_EMPLOYEES (\<lambda>k. k)))) (init_emp_ctx\<lparr>employees := SAMPLE_EMPLOYEES (\<lambda>k. k)\<rparr>, Map.empty :: storage))) =
   Some \<lparr>name = ''Rahul Sharma'', gender = Male, dob = ''1995-04-12'', state = ''Maharashtra'',
         emp_image = '''', active = True, emp_id = generateId 7, createdAt = 10, updatedAt = 11\<rparr>"
  using getEmployeeById_addEmployee_fresh [of 7 "(init_emp_ctx\<lparr>employees := SAMPLE_EMPLOYEES (\<lambda>k. k)\<rparr>, Map.empty :: storage)" 10 11 "form_of (hd (SAMPLE_EMPLOYEES (\<lambda>k. k)))"]
  by (simp add: SAMPLE_EMPLOYEES_def init_emp_ctx_def generateId_def js_string_eval)

text \<open>C4: for every draw of \<open>Math.floor(Math.random() * 10000)\<close> the identifier is
  \<open>EMP\<close> followed by four digits, and the digits read back give the draw.\<close>

lemma generateId_format:
  assumes "r < 10000"
  shows "length (generateId r) = 7 \<and> take 3 (generateId r) = ''EMP'' \<and>
         parse_dec (drop 3 (generateId r)) = Some r"
  using assms by (rule generateId_parts)

theorem generateId_format_witness:
  "(42::nat) < 10000 \<and> length (generateId 42) = 7 \<and> take 3 (generateId 42) = ''EMP'' \<and>
   parse_dec (drop 3 (generateId 42)) = Some 42"
  using generateId_format [of 42] by simp

text \<open>No generated identifier equals an identifier of the seed records, whose
  identifiers have three digits.\<close>

lemma generateId_not_sample:
  "r < 10000 \<Longrightarrow> generateId r \<notin> emp_id ` set (SAMPLE_EMPLOYEES clk)"
  using generateId_format [of r] by (auto simp: SAMPLE_EMPLOYEES_def)

theorem generateId_not_sample_witness:
  "(1::nat) < 10000 \<and> generateId 1 \<notin> emp_id ` set (SAMPLE_EMPLOYEES (\<lambda>k. k))"
  using generateId_not_sample [of 1 "\<lambda>k. k"] by simp

text \<open>\<open>addEmployee\<close> does not check the generated identifier against the
  collection. From a collection with distinct identifiers, a draw that repeats an
  existing identifier gives two records with the same identifier; lookup then
  finds the older one, and deleting the new record from its row deletes both.\<close>

lemma add_duplicate_then_delete_both:
  "let s0 = (init_emp_ctx\<lparr>employees := [\<lparr>name = ''Asha'', gender = Female, dob = ''1990-01-01'', state = ''Goa'',
               emp_image = '''', active = True, emp_id = ''EMP0042'', createdAt = 0, updatedAt = 0\<rparr>]\<rparr>, Map.empty :: storage);
       d = \<lparr>name = ''Ravi'', gender = Male, dob = ''1991-02-02'', state = ''Goa'', emp_image = '''', active = True\<rparr>;
       s1 = addEmployee 42 5 5 d s0
   in distinct (map emp_id (employees (fst s0))) \<and> \<not> distinct (map emp_id (employees (fst s1))) \<and>
      length (employees (fst s1)) = 2 \<and>
      getEmployeeById (generateId 42) (fst s1) = Some (hd (employees (fst s0))) \<and>
      employees (fst (deleteEmployee (generateId 42) s1)) = []"
  by (simp add: Let_def employees_addEmployee employees_deleteEmployee getEmployeeById_def init_emp_ctx_def generateId_def js_string_eval)



subsection \<open>Delete, identifier uniqueness, filters\<close>

text \<open>C5: after \<open>deleteEmployee i\<close> no record has identifier \<open>i\<close>, the remaining
  records keep their order, and exactly the records with identifier \<open>i\<close> are gone.\<close>

lemma deleteEmployee_spec:
  "i \<notin> emp_id ` set (employees (fst (deleteEmployee i s))) \<and>
   subseq (employees (fst (deleteEmployee i s))) (employees (fst s)) \<and>
   length (employees (fst (deleteEmployee i s))) + count_list (map emp_id (employees (fst s))) i =
   length (employees (fst s))"
proof -
  have "length (filter (\<lambda>emp. emp_id emp \<noteq> i) xs) + count_list (map emp_id xs) i = length xs" for xs :: "employee list"
    by (induction xs) auto
  then show ?thesis by (auto simp: employees_deleteEmployee)
qed

text \<open>Update, toggle and delete keep the identifiers of a collection distinct
  when they were distinct.\<close>

lemma distinct_ids_preserved:
  assumes "distinct (map emp_id (employees (fst s)))"
  shows "distinct (map emp_id (employees (fst (updateEmployee t i d s)))) \<and>
         distinct (map emp_id (employees (fst (toggleEmployeeStatus t i s)))) \<and>
         distinct (map emp_id (employees (fst (deleteEmployee i s))))"
  using assms
  by (simp add: employees_updateEmployee employees_toggleEmployeeStatus employees_deleteEmployee
                filter_key_keys)

theorem distinct_ids_preserved_witness:
  "distinct (map emp_id (employees (fst (init_emp_ctx\<lparr>employees := SAMPLE_EMPLOYEES (\<lambda>k. k)\<rparr>, Map.empty :: storage)))) \<and>
   distinct (map emp_id (employees (fst (toggleEmployeeStatus 9 ''EMP002'' (init_emp_ctx\<lparr>employees := SAMPLE_EMPLOYEES (\<lambda>k. k)\<rparr>, Map.empty :: storage)))))"
  using distinct_ids_preserved [of "(init_emp_ctx\<lparr>employees := SAMPLE_EMPLOYEES (\<lambda>k. k)\<rparr>, Map.empty :: storage)" 9 "''EMP002''" "form_of (hd (SAMPLE_EMPLOYEES (\<lambda>k. k)))"]
  by (simp add: SAMPLE_EMPLOYEES_def init_emp_ctx_def)

text \<open>\<open>setFilters\<close> overrides exactly the given filter fields, keeps the
  others, and touches neither the collection nor the storage.\<close>

lemma setFilters_spec:
  "employees (fst (setFilters p s)) = employees (fst s) \<and> snd (setFilters p s) = snd s \<and>
   search (filters (fst (setFilters p s))) = (case search_p p of None \<Rightarrow> search (filters (fst s)) | Some v \<Rightarrow> v) \<and>
   filter_gender (filters (fst (setFilters p s))) = (case gender_p p of None \<Rightarrow> filter_gender (filters (fst s)) | Some v \<Rightarrow> v) \<and>
   status (filters (fst (setFilters p s))) = (case status_p p of None \<Rightarrow> status (filters (fst s)) | Some v \<Rightarrow> v)"
  by (simp add: setFilters_def Let_def)


subsection \<open>Mounting on malformed storage\<close>


end
