(* ===== verification/Employee_Lifecycle.thy ===== *)
theory Employee_Lifecycle
  imports Employee_Store
begin

text \<open>
  The employee store over time. A world is the provider state, the browser
  storage and the latest clock reading; \<open>emp_trans\<close> is one user action on the
  dashboard (one operation of \<open>EmployeeContext.tsx\<close>, with the clock readings it
  takes no earlier than the clock) or the clock advancing. \<open>emp_reach\<close> holds
  of the worlds reachable from a mount of the provider on any storage. The
  theory shows the write-through invariant (the storage always holds the
  collection), what a reload of the page gives, and the timestamp order.
\<close>

section \<open>Worlds and transitions\<close>

record emp_world =
  ctx :: emp_ctx
  disk :: storage
  clock :: timestamp

definition world_of :: "emp_state \<Rightarrow> timestamp \<Rightarrow> emp_world" where
  "world_of s t = \<lparr>ctx = fst s, disk = snd s, clock = t\<rparr>"

inductive emp_trans :: "emp_world \<Rightarrow> emp_world \<Rightarrow> bool" where
  add: "clock w \<le> t1 \<Longrightarrow> t1 \<le> t2 \<Longrightarrow> r < 10000 \<Longrightarrow>
        emp_trans w (world_of (addEmployee r t1 t2 d (ctx w, disk w)) t2)"
| update: "clock w \<le> t \<Longrightarrow> emp_trans w (world_of (updateEmployee t i d (ctx w, disk w)) t)"
| delete: "emp_trans w (world_of (deleteEmployee i (ctx w, disk w)) (clock w))"
| toggle: "clock w \<le> t \<Longrightarrow> emp_trans w (world_of (toggleEmployeeStatus t i (ctx w, disk w)) t)"
| set_filters: "emp_trans w (world_of (setFilters p (ctx w, disk w)) (clock w))"
| tick: "clock w \<le> t \<Longrightarrow> emp_trans w (w\<lparr>clock := t\<rparr>)"

inductive emp_reach :: "(nat \<Rightarrow> timestamp) \<Rightarrow> emp_world \<Rightarrow> bool" for clk where
  mount: "mount_employees (SAMPLE_EMPLOYEES clk) init_emp_ctx st = Inr s \<Longrightarrow>
          emp_reach clk (world_of s t)"
| step: "emp_reach clk w \<Longrightarrow> emp_trans w w' \<Longrightarrow> emp_reach clk w'"

section \<open>Invariants\<close>

text \<open>Write-through: the stored collection decodes to the collection in state.\<close>

definition persisted :: "emp_state \<Rightarrow> bool" where
  "persisted s \<longleftrightarrow> decode_employees (getItem EMPLOYEES (JArr []) (snd s)) = Some (employees (fst s))"

text \<open>Timestamps: each record was created no later than its last update, which
  is no later than the clock.\<close>

definition ts_ok :: "emp_world \<Rightarrow> bool" where
  "ts_ok w \<longleftrightarrow> (\<forall>e\<in>set (employees (ctx w)). createdAt e \<le> updatedAt e \<and> updatedAt e \<le> clock w)"


section \<open>Properties\<close>

lemma world_of_fields [simp]:
  "ctx (world_of s t) = fst s" "disk (world_of s t) = snd s" "clock (world_of s t) = t"
  by (simp_all add: world_of_def)

lemma persisted_saveEmployees [ems_inv]: "persisted (saveEmployees es s)"
  by (simp add: persisted_def)

lemma persisted_ops [ems_inv]:
  "persisted (addEmployee r t1 t2 d s)" "persisted (updateEmployee t i d s)"
  "persisted (deleteEmployee i s)" "persisted (toggleEmployeeStatus t i s)"
  by (simp_all add: addEmployee_def updateEmployee_def deleteEmployee_def toggleEmployeeStatus_def
      Let_def persisted_saveEmployees)

lemma persisted_setFilters [ems_inv]: "persisted s \<Longrightarrow> persisted (setFilters p s)"
  by (simp add: persisted_def setFilters_def Let_def)

lemma mount_persisted:
  "mount_employees samples c st = Inr s \<Longrightarrow> persisted s"
  by (auto simp: mount_employees_def persisted_def Let_def split: if_splits option.splits)

lemma emp_trans_persisted:
  "emp_trans w w' \<Longrightarrow> persisted (ctx w, disk w) \<Longrightarrow> persisted (ctx w', disk w')"
  by (induction rule: emp_trans.induct) (simp_all add: ems_inv)

text \<open>C7: in every world reachable from a mount, the storage holds the collection
  in state: every mutation writes the whole collection through, and
  \<open>setFilters\<close> writes nothing that would need it.\<close>

theorem reach_persisted: "emp_reach clk w \<Longrightarrow> persisted (ctx w, disk w)"
proof (induction rule: emp_reach.induct)
  case (mount st s t)
  then show ?case by (simp add: mount_persisted)
next
  case (step w w')
  from step.hyps(2) step.IH show ?case by (rule emp_trans_persisted)
qed

theorem reach_persisted_witness:
  "emp_reach (\<lambda>k. k) (world_of (init_emp_ctx\<lparr>employees := SAMPLE_EMPLOYEES (\<lambda>k. k)\<rparr>,
      setItem EMPLOYEES (encode_employees (SAMPLE_EMPLOYEES (\<lambda>k. k))) Map.empty) 8) \<and>
   persisted (init_emp_ctx\<lparr>employees := SAMPLE_EMPLOYEES (\<lambda>k. k)\<rparr>,
      setItem EMPLOYEES (encode_employees (SAMPLE_EMPLOYEES (\<lambda>k. k))) Map.empty)"
proof -
  have r: "emp_reach (\<lambda>k. k) (world_of (init_emp_ctx\<lparr>employees := SAMPLE_EMPLOYEES (\<lambda>k. k)\<rparr>,
      setItem EMPLOYEES (encode_employees (SAMPLE_EMPLOYEES (\<lambda>k. k))) Map.empty) 8)"
    by (rule emp_reach.mount [where st = Map.empty]) (simp add: mount_employees_def Let_def)
  from reach_persisted [OF r] r show ?thesis by simp
qed

lemma mount_from_saved:
  assumes "decode_employees (getItem EMPLOYEES (JArr []) st) = Some es"
  shows "mount_employees samples c st =
         (if es = [] then Inr (c\<lparr>employees := samples\<rparr>, setItem EMPLOYEES (encode_employees samples) st)
          else Inr (c\<lparr>employees := es\<rparr>, st))"
proof -
  obtain v where v: "getItem EMPLOYEES (JArr []) st = v" by simp
  with assms have dec: "decode_employees v = Some es" by simp
  then obtain js where js: "v = JArr js" and len: "length js = length es"
    by (cases v) (auto dest: those_length)
  from len have "js = [] \<longleftrightarrow> es = []" by auto
  then show ?thesis using v dec js by (simp add: mount_employees_def Let_def)
qed

text \<open>C8: reloading the page on the storage a session left behind gives back the
  same collection, with the filters reset; except when the collection was
  empty, which reloads the four seed records and writes them through.\<close>

theorem restart_reload:
  assumes "persisted s"
  shows "mount_employees samples init_emp_ctx (snd s) =
         (if employees (fst s) = []
          then Inr (init_emp_ctx\<lparr>employees := samples\<rparr>, setItem EMPLOYEES (encode_employees samples) (snd s))
          else Inr (init_emp_ctx\<lparr>employees := employees (fst s)\<rparr>, snd s))"
  using assms by (simp add: persisted_def mount_from_saved)

theorem restart_reload_witness:
  "persisted (deleteEmployee ''EMP001'' (init_emp_ctx\<lparr>employees := [hd (SAMPLE_EMPLOYEES (\<lambda>k. k))]\<rparr>, Map.empty)) \<and>
   mount_employees (SAMPLE_EMPLOYEES (\<lambda>k. k)) init_emp_ctx
     (snd (deleteEmployee ''EMP001'' (init_emp_ctx\<lparr>employees := [hd (SAMPLE_EMPLOYEES (\<lambda>k. k))]\<rparr>, Map.empty))) =
   Inr (init_emp_ctx\<lparr>employees := SAMPLE_EMPLOYEES (\<lambda>k. k)\<rparr>,
        setItem EMPLOYEES (encode_employees (SAMPLE_EMPLOYEES (\<lambda>k. k)))
          (snd (deleteEmployee ''EMP001'' (init_emp_ctx\<lparr>employees := [hd (SAMPLE_EMPLOYEES (\<lambda>k. k))]\<rparr>, Map.empty))))"
  (is "persisted ?s \<and> ?m")
proof -
  have p: "persisted ?s" by (rule persisted_ops)
  have e: "employees (fst ?s) = []"
    by (simp add: employees_deleteEmployee SAMPLE_EMPLOYEES_def)
  have "mount_employees (SAMPLE_EMPLOYEES (\<lambda>k. k)) init_emp_ctx (snd ?s) =
        (if employees (fst ?s) = []
         then Inr (init_emp_ctx\<lparr>employees := SAMPLE_EMPLOYEES (\<lambda>k. k)\<rparr>,
                   setItem EMPLOYEES (encode_employees (SAMPLE_EMPLOYEES (\<lambda>k. k))) (snd ?s))
         else Inr (init_emp_ctx\<lparr>employees := employees (fst ?s)\<rparr>, snd ?s))"
    by (rule restart_reload [OF p])
  with e have ?m by (simp only: simp_thms if_True)
  with p show ?thesis by blast
qed

lemma emp_trans_ts_ok:
  "emp_trans w w' \<Longrightarrow> ts_ok w \<Longrightarrow> ts_ok w'"
proof (induction rule: emp_trans.induct)
  case (add w t1 t2 r d)
  then show ?case by (fastforce simp: ts_ok_def employees_addEmployee)
next
  case (update w t i d)
  then show ?case by (fastforce simp: ts_ok_def employees_updateEmployee)
next
  case (delete w i)
  then show ?case by (simp add: ts_ok_def employees_deleteEmployee)
next
  case (toggle w t i)
  then show ?case by (fastforce simp: ts_ok_def employees_toggleEmployeeStatus)
next
  case (set_filters w p)
  then show ?case by (simp add: ts_ok_def setFilters_def Let_def)
next
  case (tick w t)
  then show ?case by (fastforce simp: ts_ok_def)
qed

text \<open>C11: with a clock that does not run backwards, every run of user actions
  keeps each record's \<open>createdAt\<close> no later than its \<open>updatedAt\<close>, and both no
  later than the clock.\<close>

theorem ts_ok_steps: "emp_trans\<^sup>*\<^sup>* w w' \<Longrightarrow> ts_ok w \<Longrightarrow> ts_ok w'"
  by (induction rule: rtranclp_induct) (auto intro: emp_trans_ts_ok)

theorem ts_ok_steps_witness:
  "emp_trans\<^sup>*\<^sup>* (world_of (init_emp_ctx\<lparr>employees := SAMPLE_EMPLOYEES (\<lambda>k. k)\<rparr>, Map.empty) 7)
     (world_of (toggleEmployeeStatus 9 ''EMP003'' (init_emp_ctx\<lparr>employees := SAMPLE_EMPLOYEES (\<lambda>k. k)\<rparr>, Map.empty)) 9) \<and>
   ts_ok (world_of (init_emp_ctx\<lparr>employees := SAMPLE_EMPLOYEES (\<lambda>k. k)\<rparr>, Map.empty) 7) \<and>
   ts_ok (world_of (toggleEmployeeStatus 9 ''EMP003'' (init_emp_ctx\<lparr>employees := SAMPLE_EMPLOYEES (\<lambda>k. k)\<rparr>, Map.empty)) 9)"
proof -
  let ?w0 = "world_of (init_emp_ctx\<lparr>employees := SAMPLE_EMPLOYEES (\<lambda>k. k)\<rparr>, Map.empty) 7"
  let ?w1 = "world_of (toggleEmployeeStatus 9 ''EMP003'' (init_emp_ctx\<lparr>employees := SAMPLE_EMPLOYEES (\<lambda>k. k)\<rparr>, Map.empty)) 9"
  have t: "emp_trans ?w0 ?w1"
    using emp_trans.toggle [of ?w0 9 "''EMP003''"] by simp
  have i: "ts_ok ?w0" by (simp add: ts_ok_def SAMPLE_EMPLOYEES_def)
  from t have s: "emp_trans\<^sup>*\<^sup>* ?w0 ?w1" by (rule r_into_rtranclp)
  from s i ts_ok_steps [OF s i] show ?thesis by simp
qed

text \<open>\<open>addEmployee\<close> reads the clock twice, once for \<open>createdAt\<close> and once for
  \<open>updatedAt\<close>; when the clock advances between the two reads, the new record
  has a \<open>createdAt\<close> earlier than its \<open>updatedAt\<close>.\<close>

theorem add_timestamps_may_differ:
  "let w0 = world_of (init_emp_ctx, Map.empty) 5;
       w1 = world_of (addEmployee 3 5 6 \<lparr>name = ''Ravi'', gender = Male, dob = ''1991-02-02'',
               state = ''Goa'', emp_image = '''', active = True\<rparr> (ctx w0, disk w0)) 6
   in emp_trans w0 w1 \<and> createdAt (last (employees (ctx w1))) = 5 \<and> updatedAt (last (employees (ctx w1))) = 6"
  unfolding Let_def
  by (intro conjI emp_trans.add) (simp_all add: employees_addEmployee init_emp_ctx_def)


end
