(* ===== verification/Employee_Bounds.thy ===== *)
theory Employee_Bounds
  imports Employee_Lifecycle
begin

text \<open>
  Identifiers over the life of the store. \<open>generateId\<close> draws
  \<open>Math.floor(Math.random() * 10000)\<close>, so every identifier the store creates is
  one of ten thousand strings, and the seed records bring four more. This theory
  shows the format every identifier of a first run has (the type of \<open>id\<close> the
  spec gives: \<open>EMP\<close> and zero-padded digits), bounds the number of distinct
  identifiers a collection can ever hold, and bounds how fast a run of the
  dashboard can grow the collection.
\<close>

section \<open>Identifier format and identifier space\<close>

text \<open>An identifier of the shape the code produces: \<open>EMP\<close> followed by three
  (the seed records) or four (\<open>generateId\<close>) decimal digits.\<close>

definition emp_id_ok :: "string \<Rightarrow> bool" where
  "emp_id_ok i \<longleftrightarrow> take 3 i = ''EMP'' \<and> (length i = 6 \<or> length i = 7) \<and> parse_dec (drop 3 i) \<noteq> None"

definition ids_ok :: "emp_ctx \<Rightarrow> bool" where
  "ids_ok c \<longleftrightarrow> list_all (\<lambda>e. emp_id_ok (emp_id e)) (employees c)"

text \<open>The identifiers a first run can ever hold: the seed identifiers and the
  ten thousand values of \<open>generateId\<close>.\<close>

definition id_space :: "string set" where
  "id_space = emp_id ` set (SAMPLE_EMPLOYEES (\<lambda>_. 0)) \<union> generateId ` {..<10000}"


section \<open>Lemmas\<close>

lemma sample_ids [simp]: "map emp_id (SAMPLE_EMPLOYEES clk) = [''EMP001'', ''EMP002'', ''EMP003'', ''EMP004'']"
  by (simp add: SAMPLE_EMPLOYEES_def)

lemma sample_ids_image: "emp_id ` set (SAMPLE_EMPLOYEES clk) = emp_id ` set (SAMPLE_EMPLOYEES (\<lambda>_. 0))"
  by (simp only: list.set_map [symmetric] sample_ids)

lemma image_map_if_keys:
  "(\<And>x. key (f x) = key x) \<Longrightarrow> key ` set (map (\<lambda>x. if P x then f x else x) xs) = key ` set xs"
  by (simp only: list.set_map [symmetric] map_if_keys)

lemma emp_trans_ids:
  "emp_trans w w' \<Longrightarrow> emp_id ` set (employees (ctx w')) \<subseteq> emp_id ` set (employees (ctx w)) \<union> generateId ` {..<10000}"
proof (induction rule: emp_trans.induct)
  case (add w t1 t2 r d)
  then have "generateId r \<in> generateId ` {..<10000}" by simp
  then show ?case by (simp add: employees_addEmployee new_employee_eq)
next
  case (update w t i d)
  show ?case unfolding world_of_fields employees_updateEmployee by (subst image_map_if_keys) auto
next
  case (delete w i)
  show ?case by (simp add: employees_deleteEmployee image_mono le_supI1)
next
  case (toggle w t i)
  show ?case unfolding world_of_fields employees_toggleEmployeeStatus by (subst image_map_if_keys) auto
qed (simp_all add: setFilters_def Let_def)

lemma mount_first_run:
  "mount_employees samples init_emp_ctx Map.empty =
     Inr (init_emp_ctx\<lparr>employees := samples\<rparr>, setItem EMPLOYEES (encode_employees samples) Map.empty)"
  by (simp add: mount_employees_def Let_def)

lemma run_ids_space:
  assumes "mount_employees (SAMPLE_EMPLOYEES clk) init_emp_ctx Map.empty = Inr s"
    and "emp_trans\<^sup>*\<^sup>* (world_of s t) w"
  shows "emp_id ` set (employees (ctx w)) \<subseteq> id_space"
  using assms(2)
proof (induction rule: rtranclp_induct)
  case base
  from assms(1) have "employees (ctx (world_of s t)) = SAMPLE_EMPLOYEES clk"
    by (auto simp: mount_first_run)
  moreover have "emp_id ` set (SAMPLE_EMPLOYEES clk) \<subseteq> id_space"
    by (subst sample_ids_image) (simp add: id_space_def)
  ultimately show ?case by simp
next
  case (step w w')
  have "generateId ` {..<10000} \<subseteq> id_space" by (simp add: id_space_def)
  with emp_trans_ids [OF step.hyps(2)] step.IH show ?case by (meson Un_least order_trans)
qed

lemma card_sample_ids: "card (emp_id ` set (SAMPLE_EMPLOYEES clk)) = 4"
  by (simp add: SAMPLE_EMPLOYEES_def)

lemma card_generated_ids: "card (generateId ` {..<(10000::nat)}) = 10000"
proof -
  have "inj_on generateId {..<(10000::nat)}"
    using generateId_inj by (rule inj_on_subset) simp
  then have "card (generateId ` {..<(10000::nat)}) = card {..<(10000::nat)}"
    by (rule card_image)
  then show ?thesis by simp
qed

lemma card_id_space: "card id_space \<le> 10004"
  using card_Un_le [of "emp_id ` set (SAMPLE_EMPLOYEES (\<lambda>_. 0))" "generateId ` {..<(10000::nat)}"]
  unfolding id_space_def card_sample_ids card_generated_ids by simp

lemma finite_id_space: "finite id_space"
  unfolding id_space_def by (intro finite_UnI finite_imageI) simp_all

lemma generateId_ok: "r < 10000 \<Longrightarrow> emp_id_ok (generateId r)"
  using generateId_parts [of r] by (simp add: emp_id_ok_def)

lemma sample_ids_ok: "\<forall>i\<in>emp_id ` set (SAMPLE_EMPLOYEES clk). emp_id_ok i"
  by (simp add: SAMPLE_EMPLOYEES_def emp_id_ok_def js_string_eval)

lemma id_space_ok: "i \<in> id_space \<Longrightarrow> emp_id_ok i"
  using sample_ids_ok generateId_ok by (auto simp: id_space_def)

lemma emp_trans_length:
  "emp_trans w w' \<Longrightarrow> length (employees (ctx w')) \<le> Suc (length (employees (ctx w)))"
  by (induction rule: emp_trans.induct)
     (simp_all add: employees_addEmployee employees_updateEmployee employees_deleteEmployee
                    employees_toggleEmployeeStatus setFilters_def Let_def le_SucI)


lemma first_run_step:
  "emp_trans (world_of (init_emp_ctx\<lparr>employees := SAMPLE_EMPLOYEES (\<lambda>k. k)\<rparr>,
                        setItem EMPLOYEES (encode_employees (SAMPLE_EMPLOYEES (\<lambda>k. k))) Map.empty) 7)
             (world_of (addEmployee 42 8 8 (form_of (hd (SAMPLE_EMPLOYEES (\<lambda>k. k))))
                 (init_emp_ctx\<lparr>employees := SAMPLE_EMPLOYEES (\<lambda>k. k)\<rparr>,
                  setItem EMPLOYEES (encode_employees (SAMPLE_EMPLOYEES (\<lambda>k. k))) Map.empty)) 8)"
  using emp_trans.add [of "world_of (init_emp_ctx\<lparr>employees := SAMPLE_EMPLOYEES (\<lambda>k. k)\<rparr>,
      setItem EMPLOYEES (encode_employees (SAMPLE_EMPLOYEES (\<lambda>k. k))) Map.empty) 7" 8 8 42
      "form_of (hd (SAMPLE_EMPLOYEES (\<lambda>k. k)))"]
  by simp

lemma first_run_star: "emp_trans\<^sup>*\<^sup>* (world_of (init_emp_ctx\<lparr>employees := SAMPLE_EMPLOYEES (\<lambda>k. k)\<rparr>,
                        setItem EMPLOYEES (encode_employees (SAMPLE_EMPLOYEES (\<lambda>k. k))) Map.empty) 7) (world_of (addEmployee 42 8 8 (form_of (hd (SAMPLE_EMPLOYEES (\<lambda>k. k))))
                 (init_emp_ctx\<lparr>employees := SAMPLE_EMPLOYEES (\<lambda>k. k)\<rparr>,
                  setItem EMPLOYEES (encode_employees (SAMPLE_EMPLOYEES (\<lambda>k. k))) Map.empty)) 8)"
  using first_run_step by (rule r_into_rtranclp)

lemma first_run_pow: "(emp_trans ^^ 1) (world_of (init_emp_ctx\<lparr>employees := SAMPLE_EMPLOYEES (\<lambda>k. k)\<rparr>,
                        setItem EMPLOYEES (encode_employees (SAMPLE_EMPLOYEES (\<lambda>k. k))) Map.empty) 7) (world_of (addEmployee 42 8 8 (form_of (hd (SAMPLE_EMPLOYEES (\<lambda>k. k))))
                 (init_emp_ctx\<lparr>employees := SAMPLE_EMPLOYEES (\<lambda>k. k)\<rparr>,
                  setItem EMPLOYEES (encode_employees (SAMPLE_EMPLOYEES (\<lambda>k. k))) Map.empty)) 8)"
  using first_run_step by (simp add: relcompp.relcompI)


section \<open>Properties\<close>

text \<open>C27: on a first run (empty storage, so the seed records are loaded), every
  record of every reachable collection has an identifier of the form \<open>EMP\<close>
  followed by three or four decimal digits.\<close>

theorem ids_well_formed:
  assumes "mount_employees (SAMPLE_EMPLOYEES clk) init_emp_ctx Map.empty = Inr s"
    and "emp_trans\<^sup>*\<^sup>* (world_of s t) w"
  shows "ids_ok (ctx w)"
  using run_ids_space [OF assms] id_space_ok by (auto simp: ids_ok_def list_all_iff)

theorem ids_well_formed_witness:
  "ids_ok (ctx (world_of (addEmployee 42 8 8 (form_of (hd (SAMPLE_EMPLOYEES (\<lambda>k. k))))
                 (init_emp_ctx\<lparr>employees := SAMPLE_EMPLOYEES (\<lambda>k. k)\<rparr>,
                  setItem EMPLOYEES (encode_employees (SAMPLE_EMPLOYEES (\<lambda>k. k))) Map.empty)) 8))"
  by (rule ids_well_formed [OF mount_first_run first_run_star])

text \<open>On a first run the collection never holds more than 10004 distinct
  identifiers (the four seed identifiers and the ten thousand values of
  \<open>generateId\<close>); so a collection of more than 10004 records has a repeated
  identifier.\<close>

theorem distinct_ids_bound:
  assumes "mount_employees (SAMPLE_EMPLOYEES clk) init_emp_ctx Map.empty = Inr s"
    and "emp_trans\<^sup>*\<^sup>* (world_of s t) w"
  shows "card (emp_id ` set (employees (ctx w))) \<le> 10004 \<and>
         (distinct (map emp_id (employees (ctx w))) \<longrightarrow> length (employees (ctx w)) \<le> 10004)"
proof -
  have "card (emp_id ` set (employees (ctx w))) \<le> card id_space"
    using run_ids_space [OF assms] finite_id_space by (rule card_mono [rotated])
  then have c: "card (emp_id ` set (employees (ctx w))) \<le> 10004"
    using card_id_space by simp
  moreover have "distinct (map emp_id (employees (ctx w))) \<Longrightarrow>
                 length (employees (ctx w)) = card (emp_id ` set (employees (ctx w)))"
    by (metis distinct_card length_map list.set_map)
  ultimately show ?thesis by simp
qed

theorem distinct_ids_bound_witness:
  "card (emp_id ` set (employees (ctx (world_of (addEmployee 42 8 8 (form_of (hd (SAMPLE_EMPLOYEES (\<lambda>k. k))))
                 (init_emp_ctx\<lparr>employees := SAMPLE_EMPLOYEES (\<lambda>k. k)\<rparr>,
                  setItem EMPLOYEES (encode_employees (SAMPLE_EMPLOYEES (\<lambda>k. k))) Map.empty)) 8)))) \<le> 10004"
  using distinct_ids_bound [OF mount_first_run first_run_star] by simp

text \<open>A run of \<open>n\<close> dashboard actions grows the collection by at most \<open>n\<close>
  records: only \<open>addEmployee\<close> adds, and it adds one.\<close>

theorem run_growth_bound:
  "(emp_trans ^^ n) w w' \<Longrightarrow> length (employees (ctx w')) \<le> length (employees (ctx w)) + n"
proof (induction n arbitrary: w')
  case 0
  then show ?case by simp
next
  case (Suc n)
  from Suc.prems obtain v where "(emp_trans ^^ n) w v" and "emp_trans v w'"
    by (rule relpowp_Suc_E)
  with Suc.IH emp_trans_length [of v w'] show ?case by fastforce
qed

theorem run_growth_bound_witness:
  "length (employees (ctx (world_of (addEmployee 42 8 8 (form_of (hd (SAMPLE_EMPLOYEES (\<lambda>k. k))))
                 (init_emp_ctx\<lparr>employees := SAMPLE_EMPLOYEES (\<lambda>k. k)\<rparr>,
                  setItem EMPLOYEES (encode_employees (SAMPLE_EMPLOYEES (\<lambda>k. k))) Map.empty)) 8))) \<le> 4 + 1"
  using run_growth_bound [OF first_run_pow]
  by (simp add: SAMPLE_EMPLOYEES_def)

end
