(* ===== verification/Employee_Refinement.thy ===== *)
theory Employee_Refinement
  imports Employee_Store
begin

text \<open>
  An abstract specification of the employee store and the refinement lemmas
  that relate the list the code keeps to it. The specification sees the
  collection as a map from identifiers to records, the view section 3 of the
  specification takes (identifiers are unique within the collection). Its
  operations: insert a record under a fresh identifier, rewrite the record
  under an identifier if there is one, remove an identifier. The abstraction
  function \<open>abs_map\<close> maps a list to the map of the first record of each
  identifier, which is what \<open>getEmployeeById\<close> returns.
\<close>

section \<open>Abstract store\<close>

type_synonym emp_map = "string \<rightharpoonup> employee"

definition abs_map :: "employee list \<Rightarrow> emp_map" where
  "abs_map es = map_of (map (\<lambda>e. (emp_id e, e)) es)"

definition abs_modify :: "emp_map \<Rightarrow> string \<Rightarrow> (employee \<Rightarrow> employee) \<Rightarrow> emp_map" where
  "abs_modify m i f = m(i := map_option f (m i))"

definition abs_remove :: "emp_map \<Rightarrow> string \<Rightarrow> emp_map" where
  "abs_remove m i = m(i := None)"

definition abs_insert :: "emp_map \<Rightarrow> employee \<Rightarrow> emp_map" where
  "abs_insert m e = m(emp_id e \<mapsto> e)"


section \<open>Refinement\<close>

lemma abs_map_getEmployeeById: "abs_map (employees c) i = getEmployeeById i c"
proof -
  have "map_of (map (\<lambda>e. (emp_id e, e)) xs) i = find (\<lambda>e. emp_id e = i) xs" for xs
    by (induction xs) auto
  then show ?thesis by (simp add: abs_map_def getEmployeeById_def)
qed

lemma abs_map_map_if:
  assumes "\<And>e. emp_id (f e) = emp_id e"
  shows "abs_map (map (\<lambda>e. if emp_id e = i then f e else e) es) = abs_modify (abs_map es) i f"
proof
  fix k
  show "abs_map (map (\<lambda>e. if emp_id e = i then f e else e) es) k = abs_modify (abs_map es) i f k"
    using assms by (induction es) (auto simp: abs_map_def abs_modify_def)
qed

lemma abs_map_filter: "abs_map (filter (\<lambda>e. emp_id e \<noteq> i) es) = abs_remove (abs_map es) i"
proof
  fix k
  show "abs_map (filter (\<lambda>e. emp_id e \<noteq> i) es) k = abs_remove (abs_map es) i k"
    by (induction es) (auto simp: abs_map_def abs_remove_def)
qed

lemma abs_map_snoc_fresh:
  "emp_id e \<notin> emp_id ` set es \<Longrightarrow> abs_map (es @ [e]) = abs_insert (abs_map es) e"
proof
  fix k
  assume "emp_id e \<notin> emp_id ` set es"
  then show "abs_map (es @ [e]) k = abs_insert (abs_map es) e k"
    by (induction es) (auto simp: abs_map_def abs_insert_def)
qed

text \<open>C30: the list operations implement the abstract map operations: update and
  toggle rewrite the record under the identifier, delete removes the
  identifier, and add inserts the new record, provided that its generated
  identifier is fresh (without that proviso the new record is invisible in the
  abstract view, as the identifier collision of \<open>addEmployee\<close> shows).\<close>

theorem store_refines_map:
  assumes "generateId r \<notin> emp_id ` set (employees (fst s))"
  shows "abs_map (employees (fst (updateEmployee t i d s))) =
           abs_modify (abs_map (employees (fst s))) i
             (\<lambda>e. e\<lparr>name := name d, gender := gender d, dob := dob d, state := state d,
                    emp_image := emp_image d, active := active d, updatedAt := t\<rparr>) \<and>
         abs_map (employees (fst (toggleEmployeeStatus t i s))) =
           abs_modify (abs_map (employees (fst s))) i (\<lambda>e. e\<lparr>active := \<not> active e, updatedAt := t\<rparr>) \<and>
         abs_map (employees (fst (deleteEmployee i s))) = abs_remove (abs_map (employees (fst s))) i \<and>
         abs_map (employees (fst (addEmployee r t1 t2 d s))) =
           abs_insert (abs_map (employees (fst s)))
             \<lparr>name = name d, gender = gender d, dob = dob d, state = state d, emp_image = emp_image d,
              active = active d, emp_id = generateId r, createdAt = t1, updatedAt = t2\<rparr>"
  using assms
  by (simp add: employees_updateEmployee employees_toggleEmployeeStatus employees_deleteEmployee
                employees_addEmployee abs_map_map_if abs_map_filter abs_map_snoc_fresh)

theorem store_refines_map_witness:
  "generateId 7 \<notin> emp_id ` set (employees (fst (init_emp_ctx\<lparr>employees := SAMPLE_EMPLOYEES (\<lambda>k. k)\<rparr>, Map.empty :: storage))) \<and>
   abs_map (employees (fst (deleteEmployee ''EMP002'' (init_emp_ctx\<lparr>employees := SAMPLE_EMPLOYEES (\<lambda>k. k)\<rparr>, Map.empty :: storage)))) =
     abs_remove (abs_map (employees (fst (init_emp_ctx\<lparr>employees := SAMPLE_EMPLOYEES (\<lambda>k. k)\<rparr>, Map.empty :: storage)))) ''EMP002''"
  using store_refines_map [of 7 "(init_emp_ctx\<lparr>employees := SAMPLE_EMPLOYEES (\<lambda>k. k)\<rparr>, Map.empty :: storage)"
      9 "''EMP002''" "form_of (hd (SAMPLE_EMPLOYEES (\<lambda>k. k)))" 10 11]
  by (simp add: SAMPLE_EMPLOYEES_def init_emp_ctx_def generateId_def js_string_eval)

text \<open>When identifiers are distinct, the dashboard's total is the number of
  identifiers in the abstract map.\<close>

theorem total_counts_identifiers:
  "distinct (map emp_id (employees c)) \<Longrightarrow> total (stats c) = card (dom (abs_map (employees c)))"
proof -
  assume d: "distinct (map emp_id (employees c))"
  have "dom (abs_map (employees c)) = emp_id ` set (employees c)"
    by (force simp: abs_map_def dom_map_of_conv_image_fst image_image)
  moreover have "card (emp_id ` set (employees c)) = length (employees c)"
    using distinct_card [OF d] by simp
  ultimately show ?thesis by (simp add: stats_def)
qed

theorem total_counts_identifiers_witness:
  "distinct (map emp_id (employees (init_emp_ctx\<lparr>employees := SAMPLE_EMPLOYEES (\<lambda>k. k)\<rparr>))) \<and>
   total (stats (init_emp_ctx\<lparr>employees := SAMPLE_EMPLOYEES (\<lambda>k. k)\<rparr>)) =
     card (dom (abs_map (employees (init_emp_ctx\<lparr>employees := SAMPLE_EMPLOYEES (\<lambda>k. k)\<rparr>))))"
  using total_counts_identifiers [of "init_emp_ctx\<lparr>employees := SAMPLE_EMPLOYEES (\<lambda>k. k)\<rparr>"]
  by (simp add: SAMPLE_EMPLOYEES_def)

end
