(* ===== verification/Employee_Tabs.thy ===== *)
theory Employee_Tabs
  imports Employee_Lifecycle
begin

text \<open>
  Two open views of the same persisted store (specification, section 5): two
  browser tabs, each with its own \<open>EmployeeProvider\<close>
  (\<open>src/src/context/EmployeeContext.tsx\<close>), over one storage. The provider
  reads the storage only in its mount effect and never listens for changes
  made by another tab, and each mutation writes its own whole collection
  (\<open>saveEmployees\<close>). \<open>open_tabs\<close> mounts one tab after the other;
  \<open>tab_step\<close> runs one operation of one tab (\<open>emp_step\<close>) on that tab's state
  and the shared storage; a run is a list of such steps, in the order the user
  performs them. \<open>writes\<close> says which operations write (all but
  \<open>setFilters\<close>), \<open>last_writer\<close> which tab wrote last in a run, \<open>own_ops\<close> the operations of one
  tab. The lemmas show that a tab's state is what its own operations alone make
  of it, since an operation never reads the storage, and that the storage holds
  the collection of the last tab that wrote, so every change the other tab
  made is silently lost.
\<close>

section \<open>Two tabs over one storage\<close>

datatype tab = TabA | TabB

type_synonym tabs = "emp_ctx \<times> emp_ctx \<times> storage"

definition tab_ctx :: "tab \<Rightarrow> tabs \<Rightarrow> emp_ctx" where
  "tab_ctx t x = (case t of TabA \<Rightarrow> fst x | TabB \<Rightarrow> fst (snd x))"

definition open_tabs :: "employee list \<Rightarrow> employee list \<Rightarrow> storage \<Rightarrow> mount_error + tabs" where
  "open_tabs smpA smpB st =
     (case mount_employees smpA init_emp_ctx st of
        Inl e \<Rightarrow> Inl e
      | Inr ra \<Rightarrow> (case mount_employees smpB init_emp_ctx (snd ra) of
                    Inl e \<Rightarrow> Inl e
                  | Inr rb \<Rightarrow> Inr (fst ra, fst rb, snd rb)))"

definition tab_step :: "tab \<times> emp_op \<Rightarrow> tabs \<Rightarrow> tabs" where
  "tab_step to x =
     (case to of
        (TabA, op) \<Rightarrow> (let r = emp_step op (fst x, snd (snd x)) in (fst r, fst (snd x), snd r))
      | (TabB, op) \<Rightarrow> (let r = emp_step op (fst (snd x), snd (snd x)) in (fst x, fst r, snd r)))"

fun writes :: "emp_op \<Rightarrow> bool" where
  "writes (SetFilters p) = False"
| "writes _ = True"

definition last_writer :: "(tab \<times> emp_op) list \<Rightarrow> tab option" where
  "last_writer ops = (case rev (filter (writes \<circ> snd) ops) of [] \<Rightarrow> None | w # ws \<Rightarrow> Some (fst w))"

text \<open>The operations of one tab in a run, in order.\<close>

definition own_ops :: "tab \<Rightarrow> (tab \<times> emp_op) list \<Rightarrow> (tab \<times> emp_op) list" where
  "own_ops t ops = filter (\<lambda>to. fst to = t) ops"

text \<open>The collection the storage holds, as the mount effect would read it.\<close>

definition stored_employees :: "storage \<Rightarrow> employee list option" where
  "stored_employees st = decode_employees (getItem EMPLOYEES (JArr []) st)"


section \<open>Lemmas\<close>

lemma emp_step_writes:
  "writes op \<Longrightarrow> stored_employees (snd (emp_step op s)) = Some (employees (fst (emp_step op s)))"
  using persisted_ops by (cases op) (simp_all add: persisted_def stored_employees_def)

lemma emp_step_no_write:
  "\<not> writes op \<Longrightarrow> snd (emp_step op s) = snd s \<and> employees (fst (emp_step op s)) = employees (fst s)"
  by (cases op) (simp_all add: setFilters_def Let_def)

lemma last_writer_snoc:
  "last_writer (ops @ [to]) = (if writes (snd to) then Some (fst to) else last_writer ops)"
  by (simp add: last_writer_def split: list.splits)

lemma tab_step_write:
  "writes op \<Longrightarrow>
   stored_employees (snd (snd (tab_step (t, op) x))) = Some (employees (tab_ctx t (tab_step (t, op) x)))"
  by (cases t) (simp_all add: tab_step_def tab_ctx_def Let_def emp_step_writes)

lemma tab_step_no_write:
  "\<not> writes op \<Longrightarrow>
   snd (snd (tab_step (t, op) x)) = snd (snd x) \<and>
   employees (tab_ctx t' (tab_step (t, op) x)) = employees (tab_ctx t' x)"
  using emp_step_no_write [of op]
  by (cases t; cases t') (simp_all add: tab_step_def tab_ctx_def Let_def)


text \<open>An operation's effect on the provider's state cells does not read the
  storage: the provider reads it only when it mounts.\<close>

lemma emp_step_ctx_indep: "fst (emp_step op (c, st)) = fst (emp_step op (c, st'))"
  by (cases op) (simp_all add: addEmployee_def updateEmployee_def deleteEmployee_def
                               toggleEmployeeStatus_def setFilters_def Let_def)

lemma tab_ctx_step_same: "tab_ctx t (tab_step (t, op) x) = fst (emp_step op (tab_ctx t x, snd (snd x)))"
  by (cases t) (simp_all add: tab_step_def tab_ctx_def Let_def)

lemma tab_ctx_step_other: "t' \<noteq> t \<Longrightarrow> tab_ctx t (tab_step (t', op) x) = tab_ctx t x"
  by (cases t; cases t') (simp_all add: tab_step_def tab_ctx_def Let_def)

lemma tab_ctx_own: "tab_ctx t (fold tab_step ops x) = tab_ctx t (fold tab_step (own_ops t ops) x)"
proof (induction ops rule: rev_induct)
  case Nil
  show ?case by (simp add: own_ops_def)
next
  case (snoc to ops)
  obtain t' op where to: "to = (t', op)" by (cases to)
  show ?case
  proof (cases "t' = t")
    case True
    let ?y = "fold tab_step ops x" and ?z = "fold tab_step (own_ops t ops) x"
    have "tab_ctx t (fold tab_step (ops @ [to]) x) = fst (emp_step op (tab_ctx t ?y, snd (snd ?y)))"
      by (simp add: to True tab_ctx_step_same)
    also have "\<dots> = fst (emp_step op (tab_ctx t ?z, snd (snd ?z)))"
      unfolding snoc.IH by (rule emp_step_ctx_indep)
    also have "\<dots> = tab_ctx t (fold tab_step (own_ops t (ops @ [to])) x)"
      by (simp add: to True own_ops_def tab_ctx_step_same)
    finally show ?thesis .
  next
    case False
    with snoc.IH show ?thesis by (simp add: to own_ops_def tab_ctx_step_other)
  qed
qed

lemma stored_last_writer:
  "stored_employees (snd (snd (fold tab_step ops x))) =
     (case last_writer ops of
        Some t \<Rightarrow> Some (employees (tab_ctx t (fold tab_step ops x)))
      | None \<Rightarrow> stored_employees (snd (snd x)))"
proof (induction ops rule: rev_induct)
  case Nil
  show ?case by (simp add: last_writer_def)
next
  case (snoc to ops)
  obtain t op where to: "to = (t, op)" by (cases to)
  show ?case
  proof (cases "writes op")
    case True
    then show ?thesis by (simp add: to last_writer_snoc tab_step_write)
  next
    case False
    with snoc.IH show ?thesis
      by (simp add: to last_writer_snoc tab_step_no_write split: option.splits)
  qed
qed


section \<open>Properties\<close>

text \<open>C9: last write wins and the other tab's changes are lost: in any interleaving
  of operations of the two tabs, each tab's state is what its own operations
  alone make of it (it never sees what the other tab wrote), and the storage
  holds the collection of the tab that wrote last, as its own operations alone
  built it; if neither wrote, the storage is unchanged. So every change the
  other tab made is gone from storage, although that tab still shows it.\<close>

theorem last_write_wins:
  "tab_ctx t (fold tab_step ops x) = tab_ctx t (fold tab_step (own_ops t ops) x) \<and>
   stored_employees (snd (snd (fold tab_step ops x))) =
     (case last_writer ops of
        Some w \<Rightarrow> Some (employees (tab_ctx w (fold tab_step (own_ops w ops) x)))
      | None \<Rightarrow> stored_employees (snd (snd x)))"
  using stored_last_writer [of ops x] tab_ctx_own [of t ops x] tab_ctx_own [of _ ops x]
  by (simp split: option.splits)

text \<open>A lost update: both tabs open on empty storage and show the four seed
  records; the first adds an employee, the second then toggles one. The first
  tab shows five records, but the storage, and so the next reload, holds the
  second tab's four.\<close>

lemma lost_update:
  "let x0 = (init_emp_ctx\<lparr>employees := SAMPLE_EMPLOYEES (\<lambda>k. k)\<rparr>, init_emp_ctx\<lparr>employees := SAMPLE_EMPLOYEES (\<lambda>k. k)\<rparr>,
             setItem EMPLOYEES (encode_employees (SAMPLE_EMPLOYEES (\<lambda>k. k))) Map.empty);
       d = \<lparr>name = ''Kiran Rao'', gender = Other, dob = ''1999-09-09'', state = ''Kerala'', emp_image = [], active = True\<rparr>;
       x = fold tab_step [(TabA, AddEmployee 42 9 9 d), (TabB, ToggleEmployeeStatus 10 ''EMP002'')] x0
   in open_tabs (SAMPLE_EMPLOYEES (\<lambda>k. k)) (SAMPLE_EMPLOYEES (\<lambda>k. k)) Map.empty = Inr x0 \<and>
      length (employees (tab_ctx TabA x)) = 5 \<and>
      stored_employees (snd (snd x)) = Some (employees (tab_ctx TabB x)) \<and>
      length (employees (tab_ctx TabB x)) = 4"
  by (simp add: Let_def open_tabs_def mount_employees_def tab_step_def tab_ctx_def addEmployee_def
                toggleEmployeeStatus_def stored_employees_def SAMPLE_EMPLOYEES_def encode_employees_def)

end
