(* ===== verification/Storage_Faults.thy ===== *)
theory Storage_Faults
  imports Employee_Lifecycle
begin

text \<open>
  Writes that fail. \<open>localStorage.setItem\<close> throws when the origin's quota is
  exceeded (or storage is disabled); the adapter \<open>@/utils/localStorage\<close>
  catches the exception, so the caller goes on as if the write had happened
  (specification, section 4.3: failures are swallowed). Every mutating
  operation of the employee store makes exactly one write, the last thing it
  does (\<open>saveEmployees\<close>: \<open>setEmployees\<close>, then \<open>setItem\<close>); a swallowed failure
  therefore leaves the new collection in state and the old one in storage.
  \<open>swallow ok f\<close> is the operation \<open>f\<close> with its write succeeding (\<open>ok\<close>) or
  swallowed. \<open>emp_trans_f\<close> is \<open>emp_trans\<close> with any write possibly failing, and
  \<open>emp_reach_f\<close> carries, beside the world, the collection of the last write
  that reached storage. The theory shows what a reload gives after such a run.
\<close>

section \<open>Swallowed write failures\<close>

definition swallow :: "bool \<Rightarrow> (emp_state \<Rightarrow> emp_state) \<Rightarrow> emp_state \<Rightarrow> emp_state" where
  "swallow ok f s = (if ok then f s else (fst (f s), snd s))"

inductive emp_trans_f :: "emp_world \<Rightarrow> emp_world \<Rightarrow> bool" where
  add: "clock w \<le> t1 \<Longrightarrow> t1 \<le> t2 \<Longrightarrow> r < 10000 \<Longrightarrow>
        emp_trans_f w (world_of (swallow ok (addEmployee r t1 t2 d) (ctx w, disk w)) t2)"
| update: "clock w \<le> t \<Longrightarrow> emp_trans_f w (world_of (swallow ok (updateEmployee t i d) (ctx w, disk w)) t)"
| delete: "emp_trans_f w (world_of (swallow ok (deleteEmployee i) (ctx w, disk w)) (clock w))"
| toggle: "clock w \<le> t \<Longrightarrow> emp_trans_f w (world_of (swallow ok (toggleEmployeeStatus t i) (ctx w, disk w)) t)"
| set_filters: "emp_trans_f w (world_of (setFilters p (ctx w, disk w)) (clock w))"
| tick: "clock w \<le> t \<Longrightarrow> emp_trans_f w (w\<lparr>clock := t\<rparr>)"

text \<open>Reachability with the collection of the last write that reached storage
  (at the mount, the collection the mount loaded or seeded).\<close>

inductive emp_reach_f :: "(nat \<Rightarrow> timestamp) \<Rightarrow> emp_world \<Rightarrow> employee list \<Rightarrow> bool" for clk where
  mount: "mount_employees (SAMPLE_EMPLOYEES clk) init_emp_ctx st = Inr s \<Longrightarrow>
          emp_reach_f clk (world_of s t) (employees (fst s))"
| step: "emp_reach_f clk w sv \<Longrightarrow> emp_trans_f w w' \<Longrightarrow>
         emp_reach_f clk w' (if disk w' = disk w then sv else employees (ctx w'))"

section \<open>Lemmas\<close>

lemma swallow_True [simp]: "swallow True f = f"
  by (rule ext) (simp add: swallow_def)

lemma emp_trans_emp_trans_f: "emp_trans w w' \<Longrightarrow> emp_trans_f w w'"
  by (induction rule: emp_trans.induct) (metis emp_trans_f.intros swallow_True)+

lemma disk_swallow_save:
  "snd (swallow ok f s) = snd s \<or> snd (swallow ok f s) = snd (f s)"
  by (simp add: swallow_def)

lemma emp_trans_f_disk:
  "emp_trans_f w w' \<Longrightarrow>
     disk w' = disk w \<or> disk w' = setItem EMPLOYEES (encode_employees (employees (ctx w'))) (disk w)"
  by (induction rule: emp_trans_f.induct)
     (auto simp: swallow_def addEmployee_def updateEmployee_def deleteEmployee_def
                 toggleEmployeeStatus_def setFilters_def Let_def)

lemma emp_reach_f_saved:
  "emp_reach_f clk w sv \<Longrightarrow> decode_employees (getItem EMPLOYEES (JArr []) (disk w)) = Some sv"
proof (induction rule: emp_reach_f.induct)
  case (mount st s t)
  then show ?case using mount_persisted [OF mount.hyps] by (simp add: persisted_def)
next
  case (step w sv w')
  from emp_trans_f_disk [OF step.hyps(2)] step.IH show ?case by auto
qed


lemma first_run_lost_delete:
  "emp_reach_f (\<lambda>k. k)
     (world_of (swallow False (deleteEmployee ''EMP001'')
        (init_emp_ctx\<lparr>employees := SAMPLE_EMPLOYEES (\<lambda>k. k)\<rparr>,
         setItem EMPLOYEES (encode_employees (SAMPLE_EMPLOYEES (\<lambda>k. k))) Map.empty)) 8)
     (SAMPLE_EMPLOYEES (\<lambda>k. k))"
proof -
  let ?s0 = "(init_emp_ctx\<lparr>employees := SAMPLE_EMPLOYEES (\<lambda>k. k)\<rparr>,
              setItem EMPLOYEES (encode_employees (SAMPLE_EMPLOYEES (\<lambda>k. k))) Map.empty)"
  have m: "emp_reach_f (\<lambda>k. k) (world_of ?s0 8) (SAMPLE_EMPLOYEES (\<lambda>k. k))"
    using emp_reach_f.mount [of "\<lambda>k. k" Map.empty ?s0 8] by (simp add: mount_employees_def)
  have "emp_trans_f (world_of ?s0 8) (world_of (swallow False (deleteEmployee ''EMP001'') ?s0) 8)"
    using emp_trans_f.delete [of "world_of ?s0 8" False "''EMP001''"] by simp
  from emp_reach_f.step [OF m this] show ?thesis by (simp add: swallow_def)
qed


section \<open>Properties\<close>

text \<open>C10: after any run in which writes may fail and be swallowed, the storage
  holds the collection of the last write that reached it, so a reload never
  crashes and shows that collection (the seed records if it was empty): every
  change made after the last successful write is silently lost.\<close>

theorem faulty_run_reload:
  assumes "emp_reach_f clk w sv"
  shows "mount_employees smp init_emp_ctx (disk w) =
         (if sv = [] then Inr (init_emp_ctx\<lparr>employees := smp\<rparr>, setItem EMPLOYEES (encode_employees smp) (disk w))
          else Inr (init_emp_ctx\<lparr>employees := sv\<rparr>, disk w))"
  using emp_reach_f_saved [OF assms] by (rule mount_from_saved)

text \<open>A deletion whose write fails: the record is gone from the screen, and a
  reload brings it back.\<close>

theorem faulty_run_reload_witness:
  "length (employees (fst (swallow False (deleteEmployee ''EMP001'')
      (init_emp_ctx\<lparr>employees := SAMPLE_EMPLOYEES (\<lambda>k. k)\<rparr>,
       setItem EMPLOYEES (encode_employees (SAMPLE_EMPLOYEES (\<lambda>k. k))) Map.empty)))) = 3 \<and>
   mount_employees (SAMPLE_EMPLOYEES (\<lambda>k. k)) init_emp_ctx
     (snd (swallow False (deleteEmployee ''EMP001'')
      (init_emp_ctx\<lparr>employees := SAMPLE_EMPLOYEES (\<lambda>k. k)\<rparr>,
       setItem EMPLOYEES (encode_employees (SAMPLE_EMPLOYEES (\<lambda>k. k))) Map.empty))) =
   Inr (init_emp_ctx\<lparr>employees := SAMPLE_EMPLOYEES (\<lambda>k. k)\<rparr>,
        setItem EMPLOYEES (encode_employees (SAMPLE_EMPLOYEES (\<lambda>k. k))) Map.empty)"
proof -
  have "length (employees (fst (swallow False (deleteEmployee ''EMP001'')
      (init_emp_ctx\<lparr>employees := SAMPLE_EMPLOYEES (\<lambda>k. k)\<rparr>,
       setItem EMPLOYEES (encode_employees (SAMPLE_EMPLOYEES (\<lambda>k. k))) Map.empty)))) = 3"
    by (simp add: swallow_def employees_deleteEmployee SAMPLE_EMPLOYEES_def)
  moreover have "SAMPLE_EMPLOYEES (\<lambda>k. k) \<noteq> []" by (simp add: SAMPLE_EMPLOYEES_def)
  ultimately show ?thesis
    using faulty_run_reload [OF first_run_lost_delete, of "SAMPLE_EMPLOYEES (\<lambda>k. k)"]
    by (simp add: swallow_def)
qed

end
