(* ===== verification/Auth_Store.thy ===== *)
theory Auth_Store
  imports Storage
begin

text \<open>
  The session store, \<open>src/src/context/AuthContext.tsx\<close>. Its state is the three
  React state cells \<open>isAuthenticated\<close>, \<open>user\<close> and \<open>isLoading\<close> (the record
  \<open>auth_state\<close>); \<open>user\<close> is kept as the parsed JSON value the code holds, since
  the restore effect puts whatever \<open>getItem\<close> returned into it. The operations
  are the restore effect (run once, on mount, while \<open>isLoading\<close>), \<open>login\<close>
  (which also returns its boolean result) and \<open>logout\<close>; all of them write through
  to the storage keys \<open>AUTH\<close> and \<open>USER\<close>. \<open>auth_trans\<close> is one of these steps,
  \<open>auth_reach\<close> the states reachable from a fresh provider on any storage, and
  \<open>phase\<close> reads the three-state machine of the specification (Loading,
  Unauthenticated, Authenticated) off the two flags.
\<close>

section \<open>State and operations\<close>

record auth_state =
  isAuthenticated :: bool
  user :: json
  isLoading :: bool

definition init_auth :: auth_state where
  "init_auth = \<lparr>isAuthenticated = False, user = JNull, isLoading = True\<rparr>"

text \<open>The mount effect: \<open>if (authStatus && savedUser)\<close> restore both, then clear
  the loading flag in either case.\<close>

definition restore_session :: "storage \<Rightarrow> auth_state \<Rightarrow> auth_state" where
  "restore_session st s =
     (let authStatus = getItem AUTH (JBool False) st;
          savedUser = getItem USER JNull st;
          s' = (if js_truthy authStatus \<and> js_truthy savedUser
                then s\<lparr>isAuthenticated := True, user := savedUser\<rparr> else s)
      in s'\<lparr>isLoading := False\<rparr>)"

definition login :: "string \<Rightarrow> string \<Rightarrow> auth_state \<times> storage \<Rightarrow> bool \<times> auth_state \<times> storage" where
  "login username password x =
     (if username = MOCK_USERNAME \<and> password = MOCK_PASSWORD
      then (let userData = JObj [(''username'', JStr username)]
            in (True, (fst x)\<lparr>isAuthenticated := True, user := userData\<rparr>,
                setItem USER userData (setItem AUTH (JBool True) (snd x))))
      else (False, x))"

definition logout :: "auth_state \<times> storage \<Rightarrow> auth_state \<times> storage" where
  "logout x = ((fst x)\<lparr>isAuthenticated := False, user := JNull\<rparr>,
               removeItem USER (removeItem AUTH (snd x)))"

datatype auth_hook_error = AuthOutsideProvider string

definition useAuth :: "auth_state option \<Rightarrow> auth_hook_error + auth_state" where
  "useAuth a = (case a of
      None \<Rightarrow> Inl (AuthOutsideProvider ''useAuth must be used within an AuthProvider'')
    | Some s \<Rightarrow> Inr s)"

section \<open>The session state machine\<close>

datatype phase = Loading | Unauthenticated | Authenticated

definition phase :: "auth_state \<Rightarrow> phase" where
  "phase s = (if isLoading s then Loading else if isAuthenticated s then Authenticated else Unauthenticated)"

inductive auth_trans :: "auth_state \<times> storage \<Rightarrow> auth_state \<times> storage \<Rightarrow> bool" where
  restore: "isLoading (fst x) \<Longrightarrow> auth_trans x (restore_session (snd x) (fst x), snd x)"
| login: "auth_trans x (snd (login u p x))"
| logout: "auth_trans x (logout x)"

inductive auth_reach :: "auth_state \<times> storage \<Rightarrow> bool" where
  start: "auth_reach (init_auth, st)"
| step: "auth_reach x \<Longrightarrow> auth_trans x y \<Longrightarrow> auth_reach y"

text \<open>A stored session is one the restore effect would restore.\<close>

definition restorable :: "storage \<Rightarrow> bool" where
  "restorable st \<longleftrightarrow> js_truthy (getItem AUTH (JBool False) st) \<and> js_truthy (getItem USER JNull st)"

text \<open>The invariant: the flag agrees with the user value; an authenticated state
  is stored as a restorable session with the same user; a settled
  unauthenticated state has no restorable session stored.\<close>

definition auth_inv :: "auth_state \<times> storage \<Rightarrow> bool" where
  "auth_inv x \<longleftrightarrow>
     (isAuthenticated (fst x) \<longleftrightarrow> js_truthy (user (fst x))) \<and>
     (isAuthenticated (fst x) \<longrightarrow> restorable (snd x) \<and> getItem USER JNull (snd x) = user (fst x)) \<and>
     (\<not> isLoading (fst x) \<and> \<not> isAuthenticated (fst x) \<longrightarrow> \<not> restorable (snd x))"


section \<open>Properties\<close>

lemma login_cases [ems_simps]:
  "login u p x = (if u = ''admin'' \<and> p = ''admin123''
     then (True, (fst x)\<lparr>isAuthenticated := True, user := JObj [(''username'', JStr u)]\<rparr>,
           setItem USER (JObj [(''username'', JStr u)]) (setItem AUTH (JBool True) (snd x)))
     else (False, x))"
  by (simp add: login_def MOCK_USERNAME_def MOCK_PASSWORD_def Let_def)

lemma restore_init_authenticated:
  "isAuthenticated (restore_session st init_auth) \<longleftrightarrow> restorable st"
  by (simp add: restore_session_def init_auth_def restorable_def Let_def)

text \<open>C12: \<open>login\<close> returns true exactly for the configured pair, compared
  case-sensitively: user name \<open>admin\<close> and password \<open>admin123\<close>.\<close>

lemma login_result: "fst (login u p x) \<longleftrightarrow> u = ''admin'' \<and> p = ''admin123''"
  by (simp add: login_cases)

text \<open>A failed \<open>login\<close> changes neither the session state nor the storage.\<close>

lemma login_failure_unchanged:
  "\<not> (u = ''admin'' \<and> p = ''admin123'') \<Longrightarrow> snd (login u p x) = x"
  by (auto simp: login_cases)

theorem login_failure_unchanged_witness:
  "\<not> (''admin'' = ''admin'' \<and> ''Admin123'' = ''admin123'') \<and>
   snd (login ''admin'' ''Admin123'' (init_auth, Map.empty)) = (init_auth, Map.empty)"
  using login_failure_unchanged [of "''admin''" "''Admin123''" "(init_auth, Map.empty)"] by simp

lemma auth_inv_init: "auth_inv (init_auth, st)"
  by (simp add: auth_inv_def init_auth_def)

lemma auth_trans_inv: "auth_trans x y \<Longrightarrow> auth_inv x \<Longrightarrow> auth_inv y"
proof (induction rule: auth_trans.induct)
  case (restore x)
  then show ?case
    by (auto simp: auth_inv_def restore_session_def restorable_def Let_def)
next
  case (login x u p)
  then show ?case
    by (auto simp: auth_inv_def login_cases restorable_def)
next
  case (logout x)
  then show ?case
    by (auto simp: auth_inv_def logout_def restorable_def)
qed

text \<open>C13: in every reachable session state the authenticated flag agrees with
  the truthiness of the user value, an authenticated state is stored as a
  restorable session with the same user, and a settled unauthenticated state has
  no restorable session stored.\<close>

theorem reach_auth_inv: "auth_reach x \<Longrightarrow> auth_inv x"
proof (induction rule: auth_reach.induct)
  case (start st)
  show ?case by (rule auth_inv_init)
next
  case (step x y)
  from step.hyps(2) step.IH show ?case by (rule auth_trans_inv)
qed

theorem reach_auth_inv_witness:
  "auth_reach (snd (login ''admin'' ''admin123'' (init_auth, Map.empty))) \<and>
   auth_inv (snd (login ''admin'' ''admin123'' (init_auth, Map.empty)))"
proof -
  have r: "auth_reach (snd (login ''admin'' ''admin123'' (init_auth, Map.empty)))"
    by (rule auth_reach.step [OF auth_reach.start auth_trans.login])
  from r reach_auth_inv [OF r] show ?thesis by blast
qed

text \<open>C14: after any run that ends authenticated, a page reload (a fresh provider
  whose restore effect reads the same storage) is authenticated with the same
  user, without calling \<open>login\<close> again.\<close>

theorem session_restore:
  assumes "auth_reach x" and "isAuthenticated (fst x)"
  shows "restore_session (snd x) init_auth =
         \<lparr>isAuthenticated = True, user = user (fst x), isLoading = False\<rparr>"
proof -
  from assms(1) have "auth_inv x" by (rule reach_auth_inv)
  with assms(2) show ?thesis
    by (simp add: auth_inv_def restorable_def restore_session_def init_auth_def Let_def)
qed

theorem session_restore_witness:
  "auth_reach (snd (login ''admin'' ''admin123'' (restore_session Map.empty init_auth, Map.empty))) \<and>
   isAuthenticated (fst (snd (login ''admin'' ''admin123'' (restore_session Map.empty init_auth, Map.empty)))) \<and>
   restore_session (snd (snd (login ''admin'' ''admin123'' (restore_session Map.empty init_auth, Map.empty)))) init_auth =
   \<lparr>isAuthenticated = True, user = JObj [(''username'', JStr ''admin'')], isLoading = False\<rparr>"
proof -
  let ?x = "snd (login ''admin'' ''admin123'' (restore_session Map.empty init_auth, Map.empty))"
  have r0: "auth_reach (restore_session Map.empty init_auth, Map.empty)"
    using auth_reach.step [OF auth_reach.start auth_trans.restore, of "Map.empty"]
    by (simp add: init_auth_def)
  have r: "auth_reach ?x" by (rule auth_reach.step [OF r0 auth_trans.login])
  have a: "isAuthenticated (fst ?x)" by (simp add: login_cases)
  from session_restore [OF r a] r a show ?thesis by (simp add: login_cases)
qed

text \<open>After \<open>logout\<close>, a reload starts unauthenticated: both keys are gone.\<close>

theorem logout_restart:
  "restore_session (snd (logout x)) init_auth = \<lparr>isAuthenticated = False, user = JNull, isLoading = False\<rparr>"
  by (simp add: logout_def restore_session_def init_auth_def)

text \<open>A reachable state that is settled and unauthenticated reloads as
  unauthenticated.\<close>

theorem settled_unauth_restart:
  assumes "auth_reach x" and "phase (fst x) = Unauthenticated"
  shows "phase (restore_session (snd x) init_auth) = Unauthenticated"
proof -
  from assms(1) have "auth_inv x" by (rule reach_auth_inv)
  with assms(2) show ?thesis
    by (auto simp: auth_inv_def restorable_def restore_session_def init_auth_def phase_def Let_def
             split: if_splits)
qed

theorem settled_unauth_restart_witness:
  "auth_reach (restore_session Map.empty init_auth, Map.empty) \<and>
   phase (restore_session Map.empty init_auth) = Unauthenticated \<and>
   phase (restore_session Map.empty init_auth) = Unauthenticated"
proof -
  have r: "auth_reach (restore_session Map.empty init_auth, Map.empty)"
    using auth_reach.step [OF auth_reach.start auth_trans.restore, of "Map.empty"]
    by (simp add: init_auth_def)
  have p: "phase (fst (restore_session Map.empty init_auth, Map.empty)) = Unauthenticated"
    by (simp add: phase_def restore_session_def init_auth_def)
  from settled_unauth_restart [OF r p] r p show ?thesis by simp
qed

text \<open>C17: the phase machine of the specification: no step returns to Loading
  once it is left; from Unauthenticated only a successful \<open>login\<close> reaches
  Authenticated; from Authenticated only \<open>logout\<close> reaches Unauthenticated.\<close>

theorem phase_transitions:
  assumes "auth_trans x y"
  shows "(phase (fst x) \<noteq> Loading \<longrightarrow> phase (fst y) \<noteq> Loading) \<and>
         (phase (fst x) = Unauthenticated \<and> phase (fst y) = Authenticated \<longrightarrow>
            y = snd (login ''admin'' ''admin123'' x)) \<and>
         (phase (fst x) = Authenticated \<and> phase (fst y) = Unauthenticated \<longrightarrow> y = logout x)"
  using assms
proof (induction rule: auth_trans.induct)
  case (restore x)
  then show ?case by (simp add: phase_def)
next
  case (login x u p)
  then show ?case by (auto simp: phase_def login_cases)
next
  case (logout x)
  then show ?case by (auto simp: phase_def logout_def)
qed

theorem phase_transitions_witness:
  "auth_trans (restore_session Map.empty init_auth, Map.empty)
      (snd (login ''admin'' ''admin123'' (restore_session Map.empty init_auth, Map.empty))) \<and>
   phase (fst (snd (login ''admin'' ''admin123'' (restore_session Map.empty init_auth, Map.empty)))) = Authenticated"
proof -
  have t: "auth_trans (restore_session Map.empty init_auth, Map.empty)
      (snd (login ''admin'' ''admin123'' (restore_session Map.empty init_auth, Map.empty)))"
    by (rule auth_trans.login)
  from phase_transitions [OF t] t show ?thesis
    by (simp add: phase_def login_cases restore_session_def init_auth_def)
qed

end
