(* ===== verification/Auth_Faults.thy ===== *)
theory Auth_Faults
  imports Auth_Store
begin

text \<open>
  The session store of \<open>AuthContext.tsx\<close> when the browser's storage refuses
  writes. The adapter (\<open>utils/localStorage\<close>, not in the repository; the
  specification says that all its operations are infallible from the caller's
  perspective, failures being swallowed) turns a throwing
  \<open>localStorage.setItem\<close> or \<open>removeItem\<close> into a call that leaves storage as it
  was: \<open>setItem_f ok\<close> and \<open>removeItem_f ok\<close>, with \<open>ok\<close> saying whether the
  browser accepted the call. \<open>login_f\<close> and \<open>logout_f\<close> are \<open>login\<close> and
  \<open>logout\<close> with each of their two storage calls through the failing adapter;
  \<open>auth_trans_f\<close> and \<open>auth_reach_f\<close> are the step and reachability relations of
  \<open>Auth_Store\<close> over them. The lemmas show that a failure never reaches the
  caller, what a reload gives after a login or a logout whose writes failed,
  and which part of the session invariant survives failures.
\<close>

section \<open>The adapter with failing writes\<close>

definition setItem_f :: "bool \<Rightarrow> storage_key \<Rightarrow> json \<Rightarrow> storage \<Rightarrow> storage" where
  "setItem_f ok k v st = (if ok then setItem k v st else st)"

definition removeItem_f :: "bool \<Rightarrow> storage_key \<Rightarrow> storage \<Rightarrow> storage" where
  "removeItem_f ok k st = (if ok then removeItem k st else st)"

section \<open>Login and logout through it\<close>

definition login_f ::
  "bool \<Rightarrow> bool \<Rightarrow> string \<Rightarrow> string \<Rightarrow> auth_state \<times> storage \<Rightarrow> bool \<times> auth_state \<times> storage" where
  "login_f okA okU username password x =
     (if username = MOCK_USERNAME \<and> password = MOCK_PASSWORD
      then (let userData = JObj [(''username'', JStr username)]
            in (True, (fst x)\<lparr>isAuthenticated := True, user := userData\<rparr>,
                setItem_f okU USER userData (setItem_f okA AUTH (JBool True) (snd x))))
      else (False, x))"

definition logout_f :: "bool \<Rightarrow> bool \<Rightarrow> auth_state \<times> storage \<Rightarrow> auth_state \<times> storage" where
  "logout_f okA okU x = ((fst x)\<lparr>isAuthenticated := False, user := JNull\<rparr>,
                         removeItem_f okU USER (removeItem_f okA AUTH (snd x)))"

inductive auth_trans_f :: "auth_state \<times> storage \<Rightarrow> auth_state \<times> storage \<Rightarrow> bool" where
  restore: "isLoading (fst x) \<Longrightarrow> auth_trans_f x (restore_session (snd x) (fst x), snd x)"
| login: "auth_trans_f x (snd (login_f a b u p x))"
| logout: "auth_trans_f x (logout_f a b x)"

inductive auth_reach_f :: "auth_state \<times> storage \<Rightarrow> bool" where
  start: "auth_reach_f (init_auth, st)"
| step: "auth_reach_f x \<Longrightarrow> auth_trans_f x y \<Longrightarrow> auth_reach_f y"

text \<open>The part of \<open>auth_inv\<close> about the state cells alone: the flag agrees with
  the user value.\<close>

definition auth_coherent :: "auth_state \<Rightarrow> bool" where
  "auth_coherent s \<longleftrightarrow> (isAuthenticated s \<longleftrightarrow> js_truthy (user s))"


section \<open>Lemmas\<close>

lemma setItem_f_simps [simp]:
  "setItem_f True k v st = setItem k v st" "setItem_f False k v st = st"
  "removeItem_f True k st = removeItem k st" "removeItem_f False k st = st"
  by (simp_all add: setItem_f_def removeItem_f_def)

lemma getItem_setItem_f:
  "getItem k d (setItem_f ok k v st) = (if ok then v else getItem k d st)"
  "k \<noteq> k' \<Longrightarrow> getItem k d (setItem_f ok k' v st) = getItem k d st"
  by (simp_all add: setItem_f_def)

lemma getItem_removeItem_f:
  "getItem k d (removeItem_f ok k st) = (if ok then d else getItem k d st)"
  "k \<noteq> k' \<Longrightarrow> getItem k d (removeItem_f ok k' st) = getItem k d st"
  by (simp_all add: removeItem_f_def)

lemmas adapter_f_simps = getItem_setItem_f getItem_removeItem_f

lemma login_f_cases:
  "login_f a b u p x = (if u = ''admin'' \<and> p = ''admin123''
     then (True, (fst x)\<lparr>isAuthenticated := True, user := JObj [(''username'', JStr u)]\<rparr>,
           setItem_f b USER (JObj [(''username'', JStr u)]) (setItem_f a AUTH (JBool True) (snd x)))
     else (False, x))"
  by (simp add: login_f_def MOCK_USERNAME_def MOCK_PASSWORD_def Let_def)

lemma login_f_ok: "login_f True True u p x = login u p x"
  by (simp add: login_f_cases login_cases)

lemma logout_f_ok: "logout_f True True x = logout x"
  by (simp add: logout_f_def logout_def)

lemma auth_trans_auth_trans_f: "auth_trans x y \<Longrightarrow> auth_trans_f x y"
proof (induction rule: auth_trans.induct)
  case (restore x)
  then show ?case by (rule auth_trans_f.restore)
next
  case (login x u p)
  show ?case using auth_trans_f.login [of x True True u p] by (simp add: login_f_ok)
next
  case (logout x)
  show ?case using auth_trans_f.logout [of x True True] by (simp add: logout_f_ok)
qed

lemma auth_reach_auth_reach_f: "auth_reach x \<Longrightarrow> auth_reach_f x"
  by (induction rule: auth_reach.induct)
     (auto intro: auth_reach_f.start auth_reach_f.step auth_trans_auth_trans_f)

lemma coherent_restore: "auth_coherent s \<Longrightarrow> auth_coherent (restore_session st s)"
  by (simp add: auth_coherent_def restore_session_def Let_def)

lemma auth_trans_f_coherent:
  "auth_trans_f x y \<Longrightarrow> auth_coherent (fst x) \<Longrightarrow> auth_coherent (fst y)"
proof (induction rule: auth_trans_f.induct)
  case (restore x)
  then show ?case by (simp add: coherent_restore)
next
  case (login x a b u p)
  then show ?case by (auto simp: auth_coherent_def login_f_cases)
next
  case (logout x a b)
  then show ?case by (simp add: auth_coherent_def logout_f_def)
qed


section \<open>Properties\<close>

text \<open>A failed storage write never reaches the caller: whichever writes fail,
  \<open>login\<close> returns the same result and leaves the same session state as when
  storage accepts them, and \<open>logout\<close> the same state; when every write is
  accepted the faulty operations are \<open>login\<close> and \<open>logout\<close>.\<close>

theorem faults_invisible:
  "fst (login_f a b u p x) = fst (login u p x) \<and>
   fst (snd (login_f a b u p x)) = fst (snd (login u p x)) \<and>
   fst (logout_f a b x) = fst (logout x) \<and>
   login_f True True u p x = login u p x \<and> logout_f True True x = logout x"
  by (simp add: login_f_cases login_cases logout_f_def logout_def)

text \<open>C15: logging out of a stored session survives a reload unless both removals
  fail: a reload after \<open>logout\<close> signs the user back in exactly when neither
  \<open>AUTH\<close> nor \<open>USER\<close> could be removed.\<close>

theorem logout_durable:
  assumes "auth_inv x" and "isAuthenticated (fst x)"
  shows "isAuthenticated (restore_session (snd (logout_f a b x)) init_auth) \<longleftrightarrow> \<not> a \<and> \<not> b"
  using assms
  by (simp add: restore_init_authenticated auth_inv_def restorable_def logout_f_def adapter_f_simps)

theorem logout_durable_witness:
  "auth_inv (snd (login ''admin'' ''admin123'' (init_auth, Map.empty))) \<and>
   isAuthenticated (fst (snd (login ''admin'' ''admin123'' (init_auth, Map.empty)))) \<and>
   isAuthenticated (restore_session (snd (logout_f False False (snd (login ''admin'' ''admin123'' (init_auth, Map.empty))))) init_auth)"
proof -
  let ?x = "snd (login ''admin'' ''admin123'' (init_auth, Map.empty))"
  have i: "auth_inv ?x" by (rule auth_trans_inv [OF auth_trans.login auth_inv_init])
  have a: "isAuthenticated (fst ?x)" by (simp add: login_cases)
  from logout_durable [OF i a, of False False] i a show ?thesis by simp
qed

text \<open>C16: from storage that holds no session, a successful \<open>login\<close> signs the
  user in whatever fails, but a reload keeps the session only when both writes
  were accepted.\<close>

theorem login_persists_iff_writes:
  assumes "\<not> js_truthy (getItem AUTH (JBool False) (snd x))"
      and "\<not> js_truthy (getItem USER JNull (snd x))"
      and "fst (login_f a b u p x)"
  shows "isAuthenticated (fst (snd (login_f a b u p x))) \<and>
         (isAuthenticated (restore_session (snd (snd (login_f a b u p x))) init_auth) \<longleftrightarrow> a \<and> b)"
  using assms
  by (auto simp: login_f_cases restore_init_authenticated restorable_def adapter_f_simps split: if_splits)

theorem login_persists_iff_writes_witness:
  "\<not> js_truthy (getItem AUTH (JBool False) Map.empty) \<and> \<not> js_truthy (getItem USER JNull Map.empty) \<and>
   fst (login_f False True ''admin'' ''admin123'' (init_auth, Map.empty)) \<and>
   isAuthenticated (fst (snd (login_f False True ''admin'' ''admin123'' (init_auth, Map.empty)))) \<and>
   \<not> isAuthenticated (restore_session (snd (snd (login_f False True ''admin'' ''admin123'' (init_auth, Map.empty)))) init_auth)"
  using login_persists_iff_writes [of "(init_auth, Map.empty)" False True "''admin''" "''admin123''"]
  by (simp add: login_f_cases)

text \<open>Under write failures the flag still agrees with the user value in every
  reachable state, while the stored session may no longer match the state cells
  (the witness reaches a state that breaks \<open>auth_inv\<close>).\<close>

theorem faulty_reach_coherent:
  assumes "auth_reach_f x"
  shows "auth_coherent (fst x)"
  using assms
proof (induction rule: auth_reach_f.induct)
  case (start st)
  show ?case by (simp add: auth_coherent_def init_auth_def)
next
  case (step x y)
  from step.hyps(2) step.IH show ?case by (rule auth_trans_f_coherent)
qed

theorem faulty_reach_coherent_witness:
  "auth_reach_f (snd (login_f False True ''admin'' ''admin123'' (init_auth, Map.empty))) \<and>
   auth_coherent (fst (snd (login_f False True ''admin'' ''admin123'' (init_auth, Map.empty)))) \<and>
   \<not> auth_inv (snd (login_f False True ''admin'' ''admin123'' (init_auth, Map.empty)))"
proof -
  let ?x = "snd (login_f False True ''admin'' ''admin123'' (init_auth, Map.empty))"
  have r: "auth_reach_f ?x" by (rule auth_reach_f.step [OF auth_reach_f.start auth_trans_f.login])
  have n: "\<not> auth_inv ?x" by (simp add: auth_inv_def restorable_def login_f_cases adapter_f_simps)
  from faulty_reach_coherent [OF r] r n show ?thesis by simp
qed

end
