(* ===== verification/View_Employees.thy ===== *)
theory View_Employees
  imports Employee_Store
begin

text \<open>
  The employee screens of the view layer, as the data they render and the state
  changes their handlers make:
  \<^item> \<open>EmployeeRow.tsx\<close>: the cells of one table row, and which handler each of its
    four controls calls;
  \<^item> \<open>EmployeeList.tsx\<close>: the list's own state (\<open>isFormOpen\<close>,
    \<open>editingEmployee\<close>, \<open>deletingEmployee\<close>), its handlers, composed with the
    store operations they call, the table or empty state it shows, and the
    document \<open>handlePrintSingle\<close> writes into the print window;
  \<^item> \<open>ConfirmDialog.tsx\<close> and \<open>Modal.tsx\<close>: confirm-then-close, and rendering only
    while open;
  \<^item> \<open>EmployeeForm.tsx\<close>: the form state, its initialisation from the edited
    employee, the field handlers and the submitted value;
  \<^item> \<open>Filters.tsx\<close>: the filter patches its controls send to \<open>setFilters\<close>;
  \<^item> \<open>DashboardSummary.tsx\<close>: the three cards.
  Dates are shown through date-fns \<open>format(new Date(dob), 'MMM dd, yyyy')\<close>, a
  library function given here as the parameter \<open>fmt\<close>. Styling (class names,
  icons, animations) is not modelled except where the code chooses it from data.
\<close>

section \<open>EmployeeRow\<close>

datatype cell =
    TextCell string
  | AvatarImage string string
  | AvatarPlaceholder
  | StatusCell bool string
  | ActionsCell

definition EmployeeRow :: "(string \<Rightarrow> string) \<Rightarrow> employee \<Rightarrow> cell list" where
  "EmployeeRow fmt e =
     [TextCell (emp_id e),
      (if emp_image e \<noteq> [] then AvatarImage (emp_image e) (name e) else AvatarPlaceholder),
      TextCell (name e), TextCell (gender_str (gender e)), TextCell (fmt (dob e)),
      TextCell (state e),
      StatusCell (active e) (if active e then ''Active'' else ''Inactive''),
      ActionsCell]"

section \<open>EmployeeList\<close>

record list_ui =
  isFormOpen :: bool
  editingEmployee :: "employee option"
  deletingEmployee :: "employee option"

definition init_list_ui :: list_ui where
  "init_list_ui = \<lparr>isFormOpen = False, editingEmployee = None, deletingEmployee = None\<rparr>"

definition handleAddClick :: "list_ui \<Rightarrow> list_ui" where
  "handleAddClick u = u\<lparr>editingEmployee := None, isFormOpen := True\<rparr>"

definition handleEditClick :: "employee \<Rightarrow> list_ui \<Rightarrow> list_ui" where
  "handleEditClick e u = u\<lparr>editingEmployee := Some e, isFormOpen := True\<rparr>"

definition handleDeleteClick :: "employee \<Rightarrow> list_ui \<Rightarrow> list_ui" where
  "handleDeleteClick e u = u\<lparr>deletingEmployee := Some e\<rparr>"

text \<open>Submitting the form: update the edited employee, or add a new one; then
  close the form. \<open>addEmployee\<close> takes the random draw and two clock readings,
  \<open>updateEmployee\<close> the first reading.\<close>

definition handleFormSubmit ::
  "nat \<Rightarrow> timestamp \<Rightarrow> timestamp \<Rightarrow> employee_form_data \<Rightarrow> list_ui \<times> emp_state \<Rightarrow> list_ui \<times> emp_state" where
  "handleFormSubmit r t1 t2 data x =
     (let s' = (case editingEmployee (fst x) of
                  Some e \<Rightarrow> updateEmployee t1 (emp_id e) data (snd x)
                | None \<Rightarrow> addEmployee r t1 t2 data (snd x))
      in ((fst x)\<lparr>isFormOpen := False, editingEmployee := None\<rparr>, s'))"

definition handleDeleteConfirm :: "list_ui \<times> emp_state \<Rightarrow> list_ui \<times> emp_state" where
  "handleDeleteConfirm x =
     (case deletingEmployee (fst x) of
        Some e \<Rightarrow> ((fst x)\<lparr>deletingEmployee := None\<rparr>, deleteEmployee (emp_id e) (snd x))
      | None \<Rightarrow> x)"

text \<open>The form modal's \<open>onClose\<close> and the form's \<open>onCancel\<close> (the same two
  updates), and the confirm dialog's \<open>onClose\<close>.\<close>

definition closeForm :: "list_ui \<Rightarrow> list_ui" where
  "closeForm u = u\<lparr>isFormOpen := False, editingEmployee := None\<rparr>"

definition closeConfirm :: "list_ui \<Rightarrow> list_ui" where
  "closeConfirm u = u\<lparr>deletingEmployee := None\<rparr>"

text \<open>\<open>ConfirmDialog.handleConfirm\<close>: \<open>onConfirm()\<close>, then \<open>onClose()\<close>.\<close>

definition handleConfirm :: "('a \<Rightarrow> 'a) \<Rightarrow> ('a \<Rightarrow> 'a) \<Rightarrow> 'a \<Rightarrow> 'a" where
  "handleConfirm onConfirm onClose x = onClose (onConfirm x)"

text \<open>\<open>Modal\<close> renders nothing unless it is open.\<close>

definition Modal :: "bool \<Rightarrow> 'a \<Rightarrow> 'a option" where
  "Modal isOpen children = (if isOpen then Some children else None)"

definition formTitle :: "list_ui \<Rightarrow> string" where
  "formTitle u = (if editingEmployee u \<noteq> None then ''Edit Employee'' else ''Add New Employee'')"

text \<open>The confirm message interpolates \<open>deletingEmployee?.name\<close>, which prints as
  \<open>undefined\<close> when no employee is being deleted.\<close>

definition deleteMessage :: "list_ui \<Rightarrow> string" where
  "deleteMessage u = ''Are you sure you want to delete '' @
     (case deletingEmployee u of Some e \<Rightarrow> name e | None \<Rightarrow> ''undefined'') @
     ''? This action cannot be undone.''"

definition recordsLabel :: "nat \<Rightarrow> string" where
  "recordsLabel n = dec_string n @ '' '' @ (if n = 1 then ''record'' else ''records'') @ '' found''"

datatype list_body = EmptyState | Table "cell list list"

definition listBody :: "(string \<Rightarrow> string) \<Rightarrow> emp_ctx \<Rightarrow> list_body" where
  "listBody fmt c =
     (if filteredEmployees c = [] then EmptyState else Table (map (EmployeeRow fmt) (filteredEmployees c)))"

text \<open>The controls of a row and the list handler or store operation each one calls.\<close>

datatype row_control = EditButton | DeleteButton | StatusSwitch | PrintButton

datatype list_effect =
    UiChange "list_ui \<Rightarrow> list_ui"
  | StoreChange "timestamp \<Rightarrow> emp_state \<Rightarrow> emp_state"
  | OpenPrintWindow employee

fun row_control_effect :: "employee \<Rightarrow> row_control \<Rightarrow> list_effect" where
  "row_control_effect e EditButton = UiChange (handleEditClick e)"
| "row_control_effect e DeleteButton = UiChange (handleDeleteClick e)"
| "row_control_effect e StatusSwitch = StoreChange (\<lambda>now. toggleEmployeeStatus now (emp_id e))"
| "row_control_effect e PrintButton = OpenPrintWindow e"

section \<open>The print window\<close>

text \<open>
  The HTML \<open>handlePrintSingle\<close> writes with \<open>document.write\<close>: the template with
  the employee's fields interpolated as they are. The template's indentation,
  which HTML ignores, is left out.
\<close>

definition print_style :: string where
  "print_style =
     ''body { font-family: Arial, sans-serif; padding: 40px; } '' @
     ''.header { text-align: center; margin-bottom: 30px; } '' @
     ''.avatar { width: 100px; height: 100px; border-radius: 50%; object-fit: cover; margin: 0 auto 20px; display: block; } '' @
     ''.details { max-width: 400px; margin: 0 auto; } '' @
     ''.row { display: flex; justify-content: space-between; padding: 10px 0; border-bottom: 1px solid #eee; } '' @
     ''.label { font-weight: bold; color: #666; } '' @
     ''.status { padding: 4px 12px; border-radius: 20px; font-size: 12px; } '' @
     ''.active { background: #dcfce7; color: #16a34a; } '' @
     ''.inactive { background: #f3f4f6; color: #6b7280; }''"

definition print_row :: "string \<Rightarrow> string \<Rightarrow> string" where
  "print_row label v = ''<div class=\"row\"><span class=\"label\">'' @ label @ ''</span><span>'' @ v @ ''</span></div>''"

definition print_html :: "(string \<Rightarrow> string) \<Rightarrow> employee \<Rightarrow> string" where
  "print_html fmt e =
     ''<html><head><title>Employee Details - '' @ name e @ ''</title><style>'' @ print_style @
     ''</style></head><body><div class=\"header\"><h1>Employee Details</h1></div>'' @
     (if emp_image e \<noteq> [] then ''<img src=\"'' @ emp_image e @ ''\" class=\"avatar\" alt=\"'' @ name e @ ''\">'' else []) @
     ''<div class=\"details\">'' @
     print_row ''ID:'' (emp_id e) @ print_row ''Name:'' (name e) @
     print_row ''Gender:'' (gender_str (gender e)) @ print_row ''Date of Birth:'' (fmt (dob e)) @
     print_row ''State:'' (state e) @
     ''<div class=\"row\"><span class=\"label\">Status:</span><span class=\"status '' @
     (if active e then ''active'' else ''inactive'') @ ''\">'' @
     (if active e then ''Active'' else ''Inactive'') @ ''</span></div>'' @
     ''</div></body></html>''"

section \<open>EmployeeForm\<close>

record form_ui =
  formData :: employee_form_data
  imagePreview :: string

definition init_form_ui :: form_ui where
  "init_form_ui = \<lparr>formData = \<lparr>name = [], gender = Male, dob = [], state = [], emp_image = [],
                                active = True\<rparr>, imagePreview = []\<rparr>"

text \<open>The effect on \<open>employee\<close>: copy an edited employee's fields into the form.\<close>

definition form_load :: "employee option \<Rightarrow> form_ui \<Rightarrow> form_ui" where
  "form_load employee f =
     (case employee of
        Some e \<Rightarrow> f\<lparr>formData := \<lparr>name = name e, gender = gender e, dob = dob e, state = state e,
                                   emp_image = emp_image e, active = active e\<rparr>,
                   imagePreview := emp_image e\<rparr>
      | None \<Rightarrow> f)"

text \<open>The field handlers; \<open>ImageLoaded\<close> is the \<open>FileReader\<close>'s \<open>onload\<close> with the
  data URL it read (no event happens when no file was chosen).\<close>

datatype form_event =
    SetName string | SetGender gender | SetDob string | SetState string
  | SetActive bool | ImageLoaded string

fun form_step :: "form_event \<Rightarrow> form_ui \<Rightarrow> form_ui" where
  "form_step (SetName v) f = f\<lparr>formData := (formData f)\<lparr>name := v\<rparr>\<rparr>"
| "form_step (SetGender g) f = f\<lparr>formData := (formData f)\<lparr>gender := g\<rparr>\<rparr>"
| "form_step (SetDob v) f = f\<lparr>formData := (formData f)\<lparr>dob := v\<rparr>\<rparr>"
| "form_step (SetState v) f = f\<lparr>formData := (formData f)\<lparr>state := v\<rparr>\<rparr>"
| "form_step (SetActive b) f = f\<lparr>formData := (formData f)\<lparr>active := b\<rparr>\<rparr>"
| "form_step (ImageLoaded r) f = f\<lparr>imagePreview := r, formData := (formData f)\<lparr>emp_image := r\<rparr>\<rparr>"

definition form_submit :: "form_ui \<Rightarrow> employee_form_data" where
  "form_submit f = formData f"

text \<open>The preview shows the image the form will submit.\<close>

definition preview_sync :: "form_ui \<Rightarrow> bool" where
  "preview_sync f \<longleftrightarrow> imagePreview f = emp_image (formData f)"

section \<open>Filters\<close>

definition clearFilters :: filters_patch where
  "clearFilters = \<lparr>search_p = Some [], gender_p = Some [], status_p = Some []\<rparr>"

definition hasFilters :: "employee_filters \<Rightarrow> bool" where
  "hasFilters f \<longleftrightarrow> search f \<noteq> [] \<or> filter_gender f \<noteq> [] \<or> status f \<noteq> []"

definition onSearchChange :: "string \<Rightarrow> filters_patch" where
  "onSearchChange v = \<lparr>search_p = Some v, gender_p = None, status_p = None\<rparr>"

definition onGenderSelect :: "string \<Rightarrow> filters_patch" where
  "onGenderSelect v = \<lparr>search_p = None, gender_p = Some (if v = ''all'' then [] else v), status_p = None\<rparr>"

definition onStatusSelect :: "string \<Rightarrow> filters_patch" where
  "onStatusSelect v = \<lparr>search_p = None, gender_p = None, status_p = Some (if v = ''all'' then [] else v)\<rparr>"

section \<open>DashboardSummary\<close>

record summary_card =
  card_title :: string
  card_value :: nat
  card_class :: string
  card_icon_color :: string

definition summary_cards :: "emp_stats \<Rightarrow> summary_card list" where
  "summary_cards st =
     [\<lparr>card_title = ''Total Employees'', card_value = total st,
       card_class = ''stat-card-total'', card_icon_color = ''text-primary''\<rparr>,
      \<lparr>card_title = ''Active Employees'', card_value = active_count st,
       card_class = ''stat-card-active'', card_icon_color = ''text-success''\<rparr>,
      \<lparr>card_title = ''Inactive Employees'', card_value = inactive_count st,
       card_class = ''stat-card-inactive'', card_icon_color = ''text-muted-foreground''\<rparr>]"


section \<open>Properties\<close>

text \<open>C32: the print window's document contains the employee's name verbatim
  inside a table row: \<open>handlePrintSingle\<close> interpolates the fields into HTML
  without escaping, so markup in a name is written into the page.\<close>

lemma print_html_name_verbatim:
  "sublist (print_row ''Name:'' (name e)) (print_html fmt e)"
  unfolding print_html_def by (intro sublist_append_rightI sublist_skip_left)

text \<open>The form's preview always shows the image it will submit: true of the
  empty form, after loading an edited employee, and kept by every field event.\<close>

lemma form_preview_sync:
  "preview_sync init_form_ui \<and> preview_sync (form_load (Some e) f) \<and>
   (preview_sync f \<longrightarrow> preview_sync (form_step ev f))"
  by (cases ev) (simp_all add: preview_sync_def init_form_ui_def form_load_def)

theorem form_preview_sync_witness:
  "preview_sync init_form_ui \<and> preview_sync (form_step (ImageLoaded ''data:image/png;base64,AA'') init_form_ui)"
  using form_preview_sync [of undefined init_form_ui "ImageLoaded ''data:image/png;base64,AA''"]
  by blast

text \<open>Submitting the form closes it and clears the edited employee; the store
  receives an update of the edited employee's record, or an add when no employee
  was being edited.\<close>

lemma handleFormSubmit_spec:
  "\<not> isFormOpen (fst (handleFormSubmit r t1 t2 d x)) \<and> editingEmployee (fst (handleFormSubmit r t1 t2 d x)) = None \<and>
   deletingEmployee (fst (handleFormSubmit r t1 t2 d x)) = deletingEmployee (fst x) \<and>
   snd (handleFormSubmit r t1 t2 d x) =
     (case editingEmployee (fst x) of Some e \<Rightarrow> updateEmployee t1 (emp_id e) d (snd x)
      | None \<Rightarrow> addEmployee r t1 t2 d (snd x))"
  by (simp add: handleFormSubmit_def Let_def)

text \<open>A row's delete button only marks the employee; confirming in the dialog
  deletes the records with its identifier and clears the mark, leaving the form
  state alone; closing the dialog without confirming deletes nothing.\<close>

lemma confirm_delete:
  "let y = handleConfirm handleDeleteConfirm (\<lambda>x. (closeConfirm (fst x), snd x)) (handleDeleteClick e u, s)
   in deletingEmployee (fst y) = None \<and>
      employees (fst (snd y)) = filter (\<lambda>x. emp_id x \<noteq> emp_id e) (employees (fst s)) \<and>
      isFormOpen (fst y) = isFormOpen u \<and> editingEmployee (fst y) = editingEmployee u \<and>
      snd (handleDeleteConfirm (closeConfirm u, s)) = s"
  by (simp add: handleConfirm_def handleDeleteConfirm_def handleDeleteClick_def closeConfirm_def
                employees_deleteEmployee)

text \<open>Clearing the filters shows the whole collection, and the clear button
  disappears.\<close>

lemma clearFilters_shows_all:
  "filteredEmployees (fst (setFilters clearFilters s)) = employees (fst s) \<and>
   \<not> hasFilters (filters (fst (setFilters clearFilters s)))"
  by (simp add: setFilters_def clearFilters_def filteredEmployees_def matchesFilters_def hasFilters_def
                toLowerCase_def Let_def)

text \<open>Choosing \<open>all\<close> in a select clears that filter; any other choice sets it.\<close>

lemma select_all_clears:
  "filter_gender (filters (fst (setFilters (onGenderSelect ''all'') s))) = [] \<and>
   status (filters (fst (setFilters (onStatusSelect ''all'') s))) = [] \<and>
   filter_gender (filters (fst (setFilters (onGenderSelect g) s))) = (if g = ''all'' then [] else g)"
  by (simp add: setFilters_def onGenderSelect_def onStatusSelect_def Let_def)

text \<open>The summary cards show the total, active and inactive counts of the
  whole collection; the first is the sum of the other two, whatever the filters.\<close>

lemma summary_cards_values:
  "map card_value (summary_cards (stats c)) =
     [length (employees c), length (filter active (employees c)), length (filter (\<lambda>e. \<not> active e) (employees c))] \<and>
   card_value (summary_cards (stats c) ! 0) =
     card_value (summary_cards (stats c) ! 1) + card_value (summary_cards (stats c) ! 2) \<and>
   summary_cards (stats (c\<lparr>filters := f\<rparr>)) = summary_cards (stats c)"
  using stats_total_split [of c] by (simp add: summary_cards_def stats_def)


end
