(* ===== verification/View_Filters.thy ===== *)
theory View_Filters
  imports View_Employees
begin

text \<open>
  The filter bar (\<open>Filters.tsx\<close>) as it renders and as its controls drive the
  store: the values the input and the two selects show, the options each
  select offers (\<open>GENDERS\<close> of \<open>@/utils/constants\<close> for the gender), whether the
  clear button is shown, and the patch each control sends to \<open>setFilters\<close>. A
  select can only report one of the values it offers, and the clear button can
  only be clicked while it is shown; \<open>filters_event\<close> makes both explicit. The
  theory also states the spec's filtering rule as three one-criterion filters
  and shows that the store's single pass computes their composition, in any
  order.
\<close>

section \<open>Configuration\<close>

text \<open>\<open>GENDERS\<close>: the genders the forms and the filter offer, the three values of
  the \<open>gender\<close> field's type.\<close>

definition GENDERS :: "string list" where
  "GENDERS = map gender_str [Male, Female, Other]"

section \<open>Rendering\<close>

record filters_view =
  fv_search :: string
  fv_gender :: string
  fv_gender_options :: "(string \<times> string) list"
  fv_status :: string
  fv_status_options :: "(string \<times> string) list"
  fv_clear :: bool

definition gender_options :: "(string \<times> string) list" where
  "gender_options = (''all'', ''All Genders'') # map (\<lambda>g. (g, g)) GENDERS"

definition status_options :: "(string \<times> string) list" where
  "status_options = [(''all'', ''All Status''), (''active'', ''Active''), (''inactive'', ''Inactive'')]"

definition Filters_view :: "employee_filters \<Rightarrow> filters_view" where
  "Filters_view f =
     \<lparr>fv_search = search f, fv_gender = filter_gender f, fv_gender_options = gender_options,
      fv_status = status f, fv_status_options = status_options, fv_clear = hasFilters f\<rparr>"

section \<open>Events\<close>

text \<open>What the user can do to the filter bar: type into the search input, choose
  an option of a select (the select reports the option's value), click the
  clear button.\<close>

datatype filter_ui_event =
    SearchInput string
  | GenderChosen string
  | StatusChosen string
  | ClearClicked

fun filters_event :: "employee_filters \<Rightarrow> filter_ui_event \<Rightarrow> filters_patch option" where
  "filters_event f (SearchInput v) = Some (onSearchChange v)"
| "filters_event f (GenderChosen v) =
     (if v \<in> set (map fst (fv_gender_options (Filters_view f))) then Some (onGenderSelect v) else None)"
| "filters_event f (StatusChosen v) =
     (if v \<in> set (map fst (fv_status_options (Filters_view f))) then Some (onStatusSelect v) else None)"
| "filters_event f ClearClicked = (if fv_clear (Filters_view f) then Some clearFilters else None)"

text \<open>A sequence of filter-bar events applied to the store; an event the bar
  cannot produce in the current state is skipped.\<close>

fun filters_ui_run :: "filter_ui_event list \<Rightarrow> emp_state \<Rightarrow> emp_state" where
  "filters_ui_run [] s = s"
| "filters_ui_run (ev # evs) s =
     filters_ui_run evs (case filters_event (filters (fst s)) ev of None \<Rightarrow> s | Some p \<Rightarrow> setFilters p s)"

section \<open>The spec's filtering rule\<close>

text \<open>Spec 4.1, one criterion at a time: a record passes the search when the
  search is empty or its case-folded name contains the case-folded search; the
  gender filter when it is empty or equals the record's gender; the status
  filter when it is empty or says whether the record is active.\<close>

definition by_search :: "string \<Rightarrow> employee list \<Rightarrow> employee list" where
  "by_search q = filter (\<lambda>e. q = [] \<or> sublist (toLowerCase q) (toLowerCase (name e)))"

definition by_gender :: "string \<Rightarrow> employee list \<Rightarrow> employee list" where
  "by_gender g = filter (\<lambda>e. g = [] \<or> gender_str (gender e) = g)"

definition by_status :: "string \<Rightarrow> employee list \<Rightarrow> employee list" where
  "by_status st = filter (\<lambda>e. st = [] \<or> (st = ''active'' \<longleftrightarrow> active e))"

text \<open>The values the filter bar can put into the filter state.\<close>

definition filters_typed :: "employee_filters \<Rightarrow> bool" where
  "filters_typed f \<longleftrightarrow>
     (filter_gender f = [] \<or> filter_gender f \<in> set GENDERS) \<and> status f \<in> {[], ''active'', ''inactive''}"


section \<open>Lemmas\<close>

lemma filters_event_cases:
  "filters_event f ev = Some p \<Longrightarrow>
     (\<exists>v. p = onSearchChange v) \<or> (\<exists>v. v \<in> set (map fst gender_options) \<and> p = onGenderSelect v) \<or>
     (\<exists>v. v \<in> set (map fst status_options) \<and> p = onStatusSelect v) \<or> p = clearFilters"
  by (cases ev) (auto simp: Filters_view_def split: if_splits)

lemma filters_typed_patch:
  assumes "filters_typed (filters (fst s))" and "filters_event (filters (fst s)) ev = Some p"
  shows "filters_typed (filters (fst (setFilters p s)))"
  using filters_event_cases [OF assms(2)] assms(1)
  by (auto simp: filters_typed_def setFilters_def Let_def onSearchChange_def onGenderSelect_def
                 onStatusSelect_def clearFilters_def gender_options_def status_options_def)

lemma setFilters_frame [simp]:
  "employees (fst (setFilters p s)) = employees (fst s)" "snd (setFilters p s) = snd s"
  by (simp_all add: setFilters_def Let_def)

lemma filters_ui_run_frame:
  "employees (fst (filters_ui_run evs s)) = employees (fst s) \<and> snd (filters_ui_run evs s) = snd s"
  by (induction evs arbitrary: s) (auto split: option.splits)


lemma matchesFilters_criteria:
  "matchesFilters f e \<longleftrightarrow>
     (search f = [] \<or> sublist (toLowerCase (search f)) (toLowerCase (name e))) \<and>
     (filter_gender f = [] \<or> gender_str (gender e) = filter_gender f) \<and>
     (status f = [] \<or> (status f = ''active'' \<longleftrightarrow> active e))"
  by (auto simp: matchesFilters_def js_includes_sublist toLowerCase_def)


section \<open>Properties\<close>

text \<open>The store's single pass over the collection computes the spec's rule
  applied one criterion at a time, and the order of the three one-criterion
  filters does not matter.\<close>

theorem filter_pipeline_equiv:
  "filteredEmployees c =
     by_search (search (filters c)) (by_gender (filter_gender (filters c)) (by_status (status (filters c)) (employees c))) \<and>
   filteredEmployees c =
     by_status (status (filters c)) (by_gender (filter_gender (filters c)) (by_search (search (filters c)) (employees c)))"
  unfolding filteredEmployees_def by_search_def by_gender_def by_status_def filter_filter
  by (intro conjI filter_cong refl) (auto simp: matchesFilters_criteria)

text \<open>Whatever the user does to the filter bar, the filter state only takes
  the values the bar offers: the gender filter is empty or one of \<open>GENDERS\<close>,
  the status filter is empty, \<open>active\<close> or \<open>inactive\<close>; the collection and the
  storage are left alone (filters are not persisted).\<close>

theorem filters_ui_typed:
  assumes "filters_typed (filters (fst s))"
  shows "filters_typed (filters (fst (filters_ui_run evs s))) \<and>
         employees (fst (filters_ui_run evs s)) = employees (fst s) \<and> snd (filters_ui_run evs s) = snd s"
  using assms
proof (induction evs arbitrary: s)
  case Nil
  then show ?case by simp
next
  case (Cons ev evs)
  show ?case
  proof (cases "filters_event (filters (fst s)) ev")
    case None
    with Cons show ?thesis by simp
  next
    case (Some p)
    with Cons.prems have "filters_typed (filters (fst (setFilters p s)))" by (rule filters_typed_patch)
    with Cons.IH [of "setFilters p s"] Some show ?thesis by simp
  qed
qed

theorem filters_ui_typed_witness:
  "filters_typed (filters (fst (filters_ui_run [GenderChosen ''Female'', StatusChosen ''inactive'',
      GenderChosen ''Robot'', SearchInput ''pri''] (init_emp_ctx, Map.empty)))) \<and>
   filter_gender (filters (fst (filters_ui_run [GenderChosen ''Female'', StatusChosen ''inactive'',
      GenderChosen ''Robot'', SearchInput ''pri''] (init_emp_ctx, Map.empty)))) = ''Female''"
proof -
  have "filters_typed (filters (fst (init_emp_ctx, Map.empty :: storage)))"
    by (simp add: filters_typed_def init_emp_ctx_def)
  from filters_ui_typed [OF this, of "[GenderChosen ''Female'', StatusChosen ''inactive'', GenderChosen ''Robot'', SearchInput ''pri'']"]
  show ?thesis
    by (simp add: init_emp_ctx_def Filters_view_def gender_options_def status_options_def GENDERS_def
                  hasFilters_def setFilters_def onGenderSelect_def onStatusSelect_def onSearchChange_def)
qed

text \<open>The filtering example of the specification (section 8): of Amit (male,
  active) and Amita (female, inactive), the filters \<open>ami\<close>, \<open>Male\<close>,
  \<open>active\<close> keep exactly Amit, and the search \<open>zzz\<close> keeps nobody.\<close>

lemma spec_filter_example:
  "let amit = \<lparr>name = ''Amit'', gender = Male, dob = ''1990-01-01'', state = ''Goa'', emp_image = [], active = True,
               emp_id = ''EMP0001'', createdAt = 0, updatedAt = 0\<rparr>;
       amita = \<lparr>name = ''Amita'', gender = Female, dob = ''1991-01-01'', state = ''Goa'', emp_image = [], active = False,
                emp_id = ''EMP0002'', createdAt = 0, updatedAt = 0\<rparr>;
       c = init_emp_ctx\<lparr>employees := [amit, amita]\<rparr>
   in filteredEmployees (c\<lparr>filters := \<lparr>search = ''ami'', filter_gender = ''Male'', status = ''active''\<rparr>\<rparr>) = [amit] \<and>
      filteredEmployees (c\<lparr>filters := \<lparr>search = ''zzz'', filter_gender = [], status = []\<rparr>\<rparr>) = []"
  by (simp add: Let_def filteredEmployees_def matchesFilters_criteria init_emp_ctx_def js_string_eval
                sublist_code prefix_code)


end
