(* ===== verification/JS_Date.thy ===== *)
theory JS_Date
  imports JS_String
begin

text \<open>
  The part of JavaScript's \<open>Date\<close> that \<open>EmployeeForm.tsx\<close> relies on:
  \<open>new Date().toISOString()\<close>, the current instant written as its UTC date and
  time, and the user's local calendar date, the day the browser's date picker
  shows as today. A time value is a number of milliseconds since
  1970-01-01T00:00:00Z; the model takes the non-negative ones (\<open>nat\<close>). The
  conversion from a day number to a calendar date follows ECMA-262
  (\<open>YearFromTime\<close>, \<open>MonthFromTime\<close>, \<open>DateFromTime\<close>): counting from 1970, the
  year is the one whose days contain the day, with 366 days in each Gregorian
  leap year, and the month likewise within the year. \<open>toISOString\<close> writes a
  year of four digits, and a year above 9999 as \<open>+\<close> and six digits. These are
  runtime functions, not code of the repository. The lemmas show that a date
  written as \<open>YYYY-MM-DD\<close> reads back, that the date of day \<open>n\<close> is valid and
  determines \<open>n\<close>, and that the calendar order of dates is the order of days.
\<close>

section \<open>Calendar\<close>

definition msPerDay :: nat where
  "msPerDay = 86400000"

definition leap_year :: "nat \<Rightarrow> bool" where
  "leap_year y \<longleftrightarrow> y mod 4 = 0 \<and> (y mod 100 \<noteq> 0 \<or> y mod 400 = 0)"

definition days_in_year :: "nat \<Rightarrow> nat" where
  "days_in_year y = (if leap_year y then 366 else 365)"

definition month_lengths :: "nat \<Rightarrow> nat list" where
  "month_lengths y = [31, if leap_year y then 29 else 28, 31, 30, 31, 30, 31, 31, 30, 31, 30, 31]"

text \<open>\<open>YearFromTime\<close>: from year \<open>y\<close> and a day \<open>n\<close> counted from the first day
  of \<open>y\<close>, the year that contains the day and the day's index within that year.\<close>

function year_of :: "nat \<Rightarrow> nat \<Rightarrow> nat \<times> nat" where
  "year_of y n = (if n < days_in_year y then (y, n) else year_of (Suc y) (n - days_in_year y))"
  by pat_completeness auto
termination
  by (relation "measure snd") (auto simp: days_in_year_def)

declare year_of.simps [simp del]

text \<open>\<open>MonthFromTime\<close> and \<open>DateFromTime\<close>: over the lengths of the months from
  month \<open>m\<close> on, the month that contains day \<open>d\<close> (counted from 0) and the day's
  index within that month.\<close>

fun month_of :: "nat list \<Rightarrow> nat \<Rightarrow> nat \<Rightarrow> nat \<times> nat" where
  "month_of [] m d = (m, d)"
| "month_of (l # ls) m d = (if d < l \<or> ls = [] then (m, d) else month_of ls (Suc m) (d - l))"

text \<open>The calendar date (year, month from 1, day from 1) of day \<open>n\<close> after the epoch.\<close>

definition civil_of_day :: "nat \<Rightarrow> nat \<times> nat \<times> nat" where
  "civil_of_day n =
     (case year_of 1970 n of (y, d) \<Rightarrow> (case month_of (month_lengths y) 1 d of (m, dd) \<Rightarrow> (y, m, Suc dd)))"

section \<open>Date input values\<close>

text \<open>A date input's value, \<open>YYYY-MM-DD\<close>, as a (year, month, day) triple.\<close>

definition parse_date :: "string \<Rightarrow> (nat \<times> nat \<times> nat) option" where
  "parse_date s =
     (case split_on CHR ''-'' s of
        [y, m, d] \<Rightarrow> (case (parse_dec y, parse_dec m, parse_dec d) of
                        (Some y', Some m', Some d') \<Rightarrow> Some (y', m', d')
                      | _ \<Rightarrow> None)
      | _ \<Rightarrow> None)"

definition date_lt :: "nat \<times> nat \<times> nat \<Rightarrow> nat \<times> nat \<times> nat \<Rightarrow> bool" where
  "date_lt a b \<longleftrightarrow>
     fst a < fst b \<or> (fst a = fst b \<and> (fst (snd a) < fst (snd b) \<or>
                                      (fst (snd a) = fst (snd b) \<and> snd (snd a) < snd (snd b))))"

section \<open>Writing dates and instants\<close>

definition pad2 :: "nat \<Rightarrow> string" where
  "pad2 n = padStart 2 (CHR ''0'') (dec_string n)"

text \<open>A date as a date input holds it, \<open>YYYY-MM-DD\<close>.\<close>

definition date_string :: "nat \<times> nat \<times> nat \<Rightarrow> string" where
  "date_string c =
     padStart 4 (CHR ''0'') (dec_string (fst c)) @ ''-'' @ pad2 (fst (snd c)) @ ''-'' @ pad2 (snd (snd c))"

definition iso_year :: "nat \<Rightarrow> string" where
  "iso_year y = (if y \<le> 9999 then padStart 4 (CHR ''0'') (dec_string y)
                 else CHR ''+'' # padStart 6 (CHR ''0'') (dec_string y))"

text \<open>\<open>Date.prototype.toISOString\<close>: \<open>YYYY-MM-DDTHH:mm:ss.sssZ\<close> in UTC.\<close>

definition toISOString :: "nat \<Rightarrow> string" where
  "toISOString t =
     (case civil_of_day (t div msPerDay) of (y, m, d) \<Rightarrow>
        (let ms = t mod msPerDay in
         iso_year y @ ''-'' @ pad2 m @ ''-'' @ pad2 d @ ''T'' @
         pad2 (ms div 3600000) @ '':'' @ pad2 (ms div 60000 mod 60) @ '':'' @
         pad2 (ms div 1000 mod 60) @ ''.'' @ padStart 3 (CHR ''0'') (dec_string (ms mod 1000)) @ ''Z''))"

text \<open>The user's local calendar date at instant \<open>t\<close> in a time zone \<open>tz\<close>
  milliseconds east of UTC (\<open>-getTimezoneOffset() * 60000\<close>), written as a date
  input writes it: the date of the wall-clock instant \<open>t + tz\<close>.\<close>

definition local_date :: "int \<Rightarrow> nat \<Rightarrow> string" where
  "local_date tz t = date_string (civil_of_day (nat (int t + tz) div msPerDay))"

section \<open>Day numbers of dates\<close>

text \<open>The inverse of \<open>civil_of_day\<close> on valid dates from 1970 on, used by the
  lemmas below.\<close>

definition days_before_year :: "nat \<Rightarrow> nat" where
  "days_before_year y = (\<Sum>k\<in>{1970..<y}. days_in_year k)"

definition day_index :: "nat \<times> nat \<times> nat \<Rightarrow> nat" where
  "day_index c = days_before_year (fst c) + sum_list (take (fst (snd c) - 1) (month_lengths (fst c))) +
                 (snd (snd c) - 1)"

definition valid_civil :: "nat \<times> nat \<times> nat \<Rightarrow> bool" where
  "valid_civil c \<longleftrightarrow>
     1970 \<le> fst c \<and> 1 \<le> fst (snd c) \<and> fst (snd c) \<le> 12 \<and>
     1 \<le> snd (snd c) \<and> snd (snd c) \<le> month_lengths (fst c) ! (fst (snd c) - 1)"


section \<open>Lemmas\<close>

subsection \<open>Years and months\<close>

lemma sum_month_lengths [simp]: "sum_list (month_lengths y) = days_in_year y"
  by (simp add: month_lengths_def days_in_year_def)

lemma length_month_lengths [simp]: "length (month_lengths y) = 12"
  by (simp add: month_lengths_def)

lemma days_before_year_Suc: "1970 \<le> y \<Longrightarrow> days_before_year (Suc y) = days_before_year y + days_in_year y"
  by (simp add: days_before_year_def atLeastLessThanSuc add.commute)

lemma days_before_year_mono: "y \<le> y' \<Longrightarrow> days_before_year y \<le> days_before_year y'"
  unfolding days_before_year_def by (rule sum_mono2) auto

lemma year_of_spec:
  "1970 \<le> y0 \<Longrightarrow> year_of y0 n = (y, r) \<Longrightarrow>
   y0 \<le> y \<and> r < days_in_year y \<and> days_before_year y + r = days_before_year y0 + n"
proof (induction y0 n rule: year_of.induct)
  case (1 y0 n)
  show ?case
  proof (cases "n < days_in_year y0")
    case True
    with "1.prems" show ?thesis by (simp add: year_of.simps)
  next
    case False
    with "1.prems" have "year_of (Suc y0) (n - days_in_year y0) = (y, r)" by (simp add: year_of.simps)
    with "1.IH" False "1.prems"(1) have "Suc y0 \<le> y \<and> r < days_in_year y \<and>
        days_before_year y + r = days_before_year (Suc y0) + (n - days_in_year y0)" by simp
    with False "1.prems"(1) show ?thesis by (simp add: days_before_year_Suc)
  qed
qed

lemma month_of_spec:
  "month_of ls m d = (m', r) \<Longrightarrow> d < sum_list ls \<Longrightarrow>
   m \<le> m' \<and> m' < m + length ls \<and> r < ls ! (m' - m) \<and> sum_list (take (m' - m) ls) + r = d"
proof (induction ls arbitrary: m d)
  case Nil
  then show ?case by simp
next
  case (Cons l ls)
  show ?case
  proof (cases "d < l \<or> ls = []")
    case True
    with Cons.prems show ?thesis by auto
  next
    case False
    with Cons.prems have "month_of ls (Suc m) (d - l) = (m', r)" and "d - l < sum_list ls" by auto
    from Cons.IH [OF this] have "Suc m \<le> m'" and "m' < Suc m + length ls"
      and "r < ls ! (m' - Suc m)" and "sum_list (take (m' - Suc m) ls) + r = d - l" by auto
    moreover have "m' - m = Suc (m' - Suc m)" using \<open>Suc m \<le> m'\<close> by simp
    ultimately show ?thesis using False by (simp, linarith)
  qed
qed

lemma sum_list_take_mono: "k \<le> k' \<Longrightarrow> sum_list (take k xs) \<le> sum_list (take k' (xs :: nat list))"
proof (induction xs arbitrary: k k')
  case Nil
  then show ?case by simp
next
  case (Cons x xs)
  then show ?case by (cases k; cases k') auto
qed

lemma sum_list_take_nth:
  "i < length xs \<Longrightarrow> sum_list (take i xs) + xs ! i = sum_list (take (Suc i) (xs :: nat list))"
  by (simp add: take_Suc_conv_app_nth)

text \<open>Within a valid date's year, the days before it are fewer than the year's.\<close>

lemma day_in_year_bound:
  assumes "valid_civil c"
  shows "sum_list (take (fst (snd c) - 1) (month_lengths (fst c))) + (snd (snd c) - 1) < days_in_year (fst c)"
proof -
  let ?ml = "month_lengths (fst c)" and ?i = "fst (snd c) - 1"
  from assms have i: "?i < length ?ml" and d: "snd (snd c) - 1 < ?ml ! ?i" by (auto simp: valid_civil_def)
  have "sum_list (take (Suc ?i) ?ml) \<le> sum_list (take 12 ?ml)"
    using i by (intro sum_list_take_mono) simp
  with sum_list_take_nth [OF i] d show ?thesis by simp
qed


subsection \<open>Day numbers\<close>

lemma civil_of_day_spec: "valid_civil (civil_of_day n) \<and> day_index (civil_of_day n) = n"
proof -
  obtain y r where yr: "year_of 1970 n = (y, r)" by fastforce
  from year_of_spec [OF _ yr] have y: "1970 \<le> y" and r: "r < days_in_year y"
    and n: "days_before_year y + r = n" by (simp_all add: days_before_year_def)
  obtain m dd where md: "month_of (month_lengths y) 1 r = (m, dd)" by fastforce
  from month_of_spec [OF md] r have "1 \<le> m" "m < 13" "dd < month_lengths y ! (m - 1)"
    "sum_list (take (m - 1) (month_lengths y)) + dd = r" by simp_all
  moreover have "civil_of_day n = (y, m, Suc dd)" using md by (simp add: civil_of_day_def yr)
  ultimately show ?thesis using y n by (simp add: valid_civil_def day_index_def)
qed

lemma date_lt_linear: "\<not> date_lt a b \<Longrightarrow> a = b \<or> date_lt b a"
  by (auto simp: date_lt_def prod_eq_iff)

text \<open>The calendar order of valid dates is the order of their day numbers.\<close>

lemma date_lt_day_index:
  assumes "valid_civil a" and "valid_civil b" and "date_lt a b"
  shows "day_index a < day_index b"
proof -
  obtain y m d y' m' d' where a: "a = (y, m, d)" and b: "b = (y', m', d')" by (cases a, cases b) auto
  have ya: "sum_list (take (m - 1) (month_lengths y)) + (d - 1) < days_in_year y"
    using day_in_year_bound [OF assms(1)] a by simp
  consider "y < y'" | "y = y'" "m < m'" | "y = y'" "m = m'" "d < d'"
    using assms(3) a b by (auto simp: date_lt_def)
  then show ?thesis
  proof cases
    case 1
    then have "days_before_year (Suc y) \<le> days_before_year y'" by (intro days_before_year_mono) simp
    with ya assms(1) a b show ?thesis
      by (simp add: day_index_def days_before_year_Suc valid_civil_def)
  next
    case 2
    let ?ml = "month_lengths y"
    from assms(1) a have i: "m - 1 < length ?ml" and dm: "d - 1 < ?ml ! (m - 1)"
      by (auto simp: valid_civil_def)
    have "sum_list (take (Suc (m - 1)) ?ml) \<le> sum_list (take (m' - 1) ?ml)"
      using 2 assms(1) a by (intro sum_list_take_mono) (simp add: valid_civil_def)
    with sum_list_take_nth [OF i] dm 2 a b show ?thesis by (simp add: day_index_def)
  next
    case 3
    with assms(1) a b show ?thesis by (simp add: day_index_def valid_civil_def, linarith)
  qed
qed

lemma civil_of_day_lt: "date_lt (civil_of_day a) (civil_of_day b) \<longleftrightarrow> a < b"
proof
  assume "date_lt (civil_of_day a) (civil_of_day b)"
  with date_lt_day_index [of "civil_of_day a" "civil_of_day b"] civil_of_day_spec show "a < b"
    by simp
next
  assume ab: "a < b"
  show "date_lt (civil_of_day a) (civil_of_day b)"
  proof (rule ccontr)
    assume "\<not> date_lt (civil_of_day a) (civil_of_day b)"
    then have "civil_of_day a = civil_of_day b \<or> date_lt (civil_of_day b) (civil_of_day a)"
      by (rule date_lt_linear)
    with date_lt_day_index [of "civil_of_day b" "civil_of_day a"] civil_of_day_spec [of a]
      civil_of_day_spec [of b] ab show False
      by (metis less_asym less_irrefl)
  qed
qed


subsection \<open>Reading dates back\<close>

lemma dec_string_digit_codes: "x \<in> set (dec_string n) \<Longrightarrow> 48 \<le> (of_char x :: nat) \<and> (of_char x :: nat) \<le> 57"
proof (induction n rule: dec_string.induct)
  case (1 n)
  from "1.prems" have "x \<in> set (if n < 10 then [digit_char n] else dec_string (n div 10) @ [digit_char (n mod 10)])"
    by (simp add: dec_string.simps [of n])
  with "1.IH" show ?case by (auto simp: digit_char_def split: if_splits)
qed

lemma padStart_digit_codes:
  "x \<in> set (padStart k (CHR ''0'') (dec_string n)) \<Longrightarrow> 48 \<le> (of_char x :: nat) \<and> (of_char x :: nat) \<le> 57"
  by (auto simp: padStart_def dest: dec_string_digit_codes)

lemma not_in_padStart:
  "of_char c < (48::nat) \<or> 57 < (of_char c :: nat) \<Longrightarrow> c \<notin> set (padStart k (CHR ''0'') (dec_string n))"
  using padStart_digit_codes by fastforce

lemmas sep_not_in_digits =
  not_in_padStart [of "CHR ''-''", simplified] not_in_padStart [of "CHR ''T''", simplified]

lemma split_on_no_sep: "c \<notin> set a \<Longrightarrow> split_on c a = [a]"
  by (induction a) auto

lemma split_on_sep: "c \<notin> set a \<Longrightarrow> split_on c (a @ c # b) = a # split_on c b"
  by (induction a) (auto split: list.splits)

lemma takeWhile_upto: "c \<notin> set a \<Longrightarrow> takeWhile (\<lambda>x. x \<noteq> c) (a @ c # b) = a"
  by (induction a) auto

lemma parse_date_string: "parse_date (date_string c) = Some c"
proof -
  have "split_on CHR ''-'' (date_string c) =
        [padStart 4 (CHR ''0'') (dec_string (fst c)), pad2 (fst (snd c)), pad2 (snd (snd c))]"
    by (simp add: date_string_def pad2_def split_on_sep split_on_no_sep sep_not_in_digits)
  then show ?thesis by (simp add: parse_date_def pad2_def parse_dec_padStart_dec_string)
qed

lemma date_string_not_Nil [simp]: "date_string c \<noteq> []"
  by (simp add: date_string_def)

lemma T_not_in_date_string: "CHR ''T'' \<notin> set (date_string c)"
  by (simp add: date_string_def pad2_def sep_not_in_digits)

text \<open>The date part of \<open>toISOString\<close>, up to the \<open>T\<close>, is the UTC date of the
  instant, for the instants of years with four digits.\<close>

lemma iso_date_part:
  assumes "fst (civil_of_day (t div msPerDay)) \<le> 9999"
  shows "hd (split_on CHR ''T'' (toISOString t)) = date_string (civil_of_day (t div msPerDay))"
proof -
  obtain y m d where c: "civil_of_day (t div msPerDay) = (y, m, d)" by (cases "civil_of_day (t div msPerDay)") auto
  obtain rest where iso: "toISOString t = date_string (y, m, d) @ CHR ''T'' # rest"
    using assms c by (simp add: toISOString_def iso_year_def date_string_def Let_def)
  have "takeWhile (\<lambda>x. x \<noteq> CHR ''T'') (date_string (y, m, d) @ CHR ''T'' # rest) = date_string (y, m, d)"
    using T_not_in_date_string [of "(y, m, d)"] by (rule takeWhile_upto)
  with iso c show ?thesis by (simp add: hd_split_on)
qed

end
