(* ===== verification/View_Form.thy ===== *)
theory View_Form
  imports View_Filters JS_Date
begin

text \<open>
  What \<open>EmployeeForm.tsx\<close> renders and when the browser lets it submit. The
  form's state and handlers are in \<open>View_Employees\<close>; here are the controls
  it shows (the preview or the placeholder, one radio per entry of \<open>GENDERS\<close>,
  the date input with its \<open>max\<close>, the state select over \<open>INDIAN_STATES\<close>, the
  status switch, the submit label) and the constraint validation the browser
  runs before it fires \<open>onSubmit\<close>: the name, date and state inputs are
  \<open>required\<close> (an empty value blocks the submit) and the date input's \<open>max\<close>
  (a later date blocks it). \<open>INDIAN_STATES\<close> is a constant of
  \<open>@/utils/constants\<close>, which the repository does not contain; the view takes
  it as the parameter \<open>states\<close>. The date bound is
  \<open>new Date().toISOString().split('T')[0]\<close>, the current instant's UTC date;
  the view takes the ISO instant as the parameter \<open>now_iso\<close>.
\<close>

section \<open>Dates\<close>

text \<open>The \<open>max\<close> of the date input: the date part of the ISO instant.\<close>

definition form_max :: "string \<Rightarrow> string" where
  "form_max now_iso = hd (split_on CHR ''T'' now_iso)"

text \<open>A date value overflows the bound when both parse and it is the later one.\<close>

definition date_overflow :: "string \<Rightarrow> string \<Rightarrow> bool" where
  "date_overflow maxd v =
     (case (parse_date v, parse_date maxd) of (Some a, Some b) \<Rightarrow> date_lt b a | _ \<Rightarrow> False)"

section \<open>Constraint validation and submit\<close>

definition form_valid :: "string \<Rightarrow> employee_form_data \<Rightarrow> bool" where
  "form_valid now_iso fd \<longleftrightarrow>
     name fd \<noteq> [] \<and> dob fd \<noteq> [] \<and> \<not> date_overflow (form_max now_iso) (dob fd) \<and> state fd \<noteq> []"

text \<open>Pressing the submit button: the browser validates the form and, when it is
  valid, \<open>handleSubmit\<close> passes \<open>formData\<close> to \<open>onSubmit\<close>; otherwise nothing is
  submitted.\<close>

definition EmployeeForm_submit :: "string \<Rightarrow> form_ui \<Rightarrow> employee_form_data option" where
  "EmployeeForm_submit now_iso f =
     (if form_valid now_iso (formData f) then Some (form_submit f) else None)"

section \<open>Rendering\<close>

datatype preview = PreviewImage string | PreviewPlaceholder

record form_view =
  fview_preview :: preview
  fview_name :: string
  fview_genders :: "(string \<times> bool) list"
  fview_dob :: string
  fview_dob_max :: string
  fview_state :: string
  fview_state_options :: "string list"
  fview_active :: bool
  fview_submit_label :: string

definition EmployeeForm_view :: "string list \<Rightarrow> string \<Rightarrow> employee option \<Rightarrow> form_ui \<Rightarrow> form_view" where
  "EmployeeForm_view states now_iso employee f =
     \<lparr>fview_preview = (if imagePreview f \<noteq> [] then PreviewImage (imagePreview f) else PreviewPlaceholder),
      fview_name = name (formData f),
      fview_genders = map (\<lambda>g. (g, gender_str (gender (formData f)) = g)) GENDERS,
      fview_dob = dob (formData f),
      fview_dob_max = form_max now_iso,
      fview_state = state (formData f),
      fview_state_options = states,
      fview_active = active (formData f),
      fview_submit_label = (if employee \<noteq> None then ''Update Employee'' else ''Add Employee'')\<rparr>"


section \<open>Lemmas\<close>

lemma form_of_updated:
  "form_of (e\<lparr>name := name d, gender := gender d, dob := dob d, state := state d,
              emp_image := emp_image d, active := active d, updatedAt := t\<rparr>) = d"
  by (cases d) (simp add: form_of_def employee_form_data.defs)

lemma form_of_new:
  "form_of \<lparr>name = name d, gender = gender d, dob = dob d, state = state d, emp_image = emp_image d,
            active = active d, emp_id = i, createdAt = t1, updatedAt = t2\<rparr> = d"
  by (cases d) (simp add: form_of_def employee_form_data.defs)

lemma EmployeeForm_submit_Some:
  "EmployeeForm_submit now_iso f = Some d \<longleftrightarrow> d = formData f \<and> form_valid now_iso (formData f)"
  by (auto simp: EmployeeForm_submit_def form_submit_def)

lemmas date_eval = form_valid_def form_max_def date_overflow_def parse_date_def date_lt_def js_string_eval


section \<open>Properties\<close>

text \<open>C28: the form only hands valid data to the list: after a submit the browser
  let through, every record of the collection is one that was there before or
  carries the submitted fields, which have a name, a date of birth no later
  than the date bound, and a state.\<close>

theorem form_submit_writes_valid:
  assumes "EmployeeForm_submit now_iso f = Some d"
  shows "\<forall>e\<in>set (employees (fst (snd (handleFormSubmit r t1 t2 d x)))).
           e \<in> set (employees (fst (snd x))) \<or> form_valid now_iso (form_of e)"
proof -
  from assms have v: "form_valid now_iso d" by (simp add: EmployeeForm_submit_Some)
  show ?thesis
  proof (cases "editingEmployee (fst x)")
    case None
    with v show ?thesis
      by (auto simp: handleFormSubmit_def employees_addEmployee form_of_new)
  next
    case (Some e0)
    with v show ?thesis
      by (auto simp: handleFormSubmit_def employees_updateEmployee form_of_updated)
  qed
qed

theorem form_submit_writes_valid_witness:
  "form_valid ''2026-01-02T03:00:00.000Z''
     (form_of (hd (employees (fst (snd (handleFormSubmit 5 1 1
        \<lparr>name = ''Kiran Rao'', gender = Other, dob = ''1999-09-09'', state = ''Kerala'', emp_image = [], active = True\<rparr>
        (init_list_ui, (init_emp_ctx, Map.empty))))))))"
proof -
  let ?d = "\<lparr>name = ''Kiran Rao'', gender = Other, dob = ''1999-09-09'', state = ''Kerala'', emp_image = [],
             active = True\<rparr>"
  let ?x = "(init_list_ui, (init_emp_ctx, Map.empty :: storage))"
  have s: "EmployeeForm_submit ''2026-01-02T03:00:00.000Z'' (init_form_ui\<lparr>formData := ?d\<rparr>) = Some ?d"
    by (simp add: EmployeeForm_submit_def form_submit_def date_eval)
  have ne: "employees (fst (snd (handleFormSubmit 5 1 1 ?d ?x))) \<noteq> []"
    by (simp add: handleFormSubmit_def init_list_ui_def employees_addEmployee)
  have old: "employees (fst (snd ?x)) = []" by (simp add: init_emp_ctx_def)
  from form_submit_writes_valid [OF s, of 5 1 1 ?x] ne old show ?thesis
    by (simp add: hd_in_set)
qed

text \<open>C29: the date bound is the UTC date of the current instant, not the user's
  local date. For every instant \<open>t\<close> of a year with four digits, the form's \<open>max\<close>
  is the UTC calendar date of \<open>t\<close>; a date of birth \<open>n\<close> days after the epoch
  passes validation exactly when \<open>n\<close> is at most the UTC day of \<open>t\<close>; so the
  user's own date of today (in a zone \<open>tz\<close> milliseconds east of UTC) is
  rejected exactly when the local day is already later than the UTC day, as
  between local midnight and UTC midnight east of Greenwich, while west of it
  the form accepts the user's tomorrow for the hours after UTC midnight.\<close>

theorem dob_bound_is_utc:
  assumes "fst (civil_of_day (t div msPerDay)) \<le> 9999"
  shows "form_max (toISOString t) = date_string (civil_of_day (t div msPerDay)) \<and>
         (form_valid (toISOString t) (fd\<lparr>dob := date_string (civil_of_day n)\<rparr>) \<longleftrightarrow>
            name fd \<noteq> [] \<and> state fd \<noteq> [] \<and> n \<le> t div msPerDay) \<and>
         (form_valid (toISOString t) (fd\<lparr>dob := local_date tz t\<rparr>) \<longleftrightarrow>
            name fd \<noteq> [] \<and> state fd \<noteq> [] \<and> nat (int t + tz) div msPerDay \<le> t div msPerDay)"
proof -
  have m: "form_max (toISOString t) = date_string (civil_of_day (t div msPerDay))"
    using iso_date_part [OF assms] by (simp add: form_max_def)
  have v: "form_valid (toISOString t) (fd\<lparr>dob := date_string (civil_of_day k)\<rparr>) \<longleftrightarrow>
             name fd \<noteq> [] \<and> state fd \<noteq> [] \<and> k \<le> t div msPerDay" for k
    by (auto simp: form_valid_def m date_overflow_def parse_date_string civil_of_day_lt not_less)
  show ?thesis using m v [of n] v [of "nat (int t + tz) div msPerDay"] by (simp add: local_date_def)
qed

lemma civil_2026_01_01: "civil_of_day 20454 = (2026, 1, 1)"
  by (simp add: civil_of_day_def year_of.simps days_in_year_def leap_year_def month_lengths_def)

lemma civil_2026_01_02: "civil_of_day 20455 = (2026, 1, 2)"
  by (simp add: civil_of_day_def year_of.simps days_in_year_def leap_year_def month_lengths_def)

text \<open>At 01:30 on 2 January 2026 in India (UTC+5:30; 20:00 UTC on 1 January) the
  form rejects 2 January, the user's date of that day; at 20:00 on 1 January
  2026 in New York (UTC-5; 01:00 UTC on 2 January) it accepts 2 January, the
  user's tomorrow.\<close>

theorem dob_bound_is_utc_witness:
  "fst (civil_of_day (1767297600000 div msPerDay)) \<le> 9999 \<and>
   local_date 19800000 1767297600000 = ''2026-01-02'' \<and>
   \<not> form_valid (toISOString 1767297600000)
       \<lparr>name = ''Asha'', gender = Female, dob = local_date 19800000 1767297600000, state = ''Goa'',
        emp_image = [], active = True\<rparr> \<and>
   fst (civil_of_day (1767315600000 div msPerDay)) \<le> 9999 \<and>
   local_date (-18000000) 1767315600000 = ''2026-01-01'' \<and>
   form_valid (toISOString 1767315600000)
       \<lparr>name = ''Asha'', gender = Female, dob = date_string (civil_of_day 20455), state = ''Goa'',
        emp_image = [], active = True\<rparr>"
proof -
  let ?fd = "\<lparr>name = ''Asha'', gender = Female, dob = [], state = ''Goa'', emp_image = [], active = True\<rparr>"
  have d1: "1767297600000 div msPerDay = 20454" and d2: "1767315600000 div msPerDay = 20455"
    and l1: "nat (int 1767297600000 + 19800000) div msPerDay = 20455"
    and l2: "nat (int 1767315600000 + (-18000000)) div msPerDay = 20454"
    by (simp_all add: msPerDay_def)
  have y1: "fst (civil_of_day (1767297600000 div msPerDay)) \<le> 9999"
    and y2: "fst (civil_of_day (1767315600000 div msPerDay)) \<le> 9999"
    by (simp_all add: d1 d2 civil_2026_01_01 civil_2026_01_02)
  have ld1: "local_date 19800000 1767297600000 = date_string (civil_of_day 20455)"
    unfolding local_date_def l1 by (rule refl)
  have ld2: "local_date (-18000000) 1767315600000 = date_string (civil_of_day 20454)"
    unfolding local_date_def l2 by (rule refl)
  have ds: "local_date 19800000 1767297600000 = ''2026-01-02''"
           "local_date (-18000000) 1767315600000 = ''2026-01-01''"
    by (simp_all only: ld1 ld2 civil_2026_01_01 civil_2026_01_02)
       (simp_all add: date_string_def pad2_def js_string_eval)
  from dob_bound_is_utc [OF y1, where fd = ?fd and n = 0 and tz = 19800000]
  have "\<not> form_valid (toISOString 1767297600000) (?fd\<lparr>dob := local_date 19800000 1767297600000\<rparr>)"
    unfolding l1 d1 by simp
  moreover from dob_bound_is_utc [OF y2, where fd = ?fd and n = 20455 and tz = 0]
  have "form_valid (toISOString 1767315600000) (?fd\<lparr>dob := date_string (civil_of_day 20455)\<rparr>)"
    unfolding d2 by simp
  ultimately show ?thesis using y1 y2 ds by simp
qed

text \<open>The gender radio group shows one radio per entry of \<open>GENDERS\<close> and
  exactly one of them checked, the form's gender.\<close>

theorem form_one_gender_checked:
  "map fst (fview_genders (EmployeeForm_view states now_iso e f)) = GENDERS \<and>
   filter snd (fview_genders (EmployeeForm_view states now_iso e f)) = [(gender_str (gender (formData f)), True)]"
  by (cases "gender (formData f)") (simp_all add: EmployeeForm_view_def GENDERS_def comp_def)

end
