(* ===== verification/View_List.thy ===== *)
theory View_List
  imports View_Form
begin

text \<open>
  What \<open>EmployeeList.tsx\<close> renders around its rows, and the dialog of
  \<open>ConfirmDialog.tsx\<close>: the card header with the record count and the two
  buttons, the table's column headers or the empty state, the add/edit modal
  and the delete confirmation with the texts and the variant the list passes.
  The rows themselves are \<open>EmployeeRow\<close> (\<open>View_Employees\<close>). Also the
  tiles of \<open>DashboardSummary.tsx\<close> and the spinner of \<open>Loader.tsx\<close>. Class
  names are kept where the code picks them from a prop or a card.
\<close>

section \<open>Modal\<close>

text \<open>The frame \<open>Modal\<close> draws around its children when open (\<open>Modal\<close> of
  \<open>View_Employees\<close> says whether it draws anything): the title, the classes
  of the panel with the size's width (\<open>size\<close> defaults to \<open>md\<close>), and its two
  controls, the backdrop and the close icon, which both call \<open>onClose\<close>.\<close>

datatype modal_size = ModalSm | ModalMd | ModalLg | ModalXl

fun modal_sizeClasses :: "modal_size \<Rightarrow> string" where
  "modal_sizeClasses ModalSm = ''max-w-sm''"
| "modal_sizeClasses ModalMd = ''max-w-md''"
| "modal_sizeClasses ModalLg = ''max-w-lg''"
| "modal_sizeClasses ModalXl = ''max-w-2xl''"

record 'a modal_frame =
  modal_title :: string
  modal_panel_classes :: "string list"
  modal_children :: 'a

definition Modal_view :: "bool \<Rightarrow> string \<Rightarrow> modal_size option \<Rightarrow> 'a \<Rightarrow> 'a modal_frame option" where
  "Modal_view isOpen title sz0 children =
     map_option (\<lambda>c. \<lparr>modal_title = title,
                       modal_panel_classes =
                         [''relative w-full mx-4 bg-card rounded-lg card-shadow-lg animate-scale-in'',
                          modal_sizeClasses (case sz0 of Some sz \<Rightarrow> sz | None \<Rightarrow> ModalMd)],
                       modal_children = c\<rparr>)
       (Modal isOpen children)"

datatype modal_control = Backdrop | CloseIcon

fun Modal_click :: "modal_control \<Rightarrow> ('s \<Rightarrow> 's) \<Rightarrow> 's \<Rightarrow> 's" where
  "Modal_click Backdrop onClose = onClose"
| "Modal_click CloseIcon onClose = onClose"

text \<open>The controls of \<open>ConfirmDialog\<close>: those of its modal, the cancel button
  (\<open>onClose\<close>) and the confirm button (\<open>handleConfirm\<close>).\<close>

datatype dialog_control = ModalControl modal_control | CancelButton | ConfirmButton

fun ConfirmDialog_click :: "dialog_control \<Rightarrow> ('s \<Rightarrow> 's) \<Rightarrow> ('s \<Rightarrow> 's) \<Rightarrow> 's \<Rightarrow> 's" where
  "ConfirmDialog_click (ModalControl m) onConfirm onClose = Modal_click m onClose"
| "ConfirmDialog_click CancelButton onConfirm onClose = onClose"
| "ConfirmDialog_click ConfirmButton onConfirm onClose = handleConfirm onConfirm onClose"

section \<open>ConfirmDialog\<close>

datatype dialog_variant = Danger | Warning

record confirm_view =
  cd_title :: string
  cd_message :: string
  cd_icon_class :: string
  cd_cancel_text :: string
  cd_confirm_text :: string
  cd_confirm_variant :: string

text \<open>The dialog inside a \<open>Modal\<close> (nothing while closed); \<open>confirmText\<close> and
  \<open>cancelText\<close> default to \<open>Confirm\<close> and \<open>Cancel\<close>, which the caller
  overrides by passing \<open>Some\<close> text.\<close>

definition ConfirmDialog_view ::
  "bool \<Rightarrow> string \<Rightarrow> string \<Rightarrow> string option \<Rightarrow> string option \<Rightarrow> dialog_variant \<Rightarrow> confirm_view option" where
  "ConfirmDialog_view isOpen title message confirmText cancelText variant =
     Modal isOpen
       \<lparr>cd_title = title, cd_message = message,
        cd_icon_class = (if variant = Danger then ''bg-destructive/10'' else ''bg-warning/10''),
        cd_cancel_text = (case cancelText of Some t \<Rightarrow> t | None \<Rightarrow> ''Cancel''),
        cd_confirm_text = (case confirmText of Some t \<Rightarrow> t | None \<Rightarrow> ''Confirm''),
        cd_confirm_variant = (if variant = Danger then ''destructive'' else ''default'')\<rparr>"

section \<open>EmployeeList\<close>

definition table_headers :: "string list" where
  "table_headers = [''ID'', ''Photo'', ''Name'', ''Gender'', ''DOB'', ''State'', ''Status'', ''Actions'']"

record list_view =
  lv_label :: string
  lv_headers :: "string list option"
  lv_body :: list_body
  lv_form_title :: "string option"
  lv_confirm :: "confirm_view option"

definition EmployeeList_view :: "(string \<Rightarrow> string) \<Rightarrow> emp_ctx \<Rightarrow> list_ui \<Rightarrow> list_view" where
  "EmployeeList_view fmt c u =
     \<lparr>lv_label = recordsLabel (length (filteredEmployees c)),
      lv_headers = (if filteredEmployees c = [] then None else Some table_headers),
      lv_body = listBody fmt c,
      lv_form_title = Modal (isFormOpen u) (formTitle u),
      lv_confirm = ConfirmDialog_view (deletingEmployee u \<noteq> None) ''Delete Employee'' (deleteMessage u)
                     (Some ''Delete'') None Danger\<rparr>"

text \<open>The list's two modals: the add/edit form (\<open>size="lg"\<close>, closed by
  \<open>closeForm\<close>) and the delete confirmation (\<open>onClose\<close> clears the mark,
  \<open>onConfirm\<close> is \<open>handleDeleteConfirm\<close>).\<close>

definition form_modal :: "list_ui \<Rightarrow> 'a \<Rightarrow> 'a modal_frame option" where
  "form_modal u form = Modal_view (isFormOpen u) (formTitle u) (Some ModalLg) form"

definition form_modal_click :: "modal_control \<Rightarrow> list_ui \<times> emp_state \<Rightarrow> list_ui \<times> emp_state" where
  "form_modal_click m x = Modal_click m (\<lambda>y. (closeForm (fst y), snd y)) x"

definition delete_dialog_click :: "dialog_control \<Rightarrow> list_ui \<times> emp_state \<Rightarrow> list_ui \<times> emp_state" where
  "delete_dialog_click c x = ConfirmDialog_click c handleDeleteConfirm (\<lambda>y. (closeConfirm (fst y), snd y)) x"

section \<open>DashboardSummary and Loader\<close>

text \<open>The summary's tiles as \<open>DashboardSummary\<close> renders them from
  \<open>summary_cards\<close>: keyed by the title, the fade-in delayed by 100 ms per
  position, the icon box and the icon coloured by the card.\<close>

record summary_tile =
  tile_key :: string
  tile_delay :: string
  tile_title :: string
  tile_value :: nat
  tile_box_class :: string
  tile_icon_class :: string

definition DashboardSummary_view :: "emp_stats \<Rightarrow> summary_tile list" where
  "DashboardSummary_view st =
     map (\<lambda>(index, card).
            \<lparr>tile_key = card_title card, tile_delay = dec_string (index * 100) @ ''ms'',
             tile_title = card_title card, tile_value = card_value card,
             tile_box_class = ''p-3 rounded-xl '' @ card_class card,
             tile_icon_class = ''w-6 h-6 '' @ card_icon_color card\<rparr>)
         (enumerate 0 (summary_cards st))"

text \<open>The spinner: the classes \<open>Loader\<close> hands to \<open>cn\<close> (the fixed ones, the
  size's, and the caller's when given; \<open>size\<close> defaults to \<open>md\<close>), and
  \<open>PageLoader\<close>, the large spinner over the text \<open>Loading...\<close>, which the
  route guards show while the session is loading.\<close>

datatype loader_size = Sm | Md | Lg

fun sizeClasses :: "loader_size \<Rightarrow> string" where
  "sizeClasses Sm = ''w-4 h-4 border-2''"
| "sizeClasses Md = ''w-8 h-8 border-2''"
| "sizeClasses Lg = ''w-12 h-12 border-3''"

definition Loader_view :: "loader_size option \<Rightarrow> string option \<Rightarrow> string list" where
  "Loader_view sz0 className =
     [''rounded-full border-primary/30 border-t-primary animate-spin'',
      sizeClasses (case sz0 of Some sz \<Rightarrow> sz | None \<Rightarrow> Md)] @
     (case className of Some c \<Rightarrow> [c] | None \<Rightarrow> [])"

definition PageLoader_view :: "string list \<times> string" where
  "PageLoader_view = (Loader_view (Some Lg) None, ''Loading...'')"

section \<open>Lemmas\<close>

lemma length_EmployeeRow [simp]: "length (EmployeeRow fmt e) = 8"
  by (simp add: EmployeeRow_def)

lemma hd_EmployeeRow [simp]: "hd (EmployeeRow fmt e) = TextCell (emp_id e)"
  by (simp add: EmployeeRow_def)

text \<open>The summary renders the three cards in order, under distinct React keys,
  each shown with the value of its card and staggered by 100 ms.\<close>

lemma DashboardSummary_tiles:
  "map tile_key (DashboardSummary_view st) = [''Total Employees'', ''Active Employees'', ''Inactive Employees''] \<and>
   distinct (map tile_key (DashboardSummary_view st)) \<and>
   map tile_value (DashboardSummary_view st) = map card_value (summary_cards st) \<and>
   map tile_delay (DashboardSummary_view st) = [''0ms'', ''100ms'', ''200ms'']"
  by (simp add: DashboardSummary_view_def summary_cards_def js_string_eval)

section \<open>Properties\<close>

text \<open>The table is well formed: it is shown exactly when some record passes
  the filters, then every row has one cell per column header, and the rows are
  the filtered records in order, each opening with its identifier.\<close>

theorem table_shape:
  "(lv_headers (EmployeeList_view fmt c u) = None \<longleftrightarrow> lv_body (EmployeeList_view fmt c u) = EmptyState) \<and>
   (lv_body (EmployeeList_view fmt c u) = Table rows \<longrightarrow>
      lv_headers (EmployeeList_view fmt c u) = Some table_headers \<and>
      (\<forall>row\<in>set rows. length row = length table_headers) \<and>
      map hd rows = map (\<lambda>e. TextCell (emp_id e)) (filteredEmployees c))"
  by (auto simp: EmployeeList_view_def listBody_def table_headers_def comp_def)

theorem table_shape_witness:
  "lv_body (EmployeeList_view id (init_emp_ctx\<lparr>employees := SAMPLE_EMPLOYEES (\<lambda>k. k)\<rparr>) init_list_ui) =
     Table (map (EmployeeRow id) (SAMPLE_EMPLOYEES (\<lambda>k. k))) \<and>
   map hd (map (EmployeeRow id) (SAMPLE_EMPLOYEES (\<lambda>k. k))) =
     map (\<lambda>e. TextCell (emp_id e)) (filteredEmployees (init_emp_ctx\<lparr>employees := SAMPLE_EMPLOYEES (\<lambda>k. k)\<rparr>))"
proof -
  have f: "filteredEmployees (init_emp_ctx\<lparr>employees := SAMPLE_EMPLOYEES (\<lambda>k. k)\<rparr>) = SAMPLE_EMPLOYEES (\<lambda>k. k)"
    by (simp add: filteredEmployees_def matchesFilters_def init_emp_ctx_def SAMPLE_EMPLOYEES_def Let_def)
  have b: "lv_body (EmployeeList_view id (init_emp_ctx\<lparr>employees := SAMPLE_EMPLOYEES (\<lambda>k. k)\<rparr>) init_list_ui) =
     Table (map (EmployeeRow id) (SAMPLE_EMPLOYEES (\<lambda>k. k)))"
    using f by (simp add: EmployeeList_view_def listBody_def SAMPLE_EMPLOYEES_def)
  from table_shape [of id "init_emp_ctx\<lparr>employees := SAMPLE_EMPLOYEES (\<lambda>k. k)\<rparr>" init_list_ui
                       "map (EmployeeRow id) (SAMPLE_EMPLOYEES (\<lambda>k. k))"] b
  show ?thesis by simp
qed

text \<open>C31: whatever closes the delete confirmation (the backdrop, the close icon, the
  cancel button or the confirm button) the mark is cleared and the form is left
  alone; only the confirm button deletes, and it deletes the records with the
  marked employee's identifier.\<close>

theorem delete_dialog_controls:
  "let y = delete_dialog_click c (u, s)
   in deletingEmployee (fst y) = None \<and>
      isFormOpen (fst y) = isFormOpen u \<and> editingEmployee (fst y) = editingEmployee u \<and>
      snd y = (case deletingEmployee u of
                 Some e \<Rightarrow> if c = ConfirmButton then deleteEmployee (emp_id e) s else s
               | None \<Rightarrow> s)"
proof (cases c)
  case (ModalControl m)
  then show ?thesis
    by (cases m; cases "deletingEmployee u") (simp_all add: delete_dialog_click_def closeConfirm_def)
next
  case CancelButton
  then show ?thesis by (cases "deletingEmployee u") (simp_all add: delete_dialog_click_def closeConfirm_def)
next
  case ConfirmButton
  then show ?thesis
    by (cases "deletingEmployee u")
       (simp_all add: delete_dialog_click_def handleConfirm_def handleDeleteConfirm_def closeConfirm_def)
qed

end
