(* ===== verification/View_Auth.thy ===== *)
theory View_Auth
  imports Auth_Store
begin

text \<open>
  The authentication screens and guards:
  \<^item> \<open>LoginForm.tsx\<close>: the form's state cells and its asynchronous submit
    handler. \<open>handleSubmit\<close> clears the error, sets its loading flag, awaits an
    800 ms timer, then calls \<open>login\<close> with the user name and password of the
    render it was created in, and navigates or shows the error. The suspended
    handler is made explicit: \<open>lf_start\<close> is the part before the \<open>await\<close> and
    records the captured pair as \<open>pending\<close>; \<open>lf_finish\<close> is the part after it.
    Other events (typing, toggling the password's visibility) can happen in between.
  \<^item> \<open>PrivateRoute.tsx\<close> and \<open>pages/Login.tsx\<close>: what each shows for a session
    state;
  \<^item> \<open>Header.tsx\<close>: the displayed user name and the logout button.
\<close>

section \<open>LoginForm\<close>

record login_form =
  lf_username :: string
  lf_password :: string
  showPassword :: bool
  lf_error :: string
  lf_loading :: bool
  pending :: "(string \<times> string) option"

definition init_login_form :: login_form where
  "init_login_form = \<lparr>lf_username = [], lf_password = [], showPassword = False, lf_error = [],
                      lf_loading = False, pending = None\<rparr>"

definition lf_start :: "login_form \<Rightarrow> login_form" where
  "lf_start f = f\<lparr>lf_error := [], lf_loading := True,
                  pending := Some (lf_username f, lf_password f)\<rparr>"

text \<open>After the timer: \<open>login\<close> on the captured pair; on success navigate to the
  dashboard, otherwise show the error; clear the loading flag either way.\<close>

definition lf_finish ::
  "login_form \<times> auth_state \<times> storage \<Rightarrow> login_form \<times> auth_state \<times> storage \<times> string option" where
  "lf_finish x =
     (case pending (fst x) of
        None \<Rightarrow> (fst x, fst (snd x), snd (snd x), None)
      | Some (u, p) \<Rightarrow>
          (let r = login u p (snd x); success = fst r;
               f = (fst x)\<lparr>pending := None\<rparr>;
               f' = (if success then f else f\<lparr>lf_error := ''Invalid username or password''\<rparr>)
           in (f'\<lparr>lf_loading := False\<rparr>, fst (snd r), snd (snd r),
               if success then Some ''/dashboard'' else None)))"

datatype lf_event = TypeUsername string | TypePassword string | ToggleShowPassword

fun lf_input :: "lf_event \<Rightarrow> login_form \<Rightarrow> login_form" where
  "lf_input (TypeUsername v) f = f\<lparr>lf_username := v\<rparr>"
| "lf_input (TypePassword v) f = f\<lparr>lf_password := v\<rparr>"
| "lf_input ToggleShowPassword f = f\<lparr>showPassword := \<not> showPassword f\<rparr>"

text \<open>The submit button is disabled while the form is loading.\<close>

definition submit_enabled :: "login_form \<Rightarrow> bool" where
  "submit_enabled f \<longleftrightarrow> \<not> lf_loading f"

text \<open>Both inputs are \<open>required\<close>: the browser does not fire \<open>onSubmit\<close> while
  either is empty.\<close>

definition lf_constraints_ok :: "login_form \<Rightarrow> bool" where
  "lf_constraints_ok f \<longleftrightarrow> lf_username f \<noteq> [] \<and> lf_password f \<noteq> []"

text \<open>What the form shows: the two inputs (the password as plain text only while
  \<open>showPassword\<close>), the eye icon of the visibility toggle, the error banner
  while there is an error, and the submit button, disabled and showing a
  spinner while loading.\<close>

datatype eye_icon = Eye | EyeOff

datatype submit_content = SignInText string | Spinner

record login_form_view =
  lfv_username :: string
  lfv_password :: string
  lfv_password_type :: string
  lfv_toggle_icon :: eye_icon
  lfv_error :: "string option"
  lfv_button :: submit_content
  lfv_button_disabled :: bool

definition LoginForm_view :: "login_form \<Rightarrow> login_form_view" where
  "LoginForm_view f =
     \<lparr>lfv_username = lf_username f, lfv_password = lf_password f,
      lfv_password_type = (if showPassword f then ''text'' else ''password''),
      lfv_toggle_icon = (if showPassword f then EyeOff else Eye),
      lfv_error = (if lf_error f \<noteq> [] then Some (lf_error f) else None),
      lfv_button = (if lf_loading f then Spinner else SignInText ''Sign In''),
      lfv_button_disabled = lf_loading f\<rparr>"

section \<open>Route guards\<close>

datatype screen = PageLoader | NavigateTo string | RenderChildren | RenderNothing | LoginScreen

definition PrivateRoute :: "auth_state \<Rightarrow> screen" where
  "PrivateRoute s =
     (if isLoading s then PageLoader
      else if \<not> isAuthenticated s then NavigateTo ''/login''
      else RenderChildren)"

definition LoginPage :: "auth_state \<Rightarrow> screen" where
  "LoginPage s =
     (if isLoading s then RenderNothing
      else if isAuthenticated s then NavigateTo ''/dashboard''
      else LoginScreen)"

text \<open>The login page around the form: its texts. The page also builds a
  \<open>features\<close> list that its markup never renders.\<close>

record login_page_view =
  lp_brand :: string
  lp_heading :: string
  lp_subheading :: string
  lp_footer :: string

definition login_features :: "string list" where
  "login_features = [''Manage Employees'', ''Track Analytics'', ''Secure Access'']"

definition LoginPage_view :: login_page_view where
  "LoginPage_view =
     \<lparr>lp_brand = ''EMS Dashboard'', lp_heading = ''Welcome Back'',
      lp_subheading = ''Sign in to access your dashboard'',
      lp_footer = CHR 0xA9 # '' 2026 EMS Dashboard. All rights reserved.''\<rparr>"

section \<open>Header\<close>

text \<open>\<open>user?.username || 'Admin'\<close>: the user's \<open>username\<close> when it is truthy.\<close>

definition header_name :: "json \<Rightarrow> json" where
  "header_name u =
     (case (if u = JNull then None else json_field ''username'' u) of
        Some v \<Rightarrow> if js_truthy v then v else JStr ''Admin''
      | None \<Rightarrow> JStr ''Admin'')"

definition header_logout :: "auth_state \<times> storage \<Rightarrow> auth_state \<times> storage" where
  "header_logout x = logout x"

record header_view =
  hv_title :: string
  hv_subtitle :: string
  hv_user :: json
  hv_logout_label :: string

definition Header_view :: "auth_state \<Rightarrow> header_view" where
  "Header_view a =
     \<lparr>hv_title = ''EMS Dashboard'', hv_subtitle = ''Employee Management'', hv_user = header_name (user a),
      hv_logout_label = ''Logout''\<rparr>"


section \<open>Properties\<close>

lemma lf_input_frame [simp]:
  "pending (lf_input ev f) = pending f" "lf_loading (lf_input ev f) = lf_loading f"
  "lf_error (lf_input ev f) = lf_error f"
  by (cases ev; simp)+

lemma lf_inputs_frame:
  "pending (fold lf_input evs f) = pending f \<and> lf_loading (fold lf_input evs f) = lf_loading f \<and>
   lf_error (fold lf_input evs f) = lf_error f"
  by (induction evs arbitrary: f) simp_all

text \<open>C18: the outcome of a login submission is decided by the user name and
  password captured when the form was submitted, whatever is typed while the
  timer runs: the session store receives \<open>login\<close> of that pair, the form
  navigates to the dashboard exactly when it succeeds, shows an error exactly
  when it fails, and ends not loading.\<close>

theorem login_submit_captures:
  assumes "fst (lf_finish (fold lf_input evs (lf_start f), a)) = f'"
    and "fst (snd (lf_finish (fold lf_input evs (lf_start f), a))) = a'"
    and "snd (snd (lf_finish (fold lf_input evs (lf_start f), a))) = (st', nav)"
  shows "(a', st') = snd (login (lf_username f) (lf_password f) a) \<and>
         (nav = Some ''/dashboard'' \<longleftrightarrow> fst (login (lf_username f) (lf_password f) a)) \<and>
         (lf_error f' = [] \<longleftrightarrow> fst (login (lf_username f) (lf_password f) a)) \<and>
         \<not> lf_loading f' \<and> pending f' = None"
proof -
  have p: "pending (fold lf_input evs (lf_start f)) = Some (lf_username f, lf_password f)"
    and e: "lf_error (fold lf_input evs (lf_start f)) = []"
    using lf_inputs_frame [of evs "lf_start f"] by (simp_all add: lf_start_def)
  from p e show ?thesis using assms
    by (auto simp: lf_finish_def Let_def split: prod.splits if_splits)
qed

theorem login_submit_captures_witness:
  "snd (snd (snd (lf_finish (fold lf_input [TypePassword ''wrong'']
      (lf_start (init_login_form\<lparr>lf_username := ''admin'', lf_password := ''admin123''\<rparr>)),
      (init_auth, Map.empty))))) = Some ''/dashboard''"
proof -
  let ?f = "init_login_form\<lparr>lf_username := ''admin'', lf_password := ''admin123''\<rparr>"
  let ?r = "lf_finish (fold lf_input [TypePassword ''wrong''] (lf_start ?f), (init_auth, Map.empty))"
  have "snd (snd ?r) = (fst (snd (snd ?r)), snd (snd (snd ?r)))" by simp
  from login_submit_captures [OF refl refl this] show ?thesis
    by (simp add: login_cases init_login_form_def)
qed

text \<open>The two guards agree: the protected content renders exactly when the
  session is settled and authenticated, which is exactly when the login page
  redirects to the dashboard; the login form shows exactly when the protected
  route redirects to the login page.\<close>

theorem guards_agree:
  "(PrivateRoute s = RenderChildren \<longleftrightarrow> \<not> isLoading s \<and> isAuthenticated s) \<and>
   (LoginPage s = NavigateTo ''/dashboard'' \<longleftrightarrow> PrivateRoute s = RenderChildren) \<and>
   (LoginPage s = LoginScreen \<longleftrightarrow> PrivateRoute s = NavigateTo ''/login'')"
  by (simp add: PrivateRoute_def LoginPage_def)

text \<open>After a successful login the header shows the user name; after logout
  it shows the fallback \<open>Admin\<close>.\<close>

theorem header_after_login:
  "header_name (user (fst (snd (login ''admin'' ''admin123'' x)))) = JStr ''admin'' \<and>
   header_name (user (fst (logout x))) = JStr ''Admin''"
  by (simp add: header_name_def login_cases logout_def)


end
