(* ===== verification/App_Session.thy ===== *)
theory App_Session
  imports View_Auth Employee_Lifecycle
begin

text \<open>
  The application as a whole: the session store, the router and the two pages,
  and the employee store the dashboard page owns. \<open>App.tsx\<close>, which wires them
  together, is not in the repository; what this theory takes from it is what
  the code around it implies: an \<open>AuthProvider\<close> around a router with the two
  routes the code navigates to, \<open>/login\<close> showing the \<open>Login\<close> page and
  \<open>/dashboard\<close> showing \<open>Dashboard\<close> inside \<open>PrivateRoute\<close>. \<open>Dashboard.tsx\<close>
  wraps its page in \<open>EmployeeProvider\<close>, so the employee store exists only
  while the dashboard is rendered: it is created, and runs its mount effect,
  each time \<open>PrivateRoute\<close> starts rendering it, and is discarded when the
  route or the session hides it. The login form likewise exists only while
  the login page shows it.

  A state of the application is \<open>app_state\<close>. \<open>settle\<close> is what React does
  after an event: render, follow a \<open><Navigate>\<close> (at most one is ever
  rendered in a row), mount and unmount the providers and the form, and run
  the mount effect of a newly mounted employee store. An employee store whose
  mount effect reads a stored value that is not an employee array makes the
  dashboard throw while rendering (\<open>Dashboard.tsx\<close> has no error boundary);
  the application has then crashed (\<open>app_crash\<close>) until it is reloaded.
  \<open>app_step\<close> handles one event and settles. \<open>app_samples\<close> is the seed list
  of the current page load (its timestamps are read when the module loads).
\<close>

section \<open>Routes and state\<close>

datatype route = LoginRoute | DashboardRoute

definition route_of :: "string \<Rightarrow> route option" where
  "route_of p = (if p = ''/login'' then Some LoginRoute else if p = ''/dashboard'' then Some DashboardRoute else None)"

record app_state =
  app_auth :: auth_state
  app_route :: route
  app_form :: "login_form option"
  app_dash :: "emp_ctx option"
  app_store :: storage
  app_crash :: "mount_error option"
  app_samples :: "employee list"

text \<open>The element the current route renders, as the guard of the page decides.\<close>

definition app_screen :: "app_state \<Rightarrow> screen" where
  "app_screen s =
     (case app_route s of LoginRoute \<Rightarrow> LoginPage (app_auth s) | DashboardRoute \<Rightarrow> PrivateRoute (app_auth s))"

definition follow_redirect :: "app_state \<Rightarrow> app_state" where
  "follow_redirect s =
     (case app_screen s of
        NavigateTo p \<Rightarrow> (case route_of p of Some r \<Rightarrow> s\<lparr>app_route := r\<rparr> | None \<Rightarrow> s)
      | _ \<Rightarrow> s)"

text \<open>React re-renders after each \<open><Navigate>\<close> until the screen shows no
  redirect; \<open>render_loop\<close> is that loop, \<open>None\<close> if the guards sent the
  router back and forth forever. \<open>settle\<close> below follows one redirect; that
  this is where the loop stops is a theorem.\<close>

partial_function (option) render_loop :: "app_state \<Rightarrow> app_state option" where
  "render_loop s =
     (case app_screen s of
        NavigateTo p \<Rightarrow> (case route_of p of Some r \<Rightarrow> render_loop (s\<lparr>app_route := r\<rparr>) | None \<Rightarrow> Some s)
      | _ \<Rightarrow> Some s)"

fun redirects :: "screen \<Rightarrow> bool" where
  "redirects (NavigateTo p) = True"
| "redirects _ = False"

text \<open>Mounting what the screen shows: the login form while the login page shows
  it (a form already mounted keeps its state), the dashboard with a new
  employee store when \<open>PrivateRoute\<close> renders its children and none is mounted
  (the store's mount effect runs at once), nothing else.\<close>

definition mount_views :: "app_state \<Rightarrow> app_state" where
  "mount_views s =
     (let scr = app_screen s;
          form' = (if scr = LoginScreen then Some (case app_form s of Some f \<Rightarrow> f | None \<Rightarrow> init_login_form)
                   else None)
      in if scr = RenderChildren then
           (case app_dash s of
              Some c \<Rightarrow> s\<lparr>app_form := form'\<rparr>
            | None \<Rightarrow> (case mount_employees (app_samples s) init_emp_ctx (app_store s) of
                        Inl e \<Rightarrow> s\<lparr>app_form := form', app_crash := Some e\<rparr>
                      | Inr cs \<Rightarrow> s\<lparr>app_form := form', app_dash := Some (fst cs), app_store := snd cs\<rparr>))
         else s\<lparr>app_form := form', app_dash := None\<rparr>)"

definition settle :: "app_state \<Rightarrow> app_state" where
  "settle s = mount_views (follow_redirect s)"

section \<open>Events\<close>

datatype app_event =
    AuthRestore
  | LoginInput lf_event
  | LoginSubmit
  | LoginTimer
  | EmployeeAction emp_op
  | HeaderLogout
  | GoTo route
  | Reload "employee list"

fun app_handle :: "app_event \<Rightarrow> app_state \<Rightarrow> app_state" where
  "app_handle AuthRestore s =
     (if isLoading (app_auth s) then s\<lparr>app_auth := restore_session (app_store s) (app_auth s)\<rparr> else s)"
| "app_handle (LoginInput ev) s =
     (case app_form s of Some f \<Rightarrow> s\<lparr>app_form := Some (lf_input ev f)\<rparr> | None \<Rightarrow> s)"
| "app_handle LoginSubmit s =
     (case app_form s of
        Some f \<Rightarrow> if submit_enabled f \<and> lf_constraints_ok f then s\<lparr>app_form := Some (lf_start f)\<rparr> else s
      | None \<Rightarrow> s)"
| "app_handle LoginTimer s =
     (case app_form s of
        Some f \<Rightarrow>
          (let r = lf_finish (f, app_auth s, app_store s);
               s1 = s\<lparr>app_form := Some (fst r), app_auth := fst (snd r), app_store := fst (snd (snd r))\<rparr>
           in (case snd (snd (snd r)) of
                 Some p \<Rightarrow> (case route_of p of Some rt \<Rightarrow> s1\<lparr>app_route := rt\<rparr> | None \<Rightarrow> s1)
               | None \<Rightarrow> s1))
      | None \<Rightarrow> s)"
| "app_handle (EmployeeAction op) s =
     (case app_dash s of
        Some c \<Rightarrow> (let r = emp_step op (c, app_store s) in s\<lparr>app_dash := Some (fst r), app_store := snd r\<rparr>)
      | None \<Rightarrow> s)"
| "app_handle HeaderLogout s =
     (case app_dash s of
        Some c \<Rightarrow> (let r = header_logout (app_auth s, app_store s) in s\<lparr>app_auth := fst r, app_store := snd r\<rparr>)
      | None \<Rightarrow> s)"
| "app_handle (GoTo r) s = s\<lparr>app_route := r\<rparr>"
| "app_handle (Reload smp) s =
     \<lparr>app_auth = init_auth, app_route = app_route s, app_form = None, app_dash = None,
      app_store = app_store s, app_crash = None, app_samples = smp\<rparr>"

fun is_reload :: "app_event \<Rightarrow> bool" where
  "is_reload (Reload smp) = True"
| "is_reload _ = False"

text \<open>After a crash only a reload does anything.\<close>

definition app_step :: "app_event \<Rightarrow> app_state \<Rightarrow> app_state" where
  "app_step e s = (if app_crash s \<noteq> None \<and> \<not> is_reload e then s else settle (app_handle e s))"

definition app_start :: "route \<Rightarrow> storage \<Rightarrow> employee list \<Rightarrow> app_state" where
  "app_start r st smp =
     settle \<lparr>app_auth = init_auth, app_route = r, app_form = None, app_dash = None,
             app_store = st, app_crash = None, app_samples = smp\<rparr>"

inductive app_reach :: "app_state \<Rightarrow> bool" where
  start: "app_reach (app_start r st smp)"
| step: "app_reach s \<Longrightarrow> app_reach (app_step e s)"


section \<open>Invariants\<close>

text \<open>The dashboard and its employee store exist only on \<open>/dashboard\<close> behind a
  settled, authenticated session; the login form only on \<open>/login\<close> while the
  session is settled and signed out.\<close>

definition app_guarded :: "app_state \<Rightarrow> bool" where
  "app_guarded s \<longleftrightarrow>
     (app_dash s \<noteq> None \<longrightarrow>
        app_route s = DashboardRoute \<and> isAuthenticated (app_auth s) \<and> \<not> isLoading (app_auth s)) \<and>
     (app_form s \<noteq> None \<longrightarrow>
        app_route s = LoginRoute \<and> \<not> isAuthenticated (app_auth s) \<and> \<not> isLoading (app_auth s))"

definition app_persisted :: "app_state \<Rightarrow> bool" where
  "app_persisted s \<longleftrightarrow> (case app_dash s of Some c \<Rightarrow> persisted (c, app_store s) | None \<Rightarrow> True)"

definition form_ok :: "app_state \<Rightarrow> bool" where
  "form_ok s \<longleftrightarrow> (case app_form s of Some f \<Rightarrow> (lf_loading f \<longleftrightarrow> pending f \<noteq> None) | None \<Rightarrow> True)"

text \<open>A stored collection the employee store's mount effect accepts (an empty
  value, or an array of employees).\<close>

definition employees_loadable :: "storage \<Rightarrow> bool" where
  "employees_loadable st \<longleftrightarrow>
     length_is_zero (getItem EMPLOYEES (JArr []) st) \<or> decode_employees (getItem EMPLOYEES (JArr []) st) \<noteq> None"

text \<open>A crashed application shows neither page.\<close>

definition crash_clean :: "app_state \<Rightarrow> bool" where
  "crash_clean s \<longleftrightarrow> (app_crash s \<noteq> None \<longrightarrow> app_dash s = None \<and> app_form s = None)"

definition app_inv :: "app_state \<Rightarrow> bool" where
  "app_inv s \<longleftrightarrow> app_guarded s \<and> app_persisted s \<and> auth_inv (app_auth s, app_store s) \<and> form_ok s \<and>
                 crash_clean s"

text \<open>The application on the login page with the form \<open>f\<close> mounted, signed
  out, and a stored collection the employee store can load.\<close>

definition at_login_form :: "app_state \<Rightarrow> login_form \<Rightarrow> bool" where
  "at_login_form s f \<longleftrightarrow>
     app_form s = Some f \<and> app_route s = LoginRoute \<and> app_dash s = None \<and> app_crash s = None \<and>
     \<not> isAuthenticated (app_auth s) \<and> \<not> isLoading (app_auth s) \<and> employees_loadable (app_store s)"


section \<open>Lemmas\<close>

subsection \<open>Screens and settling\<close>

lemma screen_RenderChildren:
  "app_screen s = RenderChildren \<longleftrightarrow>
     app_route s = DashboardRoute \<and> isAuthenticated (app_auth s) \<and> \<not> isLoading (app_auth s)"
  by (simp add: app_screen_def LoginPage_def PrivateRoute_def split: route.splits)

lemma screen_LoginScreen:
  "app_screen s = LoginScreen \<longleftrightarrow>
     app_route s = LoginRoute \<and> \<not> isAuthenticated (app_auth s) \<and> \<not> isLoading (app_auth s)"
  by (simp add: app_screen_def LoginPage_def PrivateRoute_def split: route.splits)

lemma follow_redirect_fields [simp]:
  "app_auth (follow_redirect s) = app_auth s" "app_form (follow_redirect s) = app_form s"
  "app_dash (follow_redirect s) = app_dash s" "app_store (follow_redirect s) = app_store s"
  "app_crash (follow_redirect s) = app_crash s" "app_samples (follow_redirect s) = app_samples s"
  by (simp_all add: follow_redirect_def split: screen.splits option.splits)

lemma mount_views_guarded: "app_guarded (mount_views s)"
  by (auto simp: mount_views_def app_guarded_def Let_def screen_RenderChildren screen_LoginScreen
           split: option.splits sum.splits)

lemma auth_inv_setItem_EMPLOYEES [simp]:
  "auth_inv (a, setItem EMPLOYEES v st) = auth_inv (a, st)"
  by (simp add: auth_inv_def restorable_def)

lemma persisted_other_keys [simp]:
  "persisted (c, setItem AUTH v st) = persisted (c, st)" "persisted (c, setItem USER v st) = persisted (c, st)"
  "persisted (c, removeItem AUTH st) = persisted (c, st)" "persisted (c, removeItem USER st) = persisted (c, st)"
  by (simp_all add: persisted_def)

lemma mount_employees_store:
  "mount_employees smp c st = Inr cs \<Longrightarrow> snd cs = st \<or> (\<exists>v. snd cs = setItem EMPLOYEES v st)"
  by (auto simp: mount_employees_def Let_def split: if_splits option.splits)

lemma mount_views_inv:
  assumes "app_persisted s" "auth_inv (app_auth s, app_store s)" "form_ok s" "app_crash s = None"
  shows "app_inv (mount_views s)"
proof -
  have "app_persisted (mount_views s) \<and> auth_inv (app_auth (mount_views s), app_store (mount_views s)) \<and>
        form_ok (mount_views s) \<and> crash_clean (mount_views s)"
    using assms mount_employees_store [of "app_samples s" init_emp_ctx "app_store s"]
    by (auto simp: mount_views_def Let_def app_persisted_def form_ok_def init_login_form_def crash_clean_def
             intro: mount_persisted split: option.splits sum.splits)
  with mount_views_guarded show ?thesis by (simp add: app_inv_def)
qed

lemma settle_inv:
  "app_persisted s \<Longrightarrow> auth_inv (app_auth s, app_store s) \<Longrightarrow> form_ok s \<Longrightarrow> app_crash s = None \<Longrightarrow>
   app_inv (settle s)"
  unfolding settle_def
  by (rule mount_views_inv) (simp_all add: app_persisted_def form_ok_def split: option.splits)


subsection \<open>The handlers\<close>

lemma emp_step_persisted: "persisted x \<Longrightarrow> persisted (emp_step op x)"
  by (cases op) (simp_all add: ems_inv)

lemma emp_step_store: "\<exists>v. snd (emp_step op x) = snd x \<or> snd (emp_step op x) = setItem EMPLOYEES v (snd x)"
  by (cases op) (auto simp: addEmployee_def updateEmployee_def deleteEmployee_def
                           toggleEmployeeStatus_def setFilters_def Let_def)

lemma lf_finish_session:
  "(fst (snd (lf_finish (f, x))), fst (snd (snd (lf_finish (f, x))))) = x \<or>
   (\<exists>u p. (fst (snd (lf_finish (f, x))), fst (snd (snd (lf_finish (f, x))))) = snd (login u p x))"
  by (auto simp: lf_finish_def Let_def split: option.splits prod.splits)

lemma lf_finish_form:
  "pending f \<noteq> None \<Longrightarrow> \<not> lf_loading (fst (lf_finish (f, x))) \<and> pending (fst (lf_finish (f, x))) = None"
  "pending f = None \<Longrightarrow> fst (lf_finish (f, x)) = f"
  by (auto simp: lf_finish_def Let_def split: prod.splits)

lemma auth_inv_lf_finish:
  "auth_inv x \<Longrightarrow> auth_inv (fst (snd (lf_finish (f, x))), fst (snd (snd (lf_finish (f, x)))))"
  using lf_finish_session [of f x] auth_trans.login [of x] auth_trans_inv by (metis prod.collapse)

lemma handle_inv:
  assumes "app_inv s"
  shows "app_persisted (app_handle e s) \<and> auth_inv (app_auth (app_handle e s), app_store (app_handle e s)) \<and>
         form_ok (app_handle e s)"
proof (cases e)
  case AuthRestore
  have "auth_trans (app_auth s, app_store s) (restore_session (app_store s) (app_auth s), app_store s)"
    if "isLoading (app_auth s)" using that auth_trans.restore [of "(app_auth s, app_store s)"] by simp
  with assms AuthRestore show ?thesis
    by (auto simp: app_inv_def app_persisted_def form_ok_def intro: auth_trans_inv split: option.splits)
next
  case (LoginInput ev)
  with assms show ?thesis
    by (auto simp: app_inv_def app_persisted_def form_ok_def split: option.splits)
next
  case LoginSubmit
  with assms show ?thesis
    by (auto simp: app_inv_def app_persisted_def form_ok_def lf_start_def split: option.splits)
next
  case LoginTimer
  show ?thesis
  proof (cases "app_form s")
    case None
    with assms LoginTimer show ?thesis by (simp add: app_inv_def)
  next
    case (Some f)
    with assms have d: "app_dash s = None" and fo: "lf_loading f \<longleftrightarrow> pending f \<noteq> None"
      by (auto simp: app_inv_def app_guarded_def form_ok_def)
    from assms have "auth_inv (app_auth s, app_store s)" by (simp add: app_inv_def)
    then have a: "auth_inv (fst (snd (lf_finish (f, app_auth s, app_store s))),
                            fst (snd (snd (lf_finish (f, app_auth s, app_store s)))))"
      by (rule auth_inv_lf_finish)
    have fo': "lf_loading (fst (lf_finish (f, app_auth s, app_store s))) \<longleftrightarrow>
               pending (fst (lf_finish (f, app_auth s, app_store s))) \<noteq> None"
      using fo lf_finish_form [of f "(app_auth s, app_store s)"] by (cases "pending f") auto
    from LoginTimer Some d a fo' show ?thesis
      by (simp add: app_persisted_def form_ok_def Let_def split: option.splits)
  qed
next
  case (EmployeeAction op)
  show ?thesis
  proof (cases "app_dash s")
    case None
    with assms EmployeeAction show ?thesis by (simp add: app_inv_def)
  next
    case (Some c)
    with assms have "persisted (c, app_store s)" and "auth_inv (app_auth s, app_store s)" and "form_ok s"
      by (simp_all add: app_inv_def app_persisted_def)
    moreover obtain v where "snd (emp_step op (c, app_store s)) = app_store s \<or>
                             snd (emp_step op (c, app_store s)) = setItem EMPLOYEES v (app_store s)"
      using emp_step_store [of op "(c, app_store s)"] by auto
    ultimately show ?thesis using EmployeeAction Some emp_step_persisted [of "(c, app_store s)" op]
      by (auto simp: app_persisted_def form_ok_def Let_def)
  qed
next
  case HeaderLogout
  show ?thesis
  proof (cases "app_dash s")
    case None
    with assms HeaderLogout show ?thesis by (simp add: app_inv_def)
  next
    case (Some c)
    with assms have "persisted (c, app_store s)" and i: "auth_inv (app_auth s, app_store s)" and "form_ok s"
      by (simp_all add: app_inv_def app_persisted_def)
    moreover have "auth_inv (logout (app_auth s, app_store s))"
      using auth_trans_inv [OF auth_trans.logout i] .
    ultimately show ?thesis using HeaderLogout Some
      by (simp add: app_persisted_def form_ok_def Let_def header_logout_def logout_def)
  qed
next
  case (GoTo r)
  with assms show ?thesis by (simp add: app_inv_def app_persisted_def form_ok_def split: option.splits)
next
  case (Reload smp)
  with assms show ?thesis by (simp add: app_persisted_def form_ok_def auth_inv_init)
qed

lemma app_crash_handle:
  "app_crash (app_handle e s) = (if is_reload e then None else app_crash s)"
  by (cases e) (simp_all add: Let_def split: option.splits prod.splits)

lemma app_step_inv: "app_inv s \<Longrightarrow> app_inv (app_step e s)"
  using handle_inv [of s e] app_crash_handle [of e s]
  by (auto simp: app_step_def intro: settle_inv)

lemma app_start_inv: "app_inv (app_start r st smp)"
  unfolding app_start_def
  by (rule settle_inv) (simp_all add: app_persisted_def form_ok_def auth_inv_init)

lemma app_reach_inv: "app_reach s \<Longrightarrow> app_inv s"
  by (induction rule: app_reach.induct) (simp_all add: app_start_inv app_step_inv)


subsection \<open>Progress\<close>

lemma loadable_mount:
  "employees_loadable st \<Longrightarrow> \<exists>cs. mount_employees smp c st = Inr cs \<and> employees_loadable (snd cs)"
  by (auto simp: employees_loadable_def mount_employees_def Let_def split: option.splits)

lemma loadable_other_keys [simp]:
  "employees_loadable (setItem AUTH v st) = employees_loadable st"
  "employees_loadable (setItem USER v st) = employees_loadable st"
  "employees_loadable (removeItem AUTH st) = employees_loadable st"
  "employees_loadable (removeItem USER st) = employees_loadable st"
  by (simp_all add: employees_loadable_def)

lemma settle_signed_in:
  assumes "isAuthenticated (app_auth s)" "\<not> isLoading (app_auth s)" "employees_loadable (app_store s)"
  shows "app_dash (settle s) \<noteq> None \<and> app_crash (settle s) = app_crash s \<and>
         app_route (settle s) = DashboardRoute \<and> employees_loadable (app_store (settle s))"
proof -
  let ?t = "follow_redirect s"
  have r: "app_route ?t = DashboardRoute"
    using assms by (simp add: follow_redirect_def app_screen_def LoginPage_def PrivateRoute_def route_of_def
                        split: route.splits)
  then have "app_screen ?t = RenderChildren" using assms by (simp add: screen_RenderChildren)
  moreover obtain cs where "mount_employees (app_samples s) init_emp_ctx (app_store s) = Inr cs"
    and "employees_loadable (snd cs)"
    using loadable_mount [OF assms(3)] by blast
  ultimately show ?thesis using assms r
    by (auto simp: settle_def mount_views_def Let_def split: option.splits)
qed

lemma settle_signed_out:
  assumes "\<not> isAuthenticated (app_auth s)" "\<not> isLoading (app_auth s)"
  shows "settle s = s\<lparr>app_route := LoginRoute,
                      app_form := Some (case app_form s of Some f \<Rightarrow> f | None \<Rightarrow> init_login_form),
                      app_dash := None\<rparr>"
proof -
  have "follow_redirect s = s\<lparr>app_route := LoginRoute\<rparr>"
    using assms by (cases "app_route s")
      (simp_all add: follow_redirect_def app_screen_def LoginPage_def PrivateRoute_def route_of_def)
  moreover have "app_screen (s\<lparr>app_route := LoginRoute\<rparr>) = LoginScreen"
    using assms by (simp add: screen_LoginScreen)
  ultimately show ?thesis by (simp add: settle_def mount_views_def Let_def)
qed


lemma app_step_live [simp]: "app_crash s = None \<Longrightarrow> app_step e s = settle (app_handle e s)"
  by (simp add: app_step_def)

lemma step_restore:
  assumes "app_crash s = None" "employees_loadable (app_store s)"
  shows "app_dash (app_step AuthRestore s) \<noteq> None \<or> (\<exists>f. at_login_form (app_step AuthRestore s) f)"
proof -
  let ?h = "app_handle AuthRestore s"
  have h: "\<not> isLoading (app_auth ?h)" "app_store ?h = app_store s" "app_crash ?h = None"
    using assms(1) by (simp_all add: restore_session_def Let_def)
  show ?thesis
  proof (cases "isAuthenticated (app_auth ?h)")
    case True
    with h assms settle_signed_in [of ?h] show ?thesis by simp
  next
    case False
    with h assms show ?thesis by (simp add: settle_signed_out at_login_form_def)
  qed
qed

lemma step_input:
  "at_login_form s f \<Longrightarrow> at_login_form (app_step (LoginInput ev) s) (lf_input ev f)"
  by (simp add: at_login_form_def settle_signed_out)

lemma step_submit:
  "at_login_form s f \<Longrightarrow> \<not> lf_loading f \<Longrightarrow> lf_constraints_ok f \<Longrightarrow>
   at_login_form (app_step LoginSubmit s) (lf_start f)"
  by (simp add: at_login_form_def settle_signed_out submit_enabled_def)

lemma step_timer_admin:
  assumes "at_login_form s f" "pending f = Some (''admin'', ''admin123'')"
  shows "app_step LoginTimer s =
           settle (s\<lparr>app_form := Some (fst (lf_finish (f, app_auth s, app_store s))),
                     app_auth := (app_auth s)\<lparr>isAuthenticated := True, user := JObj [(''username'', JStr ''admin'')]\<rparr>,
                     app_store := setItem USER (JObj [(''username'', JStr ''admin'')]) (setItem AUTH (JBool True) (app_store s)),
                     app_route := DashboardRoute\<rparr>)"
  using assms by (simp add: at_login_form_def lf_finish_def login_cases Let_def route_of_def)

lemma step_timer:
  assumes "at_login_form s f" "form_ok s"
  shows "app_dash (app_step LoginTimer s) \<noteq> None \<or> (\<exists>f'. at_login_form (app_step LoginTimer s) f' \<and> \<not> lf_loading f')"
proof (cases "pending f")
  case None
  with assms have "\<not> lf_loading f" by (simp add: at_login_form_def form_ok_def)
  with None assms show ?thesis
    by (simp add: at_login_form_def lf_finish_def settle_signed_out)
next
  case (Some up)
  obtain u p where up: "up = (u, p)" by (cases up)
  show ?thesis
  proof (cases "u = ''admin'' \<and> p = ''admin123''")
    case True
    then have pf: "pending f = Some (''admin'', ''admin123'')" using Some up by simp
    have "app_dash (app_step LoginTimer s) \<noteq> None"
      unfolding step_timer_admin [OF assms(1) pf] using assms(1)
      by (intro settle_signed_in [THEN conjunct1]) (simp_all add: at_login_form_def)
    then show ?thesis ..
  next
    case False
    with assms Some up show ?thesis
      by (auto simp: at_login_form_def lf_finish_def login_cases Let_def settle_signed_out)
  qed
qed

lemma step_input_frame:
  "at_login_form s f \<Longrightarrow>
     app_store (app_step (LoginInput ev) s) = app_store s \<and> app_samples (app_step (LoginInput ev) s) = app_samples s"
  "at_login_form s f \<Longrightarrow>
     app_store (app_step LoginSubmit s) = app_store s \<and> app_samples (app_step LoginSubmit s) = app_samples s"
  by (simp_all add: at_login_form_def settle_signed_out)

lemma settle_mount:
  assumes "isAuthenticated (app_auth s)" "\<not> isLoading (app_auth s)" "app_route s = DashboardRoute"
    "app_dash s = None" "mount_employees (app_samples s) init_emp_ctx (app_store s) = Inr cs"
  shows "app_dash (settle s) = Some (fst cs)"
proof -
  have "follow_redirect s = s"
    using assms by (simp add: follow_redirect_def app_screen_def PrivateRoute_def)
  moreover have "app_screen s = RenderChildren" using assms by (simp add: screen_RenderChildren)
  ultimately show ?thesis using assms by (simp add: settle_def mount_views_def Let_def)
qed

lemma steps_sign_in:
  assumes "at_login_form s f" "\<not> lf_loading f"
  shows "\<exists>cs. mount_employees (app_samples s) init_emp_ctx
                 (setItem USER (JObj [(''username'', JStr ''admin'')]) (setItem AUTH (JBool True) (app_store s))) = Inr cs \<and>
             app_dash (fold app_step [LoginInput (TypeUsername ''admin''), LoginInput (TypePassword ''admin123''),
                                     LoginSubmit, LoginTimer] s) = Some (fst cs)"
proof -
  let ?f1 = "lf_input (TypeUsername ''admin'') f"
  let ?f2 = "lf_input (TypePassword ''admin123'') ?f1"
  let ?s1 = "app_step (LoginInput (TypeUsername ''admin'')) s"
  let ?s2 = "app_step (LoginInput (TypePassword ''admin123'')) ?s1"
  let ?s3 = "app_step LoginSubmit ?s2"
  have a1: "at_login_form ?s1 ?f1" using assms(1) by (rule step_input)
  then have a2: "at_login_form ?s2 ?f2" by (rule step_input)
  moreover have "\<not> lf_loading ?f2" using assms(2) by simp
  moreover have "lf_constraints_ok ?f2" by (simp add: lf_constraints_ok_def)
  ultimately have a: "at_login_form ?s3 (lf_start ?f2)" by (rule step_submit)
  have st: "app_store ?s3 = app_store s \<and> app_samples ?s3 = app_samples s"
    using step_input_frame [OF assms(1)] step_input_frame [OF a1] step_input_frame [OF a2] by simp
  have pf: "pending (lf_start ?f2) = Some (''admin'', ''admin123'')" by (simp add: lf_start_def)
  from a have "employees_loadable (app_store s)" using st by (simp add: at_login_form_def)
  then have "employees_loadable
      (setItem USER (JObj [(''username'', JStr ''admin'')]) (setItem AUTH (JBool True) (app_store s)))" by simp
  then obtain cs where cs: "mount_employees (app_samples s) init_emp_ctx
      (setItem USER (JObj [(''username'', JStr ''admin'')]) (setItem AUTH (JBool True) (app_store s))) = Inr cs"
    using loadable_mount by blast
  have "app_dash (app_step LoginTimer ?s3) = Some (fst cs)"
    unfolding step_timer_admin [OF a pf] using a st cs
    by (intro settle_mount) (simp_all add: at_login_form_def)
  with cs show ?thesis by auto
qed


lemma app_samples_settle [simp]: "app_samples (settle s) = app_samples s"
  by (simp add: settle_def mount_views_def Let_def split: option.splits sum.splits)

lemma fold_app_step_append:
  "fold app_step (xs @ ys) s = fold app_step ys (fold app_step xs s)"
  by simp

lemma app_start_settled:
  "app_start r st smp =
     \<lparr>app_auth = init_auth, app_route = r, app_form = None, app_dash = None,
      app_store = st, app_crash = None, app_samples = smp\<rparr>"
  by (cases r) (simp_all add: app_start_def settle_def follow_redirect_def mount_views_def app_screen_def
                              LoginPage_def PrivateRoute_def init_auth_def Let_def)


lemma step_reload: "app_step (Reload smp) s = app_start (app_route s) (app_store s) smp"
  by (simp add: app_step_def app_start_def)

lemma restore_reloaded:
  "app_step AuthRestore (app_start r st smp) =
     settle \<lparr>app_auth = restore_session st init_auth, app_route = r, app_form = None, app_dash = None,
             app_store = st, app_crash = None, app_samples = smp\<rparr>"
  by (simp add: app_start_settled init_auth_def)

lemma signed_in_demo:
  "app_reach (fold app_step [AuthRestore, LoginInput (TypeUsername ''admin''), LoginInput (TypePassword ''admin123''),
                             LoginSubmit, LoginTimer] (app_start LoginRoute Map.empty (SAMPLE_EMPLOYEES (\<lambda>k. k)))) \<and>
   app_dash (fold app_step [AuthRestore, LoginInput (TypeUsername ''admin''), LoginInput (TypePassword ''admin123''),
                            LoginSubmit, LoginTimer] (app_start LoginRoute Map.empty (SAMPLE_EMPLOYEES (\<lambda>k. k)))) =
     Some (init_emp_ctx\<lparr>employees := SAMPLE_EMPLOYEES (\<lambda>k. k)\<rparr>)"
proof -
  let ?start = "app_start LoginRoute Map.empty (SAMPLE_EMPLOYEES (\<lambda>k. k))"
  let ?run = "fold app_step [AuthRestore, LoginInput (TypeUsername ''admin''), LoginInput (TypePassword ''admin123''),
                           LoginSubmit, LoginTimer] ?start"
  have r: "app_reach ?run"
    by (simp only: fold_simps) (intro app_reach.step app_reach.start)
  have h: "app_handle AuthRestore ?start = ?start\<lparr>app_auth := init_auth\<lparr>isLoading := False\<rparr>\<rparr>"
    by (simp add: app_start_settled restore_session_def init_auth_def Let_def)
  have s1: "app_step AuthRestore ?start =
      ?start\<lparr>app_auth := init_auth\<lparr>isLoading := False\<rparr>, app_form := Some init_login_form\<rparr>"
    unfolding app_step_def h by (simp add: settle_signed_out init_auth_def app_start_settled)
  have a: "at_login_form (app_step AuthRestore ?start) init_login_form"
    unfolding s1 by (simp add: at_login_form_def init_auth_def employees_loadable_def app_start_settled)
  have "\<not> lf_loading init_login_form" by (simp add: init_login_form_def)
  from steps_sign_in [OF a this] obtain cs where
    m: "mount_employees (app_samples (app_step AuthRestore ?start)) init_emp_ctx
          (setItem USER (JObj [(''username'', JStr ''admin'')])
            (setItem AUTH (JBool True) (app_store (app_step AuthRestore ?start))))  = Inr cs"
    and d: "app_dash (fold app_step [LoginInput (TypeUsername ''admin''), LoginInput (TypePassword ''admin123''),
                                     LoginSubmit, LoginTimer] (app_step AuthRestore ?start)) = Some (fst cs)"
    by blast
  from m have "fst cs = init_emp_ctx\<lparr>employees := SAMPLE_EMPLOYEES (\<lambda>k. k)\<rparr>"
    unfolding s1 by (auto simp: app_start_settled mount_employees_def)
  with d r show ?thesis by (simp only: fold_simps)
qed


lemma settle_EMPLOYEES:
  "app_store (settle s) EMPLOYEES \<noteq> app_store s EMPLOYEES \<Longrightarrow> app_dash (settle s) \<noteq> None"
  by (auto simp: settle_def mount_views_def Let_def split: option.splits sum.splits if_splits)

lemma settle_keeps_dash:
  assumes "app_guarded s" "app_dash s \<noteq> None"
  shows "app_dash (settle s) = app_dash s"
proof -
  have sc: "app_screen s = RenderChildren" using assms by (simp add: app_guarded_def screen_RenderChildren)
  then have "follow_redirect s = s" by (simp add: follow_redirect_def)
  with sc assms(2) show ?thesis by (auto simp: settle_def mount_views_def Let_def)
qed

lemma lf_finish_EMPLOYEES:
  "fst (snd (snd (lf_finish (f, x)))) EMPLOYEES = snd x EMPLOYEES"
  by (auto simp: lf_finish_def login_cases setItem_def Let_def split: option.splits prod.splits)

lemma handle_EMPLOYEES:
  assumes "app_store (app_handle e s) EMPLOYEES \<noteq> app_store s EMPLOYEES"
  shows "\<exists>op c. e = EmployeeAction op \<and> app_dash s = Some c"
  using assms
proof (cases e)
  case LoginTimer
  with assms show ?thesis
    by (auto simp: Let_def lf_finish_EMPLOYEES split: option.splits)
next
  case HeaderLogout
  with assms show ?thesis
    by (auto simp: Let_def header_logout_def logout_def removeItem_def split: option.splits)
qed (auto simp: Let_def split: option.splits if_splits)


lemma reload_restore_run:
  "fold app_step [Reload smp, AuthRestore] s =
     settle \<lparr>app_auth = restore_session (app_store s) init_auth, app_route = app_route s, app_form = None,
                   app_dash = None, app_store = app_store s, app_crash = None, app_samples = smp\<rparr>"
  by (simp add: step_reload restore_reloaded)

lemma reload_dashboard:
  assumes inv: "app_inv s" and d: "app_dash s = Some c"
  shows "app_route (settle \<lparr>app_auth = restore_session (app_store s) init_auth, app_route = app_route s, app_form = None,
                   app_dash = None, app_store = app_store s, app_crash = None, app_samples = smp\<rparr>) = DashboardRoute \<and>
         app_dash (settle \<lparr>app_auth = restore_session (app_store s) init_auth, app_route = app_route s, app_form = None,
                   app_dash = None, app_store = app_store s, app_crash = None, app_samples = smp\<rparr>) =
           Some (init_emp_ctx\<lparr>employees := (if employees c = [] then smp else employees c)\<rparr>)"
proof -
  let ?st = "app_store s"
  let ?a = "restore_session ?st init_auth"
  from inv d have g: "app_route s = DashboardRoute" "isAuthenticated (app_auth s)"
    and p: "persisted (c, ?st)" and ai: "auth_inv (app_auth s, ?st)"
    by (auto simp: app_inv_def app_guarded_def app_persisted_def)
  from g ai have au: "isAuthenticated ?a"
    by (simp add: auth_inv_def restore_init_authenticated)
  have nl: "\<not> isLoading ?a" by (simp add: restore_session_def Let_def)
  from p have dec: "decode_employees (getItem EMPLOYEES (JArr []) ?st) = Some (employees c)"
    by (simp add: persisted_def)
  obtain cs where m: "mount_employees smp init_emp_ctx ?st = Inr cs"
    and cs: "fst cs = init_emp_ctx\<lparr>employees := (if employees c = [] then smp else employees c)\<rparr>"
    using mount_from_saved [OF dec, of smp] by (cases "employees c = []") auto
  have "app_dash (settle \<lparr>app_auth = restore_session (app_store s) init_auth, app_route = app_route s, app_form = None,
                   app_dash = None, app_store = app_store s, app_crash = None, app_samples = smp\<rparr>) = Some (fst cs)"
    using au nl g m by (intro settle_mount) simp_all
  moreover have "app_route (settle \<lparr>app_auth = restore_session (app_store s) init_auth, app_route = app_route s, app_form = None,
                   app_dash = None, app_store = app_store s, app_crash = None, app_samples = smp\<rparr>) = DashboardRoute"
    using settle_signed_in au nl g dec by (simp add: employees_loadable_def)
  ultimately show ?thesis using cs by simp
qed

lemma reload_login:
  assumes inv: "app_inv s" and f: "app_form s \<noteq> None"
  shows "app_route (settle \<lparr>app_auth = restore_session (app_store s) init_auth, app_route = app_route s, app_form = None,
                   app_dash = None, app_store = app_store s, app_crash = None, app_samples = smp\<rparr>) = LoginRoute \<and>
         app_form (settle \<lparr>app_auth = restore_session (app_store s) init_auth, app_route = app_route s, app_form = None,
                   app_dash = None, app_store = app_store s, app_crash = None, app_samples = smp\<rparr>) = Some init_login_form"
proof -
  from inv f have "\<not> isAuthenticated (app_auth s)" "\<not> isLoading (app_auth s)"
    and ai: "auth_inv (app_auth s, app_store s)"
    by (auto simp: app_inv_def app_guarded_def)
  with ai have "\<not> isAuthenticated (restore_session (app_store s) init_auth)"
    by (simp add: auth_inv_def restore_init_authenticated)
  moreover have "\<not> isLoading (restore_session (app_store s) init_auth)"
    by (simp add: restore_session_def Let_def)
  ultimately show ?thesis by (simp add: settle_signed_out)
qed


lemma written_signed_in_guarded:
  assumes "app_guarded s" and "app_store (app_step e s) EMPLOYEES \<noteq> app_store s EMPLOYEES"
  shows "app_dash (app_step e s) \<noteq> None \<and> app_route (app_step e s) = DashboardRoute \<and>
         isAuthenticated (app_auth (app_step e s)) \<and> \<not> isLoading (app_auth (app_step e s))"
proof -
  have live: "app_step e s = settle (app_handle e s)"
    using assms(2) by (auto simp: app_step_def split: if_splits)
  have "app_dash (settle (app_handle e s)) \<noteq> None"
  proof (cases "app_store (settle (app_handle e s)) EMPLOYEES = app_store (app_handle e s) EMPLOYEES")
    case True
    with assms(2) live have "app_store (app_handle e s) EMPLOYEES \<noteq> app_store s EMPLOYEES" by simp
    then obtain op c where e: "e = EmployeeAction op" and d: "app_dash s = Some c"
      using handle_EMPLOYEES by blast
    have "app_guarded (app_handle e s)" "app_dash (app_handle e s) \<noteq> None"
      using assms(1) d e by (auto simp: app_guarded_def Let_def)
    then show ?thesis by (simp add: settle_keeps_dash)
  next
    case False
    then show ?thesis by (rule settle_EMPLOYEES)
  qed
  moreover have "app_guarded (settle (app_handle e s))" by (simp add: settle_def mount_views_guarded)
  ultimately show ?thesis unfolding live by (simp add: app_guarded_def)
qed


lemma demo_delete_changes:
  "app_store (app_step (EmployeeAction (DeleteEmployee ''EMP001''))
     (fold app_step [AuthRestore, LoginInput (TypeUsername ''admin''), LoginInput (TypePassword ''admin123''),
                     LoginSubmit, LoginTimer] (app_start LoginRoute Map.empty (SAMPLE_EMPLOYEES (\<lambda>k. k))))) EMPLOYEES \<noteq>
   app_store (fold app_step [AuthRestore, LoginInput (TypeUsername ''admin''), LoginInput (TypePassword ''admin123''),
                             LoginSubmit, LoginTimer] (app_start LoginRoute Map.empty (SAMPLE_EMPLOYEES (\<lambda>k. k)))) EMPLOYEES"
proof -
  let ?run = "fold app_step [AuthRestore, LoginInput (TypeUsername ''admin''), LoginInput (TypePassword ''admin123''),
                           LoginSubmit, LoginTimer] (app_start LoginRoute Map.empty (SAMPLE_EMPLOYEES (\<lambda>k. k)))"
  let ?e = "EmployeeAction (DeleteEmployee ''EMP001'')"
  let ?c0 = "init_emp_ctx\<lparr>employees := SAMPLE_EMPLOYEES (\<lambda>k. k)\<rparr>"
  let ?r = "deleteEmployee ''EMP001'' (?c0, app_store ?run)"
  have r: "app_reach ?run" and d: "app_dash ?run = Some ?c0" using signed_in_demo by blast+
  have inv: "app_inv ?run" using r by (rule app_reach_inv)
  then have cr: "app_crash ?run = None" and p0: "persisted (?c0, app_store ?run)"
    using d by (auto simp: app_inv_def crash_clean_def app_persisted_def)
  have h: "app_handle ?e ?run = ?run\<lparr>app_dash := Some (fst ?r), app_store := snd ?r\<rparr>"
    using d by (simp add: Let_def)
  have g: "app_guarded (app_handle ?e ?run)" using inv d unfolding h by (auto simp: app_inv_def app_guarded_def)
  have dh: "app_dash (app_handle ?e ?run) = Some (fst ?r)" unfolding h by simp
  then have "app_dash (app_handle ?e ?run) \<noteq> None" by simp
  then have e1: "app_dash (settle (app_handle ?e ?run)) = app_dash (app_handle ?e ?run)"
    by (rule settle_keeps_dash [OF g])
  have st: "app_step ?e ?run = settle (app_handle ?e ?run)" by (rule app_step_live [OF cr])
  have d1: "app_dash (app_step ?e ?run) = Some (fst ?r)" by (simp only: st e1 dh)
  have r1: "app_reach (app_step ?e ?run)" using r by (rule app_reach.step)
  then have "persisted (fst ?r, app_store (app_step ?e ?run))"
    using d1 app_reach_inv [OF r1] by (simp add: app_inv_def app_persisted_def)
  moreover have "employees (fst ?r) \<noteq> employees ?c0"
    by (simp add: employees_deleteEmployee SAMPLE_EMPLOYEES_def)
  ultimately show ?thesis using p0 by (auto simp: persisted_def getItem_def)
qed


section \<open>Properties\<close>

text \<open>C19: in every reachable state of the application, the employee store (and
  the dashboard that owns it) exists only on \<open>/dashboard\<close> behind a settled
  authenticated session, and the login form only on \<open>/login\<close> while the
  session is settled and signed out; a crashed application shows neither.\<close>

theorem app_guard_safety:
  assumes "app_reach s"
  shows "(app_dash s \<noteq> None \<longrightarrow>
            app_route s = DashboardRoute \<and> isAuthenticated (app_auth s) \<and> \<not> isLoading (app_auth s)) \<and>
         (app_form s \<noteq> None \<longrightarrow>
            app_route s = LoginRoute \<and> \<not> isAuthenticated (app_auth s) \<and> \<not> isLoading (app_auth s)) \<and>
         (app_crash s \<noteq> None \<longrightarrow> app_dash s = None \<and> app_form s = None)"
  using app_reach_inv [OF assms] by (simp add: app_inv_def app_guarded_def crash_clean_def)

theorem app_guard_safety_witness:
  "app_dash (app_start DashboardRoute Map.empty []) = None \<and> app_form (app_start DashboardRoute Map.empty []) = None"
  using app_guard_safety [OF app_reach.start [of DashboardRoute Map.empty "[]"]]
  by (simp add: app_start_settled)

text \<open>C20: only a signed-in user changes the employee data: every step of the
  application that changes the stored collection ends on \<open>/dashboard\<close> with
  the employee store mounted behind a settled, authenticated session (an
  employee action on the dashboard, or the store's first mount after sign-in
  seeding the samples).\<close>

theorem employees_written_signed_in:
  assumes "app_reach s" and "app_store (app_step e s) EMPLOYEES \<noteq> app_store s EMPLOYEES"
  shows "app_dash (app_step e s) \<noteq> None \<and> app_route (app_step e s) = DashboardRoute \<and>
         isAuthenticated (app_auth (app_step e s)) \<and> \<not> isLoading (app_auth (app_step e s))"
proof -
  have "app_guarded s" using app_reach_inv [OF assms(1)] by (simp add: app_inv_def)
  from written_signed_in_guarded [OF this assms(2)] show ?thesis .
qed


theorem employees_written_signed_in_witness:
  "app_reach (fold app_step [AuthRestore, LoginInput (TypeUsername ''admin''), LoginInput (TypePassword ''admin123''),
                             LoginSubmit, LoginTimer] (app_start LoginRoute Map.empty (SAMPLE_EMPLOYEES (\<lambda>k. k)))) \<and>
   app_store (app_step (EmployeeAction (DeleteEmployee ''EMP001''))
     (fold app_step [AuthRestore, LoginInput (TypeUsername ''admin''), LoginInput (TypePassword ''admin123''),
                     LoginSubmit, LoginTimer] (app_start LoginRoute Map.empty (SAMPLE_EMPLOYEES (\<lambda>k. k))))) EMPLOYEES \<noteq>
   app_store (fold app_step [AuthRestore, LoginInput (TypeUsername ''admin''), LoginInput (TypePassword ''admin123''),
                             LoginSubmit, LoginTimer] (app_start LoginRoute Map.empty (SAMPLE_EMPLOYEES (\<lambda>k. k)))) EMPLOYEES \<and>
   isAuthenticated (app_auth (app_step (EmployeeAction (DeleteEmployee ''EMP001''))
     (fold app_step [AuthRestore, LoginInput (TypeUsername ''admin''), LoginInput (TypePassword ''admin123''),
                     LoginSubmit, LoginTimer] (app_start LoginRoute Map.empty (SAMPLE_EMPLOYEES (\<lambda>k. k))))))"
proof -
  note r = signed_in_demo [THEN conjunct1]
  note ch = demo_delete_changes
  from employees_written_signed_in [OF r ch] r ch show ?thesis by blast
qed

text \<open>Across the composed application, whenever the dashboard is mounted the
  storage holds its collection, and the session store's invariant (\<open>auth_inv\<close>) holds
  of the session state and the storage, whatever the employee actions, logins,
  logouts, navigations and reloads in between.\<close>

theorem app_storage_invariant:
  assumes "app_reach s"
  shows "(case app_dash s of
            Some c \<Rightarrow> decode_employees (getItem EMPLOYEES (JArr []) (app_store s)) = Some (employees c)
          | None \<Rightarrow> True) \<and>
         auth_inv (app_auth s, app_store s)"
  using app_reach_inv [OF assms]
  by (simp add: app_inv_def app_persisted_def persisted_def split: option.splits)

theorem app_storage_invariant_witness:
  "auth_inv (app_auth (app_start LoginRoute Map.empty []), app_store (app_start LoginRoute Map.empty []))"
  using app_storage_invariant [OF app_reach.start [of LoginRoute Map.empty "[]"]] by simp

text \<open>C23: from every reachable state that has not crashed, with a stored
  collection the employee store can load, some sequence of user actions
  reaches the dashboard: let the session settle, let a pending login finish,
  then sign in with the configured pair.\<close>

theorem dashboard_reachable:
  assumes "app_reach s" "app_crash s = None" "employees_loadable (app_store s)"
  shows "\<exists>evs. app_dash (fold app_step evs s) \<noteq> None"
proof -
  have inv1: "app_inv (app_step AuthRestore s)"
    using app_reach_inv [OF assms(1)] by (rule app_step_inv)
  from step_restore [OF assms(2,3)] show ?thesis
  proof
    assume "app_dash (app_step AuthRestore s) \<noteq> None"
    then have "app_dash (fold app_step [AuthRestore] s) \<noteq> None" by (simp only: fold_simps not_False_eq_True)
    then show ?thesis ..
  next
    assume "\<exists>f. at_login_form (app_step AuthRestore s) f"
    then obtain f where f: "at_login_form (app_step AuthRestore s) f" ..
    have "form_ok (app_step AuthRestore s)" using inv1 by (simp add: app_inv_def)
    from step_timer [OF f this] show ?thesis
    proof
      assume "app_dash (app_step LoginTimer (app_step AuthRestore s)) \<noteq> None"
      then have "app_dash (fold app_step [AuthRestore, LoginTimer] s) \<noteq> None" by (simp only: fold_simps not_False_eq_True)
      then show ?thesis ..
    next
      assume "\<exists>f'. at_login_form (app_step LoginTimer (app_step AuthRestore s)) f' \<and> \<not> lf_loading f'"
      then obtain f' where "at_login_form (fold app_step [AuthRestore, LoginTimer] s) f'" "\<not> lf_loading f'"
        by (auto simp only: fold_simps)
      from steps_sign_in [OF this] have
        "app_dash (fold app_step ([AuthRestore, LoginTimer] @ [LoginInput (TypeUsername ''admin''),
            LoginInput (TypePassword ''admin123''), LoginSubmit, LoginTimer]) s) \<noteq> None"
        unfolding fold_app_step_append by auto
      then show ?thesis ..
    qed
  qed
qed

theorem dashboard_reachable_witness:
  "app_crash (app_start DashboardRoute Map.empty (SAMPLE_EMPLOYEES (\<lambda>k. k))) = None \<and>
   employees_loadable (app_store (app_start DashboardRoute Map.empty (SAMPLE_EMPLOYEES (\<lambda>k. k)))) \<and>
   (\<exists>evs. app_dash (fold app_step evs (app_start DashboardRoute Map.empty (SAMPLE_EMPLOYEES (\<lambda>k. k)))) \<noteq> None)"
proof -
  have c: "app_crash (app_start DashboardRoute Map.empty (SAMPLE_EMPLOYEES (\<lambda>k. k))) = None"
    and l: "employees_loadable (app_store (app_start DashboardRoute Map.empty (SAMPLE_EMPLOYEES (\<lambda>k. k))))"
    by (simp_all add: app_start_settled employees_loadable_def)
  from dashboard_reachable [OF app_reach.start c l] c l show ?thesis by blast
qed


text \<open>C24: signing out from the dashboard and back in with the configured pair
  mounts a new employee store: its filters are back to empty, and its
  collection is the one that was shown before, read back from storage, except
  that an empty collection is replaced by the seed records of the page load.\<close>

theorem relogin_reloads_collection:
  assumes "app_reach s" "app_dash s = Some c"
  shows "\<exists>c'. app_dash (fold app_step [HeaderLogout, LoginInput (TypeUsername ''admin''),
                  LoginInput (TypePassword ''admin123''), LoginSubmit, LoginTimer] s) = Some c' \<and>
              filters c' = filters init_emp_ctx \<and>
              employees c' = (if employees c = [] then app_samples s else employees c)"
proof -
  have inv: "app_inv s" using assms(1) by (rule app_reach_inv)
  then have g: "app_route s = DashboardRoute" "isAuthenticated (app_auth s)" "\<not> isLoading (app_auth s)"
    and cr: "app_crash s = None" and fo: "app_form s = None"
    and p: "persisted (c, app_store s)"
    using assms(2) by (auto simp: app_inv_def app_guarded_def crash_clean_def app_persisted_def)
  let ?st1 = "removeItem USER (removeItem AUTH (app_store s))"
  let ?s1 = "app_step HeaderLogout s"
  have s1: "?s1 = s\<lparr>app_auth := (app_auth s)\<lparr>isAuthenticated := False, user := JNull\<rparr>, app_store := ?st1,
                      app_route := LoginRoute, app_form := Some init_login_form, app_dash := None\<rparr>"
    using assms(2) g cr fo by (simp add: header_logout_def logout_def settle_signed_out)
  have dec: "decode_employees (getItem EMPLOYEES (JArr [])
               (setItem USER (JObj [(''username'', JStr ''admin'')]) (setItem AUTH (JBool True) ?st1))) =
             Some (employees c)"
    using p by (simp add: persisted_def)
  then have "employees_loadable ?st1" by (simp add: employees_loadable_def)
  then have "at_login_form ?s1 init_login_form"
    using s1 cr g by (simp add: at_login_form_def)
  moreover have "\<not> lf_loading init_login_form" by (simp add: init_login_form_def)
  ultimately obtain cs where
    m: "mount_employees (app_samples ?s1) init_emp_ctx
          (setItem USER (JObj [(''username'', JStr ''admin'')]) (setItem AUTH (JBool True) (app_store ?s1))) = Inr cs"
    and d: "app_dash (fold app_step [LoginInput (TypeUsername ''admin''), LoginInput (TypePassword ''admin123''),
                                     LoginSubmit, LoginTimer] ?s1) = Some (fst cs)"
    using steps_sign_in by blast
  from m s1 have "fst cs = init_emp_ctx\<lparr>employees := (if employees c = [] then app_samples s else employees c)\<rparr>"
    using mount_from_saved [OF dec] by (auto split: if_splits)
  with d show ?thesis by (simp add: init_emp_ctx_def)
qed

theorem relogin_reloads_collection_witness:
  "\<exists>c'. app_dash (fold app_step [HeaderLogout, LoginInput (TypeUsername ''admin''),
          LoginInput (TypePassword ''admin123''), LoginSubmit, LoginTimer]
          (fold app_step [AuthRestore, LoginInput (TypeUsername ''admin''), LoginInput (TypePassword ''admin123''),
                          LoginSubmit, LoginTimer] (app_start LoginRoute Map.empty (SAMPLE_EMPLOYEES (\<lambda>k. k))))) = Some c' \<and>
        filters c' = filters init_emp_ctx \<and> employees c' = SAMPLE_EMPLOYEES (\<lambda>k. k)"
proof -
  let ?run = "fold app_step [AuthRestore, LoginInput (TypeUsername ''admin''), LoginInput (TypePassword ''admin123''),
                           LoginSubmit, LoginTimer] (app_start LoginRoute Map.empty (SAMPLE_EMPLOYEES (\<lambda>k. k)))"
  note demo = signed_in_demo
  obtain c' where c': "app_dash (fold app_step [HeaderLogout, LoginInput (TypeUsername ''admin''),
                  LoginInput (TypePassword ''admin123''), LoginSubmit, LoginTimer] ?run) = Some c'"
      "filters c' = filters init_emp_ctx"
      "employees c' = (if employees (init_emp_ctx\<lparr>employees := SAMPLE_EMPLOYEES (\<lambda>k. k)\<rparr>) = []
                       then app_samples ?run else employees (init_emp_ctx\<lparr>employees := SAMPLE_EMPLOYEES (\<lambda>k. k)\<rparr>))"
    using relogin_reloads_collection [OF demo [THEN conjunct1] demo [THEN conjunct2]] by blast
  have "employees c' = SAMPLE_EMPLOYEES (\<lambda>k. k)"
    using c'(3) by (simp add: SAMPLE_EMPLOYEES_def)
  with c'(1,2) show ?thesis by blast
qed

text \<open>C25: a page reload at any point resumes where the user was: from the
  dashboard, once the session is restored, the dashboard is shown again with a
  new employee store holding the stored collection (the reload's seed list if
  it was empty) and no filters; from the login form, the login page is shown
  again with an empty form (what was typed, and a pending submission, are
  lost).\<close>

theorem reload_resumes:
  assumes "app_reach s"
  shows "(app_dash s = Some c \<longrightarrow>
            app_route (fold app_step [Reload smp, AuthRestore] s) = DashboardRoute \<and>
            app_dash (fold app_step [Reload smp, AuthRestore] s) =
              Some (init_emp_ctx\<lparr>employees := (if employees c = [] then smp else employees c)\<rparr>)) \<and>
         (app_form s \<noteq> None \<longrightarrow>
            app_route (fold app_step [Reload smp, AuthRestore] s) = LoginRoute \<and>
            app_form (fold app_step [Reload smp, AuthRestore] s) = Some init_login_form)"
proof -
  have inv: "app_inv s" using assms by (rule app_reach_inv)
  show ?thesis
    unfolding reload_restore_run using reload_dashboard [OF inv] reload_login [OF inv] by blast
qed


theorem reload_resumes_witness:
  "app_reach (fold app_step [AuthRestore, LoginInput (TypeUsername ''admin''), LoginInput (TypePassword ''admin123''),
                             LoginSubmit, LoginTimer] (app_start LoginRoute Map.empty (SAMPLE_EMPLOYEES (\<lambda>k. k)))) \<and>
   app_dash (fold app_step [Reload (SAMPLE_EMPLOYEES (\<lambda>k. 7)), AuthRestore]
     (fold app_step [AuthRestore, LoginInput (TypeUsername ''admin''), LoginInput (TypePassword ''admin123''),
                     LoginSubmit, LoginTimer] (app_start LoginRoute Map.empty (SAMPLE_EMPLOYEES (\<lambda>k. k))))) =
     Some (init_emp_ctx\<lparr>employees := SAMPLE_EMPLOYEES (\<lambda>k. k)\<rparr>)"
proof -
  note demo = signed_in_demo
  have ne: "employees (init_emp_ctx\<lparr>employees := SAMPLE_EMPLOYEES (\<lambda>k. k)\<rparr>) \<noteq> []"
    by (simp add: SAMPLE_EMPLOYEES_def)
  from reload_resumes [OF demo [THEN conjunct1], of "init_emp_ctx\<lparr>employees := SAMPLE_EMPLOYEES (\<lambda>k. k)\<rparr>"
                       "SAMPLE_EMPLOYEES (\<lambda>k. 7)"] demo ne
  show ?thesis by simp
qed

text \<open>C26: the render loop after any event terminates: it stops after at most one
  redirect (a guard only redirects to a page whose guard renders), and the page
  it stops on shows no redirect; so settling with one redirect is exact.\<close>

theorem render_loop_terminates:
  "render_loop s = Some (follow_redirect s) \<and> \<not> redirects (app_screen (follow_redirect s))"
proof (cases "app_route s")
  case LoginRoute
  then show ?thesis
    by (subst render_loop.simps, subst render_loop.simps)
       (auto simp: app_screen_def LoginPage_def PrivateRoute_def follow_redirect_def route_of_def)
next
  case DashboardRoute
  then show ?thesis
    by (subst render_loop.simps, subst render_loop.simps)
       (auto simp: app_screen_def LoginPage_def PrivateRoute_def follow_redirect_def route_of_def)
qed


end
