(* ===== verification/App_Faults.thy ===== *)
theory App_Faults
  imports App_Session
begin

text \<open>
  The composed application of \<open>App_Session\<close> when the browser's storage
  refuses calls. The adapter (\<open>utils/localStorage\<close>, modelled from the
  specification: failures are swallowed) leaves a key as it was when a call on
  it fails. In one step of the application each key is written at most once
  (login writes \<open>AUTH\<close> and \<open>USER\<close>, logout removes them, an employee action
  or the store's first mount writes \<open>EMPLOYEES\<close>) and no step reads a key after
  writing it, so a step under failures is \<open>app_step\<close> with the storage of
  every failed key put back: \<open>app_step_f ok\<close>, where \<open>ok k\<close> says whether the
  calls on key \<open>k\<close> succeed. The in-memory state is the same as without
  failures; only the storage differs. \<open>app_reach_f\<close> are the states reachable
  under failures, \<open>app_sched oks evs\<close> runs the events \<open>evs\<close> with the calls
  of step \<open>i\<close> accepted as \<open>oks i\<close> says. The lemmas show that the route
  guards and the form stay consistent, that failures never crash the
  application, that only a signed-in user changes the stored collection, and
  that the user can always get to the dashboard whatever fails.
\<close>

section \<open>Steps with failing storage calls\<close>

definition mask_store :: "(storage_key \<Rightarrow> bool) \<Rightarrow> storage \<Rightarrow> storage \<Rightarrow> storage" where
  "mask_store ok old new = (\<lambda>k. if ok k then new k else old k)"

definition app_step_f :: "(storage_key \<Rightarrow> bool) \<Rightarrow> app_event \<Rightarrow> app_state \<Rightarrow> app_state" where
  "app_step_f ok e s = (let t = app_step e s in t\<lparr>app_store := mask_store ok (app_store s) (app_store t)\<rparr>)"

inductive app_reach_f :: "app_state \<Rightarrow> bool" where
  start: "app_reach_f (app_start r st smp)"
| step: "app_reach_f s \<Longrightarrow> app_reach_f (app_step_f ok e s)"

text \<open>A run of events under a fault schedule: step \<open>i\<close> of the run has the
  storage calls \<open>oks i\<close> accepted.\<close>

fun app_sched :: "(nat \<Rightarrow> storage_key \<Rightarrow> bool) \<Rightarrow> app_event list \<Rightarrow> app_state \<Rightarrow> app_state" where
  "app_sched oks [] s = s"
| "app_sched oks (e # es) s = app_sched (\<lambda>i. oks (Suc i)) es (app_step_f (oks 0) e s)"

definition app_inv_f :: "app_state \<Rightarrow> bool" where
  "app_inv_f s \<longleftrightarrow> app_guarded s \<and> form_ok s"


section \<open>Lemmas\<close>

lemma mask_store_simps [simp]:
  "mask_store (\<lambda>k. True) old new = new" "mask_store ok st st = st"
  by (simp_all add: mask_store_def)

lemma mask_store_EMPLOYEES:
  "mask_store ok old new EMPLOYEES = (if ok EMPLOYEES then new EMPLOYEES else old EMPLOYEES)"
  by (simp add: mask_store_def)

lemma app_step_f_fields [simp]:
  "app_auth (app_step_f ok e s) = app_auth (app_step e s)"
  "app_route (app_step_f ok e s) = app_route (app_step e s)"
  "app_form (app_step_f ok e s) = app_form (app_step e s)"
  "app_dash (app_step_f ok e s) = app_dash (app_step e s)"
  "app_crash (app_step_f ok e s) = app_crash (app_step e s)"
  "app_samples (app_step_f ok e s) = app_samples (app_step e s)"
  "app_store (app_step_f ok e s) = mask_store ok (app_store s) (app_store (app_step e s))"
  by (simp_all add: app_step_f_def Let_def)

lemma app_step_f_ok: "app_step_f (\<lambda>k. True) e s = app_step e s"
  by (simp add: app_step_f_def)

lemma app_reach_app_reach_f: "app_reach s \<Longrightarrow> app_reach_f s"
proof (induction rule: app_reach.induct)
  case (start r st smp)
  show ?case by (rule app_reach_f.start)
next
  case (step s e)
  from app_reach_f.step [OF step.IH, of "\<lambda>k. True" e] show ?case by (simp add: app_step_f_ok)
qed

lemma loadable_cong: "st EMPLOYEES = st' EMPLOYEES \<Longrightarrow> employees_loadable st = employees_loadable st'"
  by (simp add: employees_loadable_def getItem_def)

lemma loadable_mask:
  "employees_loadable old \<Longrightarrow> employees_loadable new \<Longrightarrow> employees_loadable (mask_store ok old new)"
  by (cases "ok EMPLOYEES") (auto intro: loadable_cong [THEN iffD1] simp: mask_store_EMPLOYEES)

lemma emp_step_loadable: "employees_loadable (snd (emp_step op x)) \<or> snd (emp_step op x) = snd x"
proof (cases op)
  case (SetFilters p)
  then show ?thesis by (simp add: setFilters_def Let_def)
qed (use persisted_ops in \<open>auto simp: persisted_def employees_loadable_def\<close>)

lemma handle_loadable:
  "employees_loadable (app_store s) \<Longrightarrow> employees_loadable (app_store (app_handle e s))"
proof (cases "app_store (app_handle e s) EMPLOYEES = app_store s EMPLOYEES")
  case True
  then show "employees_loadable (app_store s) \<Longrightarrow> ?thesis" using loadable_cong by blast
next
  case False
  then obtain op c where e: "e = EmployeeAction op" and d: "app_dash s = Some c"
    using handle_EMPLOYEES by blast
  show "employees_loadable (app_store s) \<Longrightarrow> ?thesis"
    using emp_step_loadable [of op "(c, app_store s)"] e d by (auto simp: Let_def)
qed

lemma settle_loadable:
  assumes "employees_loadable (app_store s)"
  shows "employees_loadable (app_store (settle s)) \<and> app_crash (settle s) = app_crash s"
  using assms loadable_mount [OF assms, of "app_samples s" init_emp_ctx]
  by (auto simp: settle_def mount_views_def Let_def split: option.splits sum.splits)

lemma lf_finish_form_ok:
  "(lf_loading f \<longleftrightarrow> pending f \<noteq> None) \<Longrightarrow>
   (lf_loading (fst (lf_finish (f, x))) \<longleftrightarrow> pending (fst (lf_finish (f, x))) \<noteq> None)"
  by (cases "pending f") (simp_all add: lf_finish_form)

lemma handle_form_ok: "form_ok s \<Longrightarrow> form_ok (app_handle e s)"
proof (cases e)
  case LoginTimer
  then show "form_ok s \<Longrightarrow> ?thesis"
    by (auto simp: form_ok_def Let_def lf_finish_form_ok split: option.splits)
qed (auto simp: form_ok_def lf_start_def Let_def split: option.splits)

lemma settle_form_ok: "form_ok s \<Longrightarrow> form_ok (settle s)"
  by (auto simp: settle_def mount_views_def form_ok_def init_login_form_def Let_def split: option.splits sum.splits)

lemma app_inv_f_step_f: "app_inv_f (app_step_f ok e s) = app_inv_f (app_step e s)"
  by (simp add: app_inv_f_def app_guarded_def form_ok_def)

lemma app_step_f_inv: "app_inv_f s \<Longrightarrow> app_inv_f (app_step_f ok e s)"
  unfolding app_inv_f_step_f
proof (cases "app_crash s \<noteq> None \<and> \<not> is_reload e")
  case True
  then show "app_inv_f s \<Longrightarrow> app_inv_f (app_step e s)" by (simp add: app_step_def)
next
  case False
  then have st: "app_step e s = settle (app_handle e s)" by (auto simp: app_step_def)
  show "app_inv_f s \<Longrightarrow> app_inv_f (app_step e s)"
    unfolding st app_inv_f_def
    by (simp add: settle_def [symmetric] handle_form_ok settle_form_ok)
       (simp add: settle_def mount_views_guarded)
qed

lemma app_reach_f_inv: "app_reach_f s \<Longrightarrow> app_inv_f s"
proof (induction rule: app_reach_f.induct)
  case (start r st smp)
  show ?case using app_start_inv [of r st smp] by (simp add: app_inv_def app_inv_f_def)
next
  case (step s ok e)
  from step.IH show ?case by (rule app_step_f_inv)
qed


lemma step_f_loadable:
  assumes "employees_loadable (app_store s)" "app_crash s = None"
  shows "employees_loadable (app_store (app_step_f ok e s)) \<and> app_crash (app_step_f ok e s) = None"
proof -
  let ?h = "app_handle e s"
  have h: "employees_loadable (app_store ?h)" "app_crash ?h = None"
    using handle_loadable [OF assms(1)] assms(2) by (simp_all add: app_crash_handle)
  from settle_loadable [OF h(1)] h(2) assms show ?thesis by (simp add: loadable_mask)
qed

lemma settle_store_nodash: "app_dash (settle s) = None \<Longrightarrow> app_store (settle s) = app_store s"
  by (auto simp: settle_def mount_views_def Let_def split: option.splits sum.splits if_splits)

lemma app_step_f_same_store: "app_store (app_step e s) = app_store s \<Longrightarrow> app_step_f ok e s = app_step e s"
  by (simp add: app_step_f_def)

lemma at_login_form_f:
  "at_login_form (app_step e s) f \<Longrightarrow> employees_loadable (app_store s) \<Longrightarrow> at_login_form (app_step_f ok e s) f"
  by (simp add: at_login_form_def loadable_mask)

lemma restore_login_same:
  assumes "app_crash s = None" "at_login_form (app_step AuthRestore s) f"
  shows "app_step_f ok AuthRestore s = app_step AuthRestore s"
proof -
  have live1: "app_step AuthRestore s = settle (app_handle AuthRestore s)" by (rule app_step_live [OF assms(1)])
  from assms(2) have "app_dash (app_step AuthRestore s) = None" unfolding at_login_form_def by (elim conjE) assumption
  then have "app_store (settle (app_handle AuthRestore s)) = app_store (app_handle AuthRestore s)"
    unfolding live1 by (rule settle_store_nodash)
  moreover have "app_store (app_handle AuthRestore s) = app_store s" by simp
  ultimately have "app_store (app_step AuthRestore s) = app_store s" unfolding live1 by simp
  then show ?thesis by (rule app_step_f_same_store)
qed

lemma sched_Cons_det:
  "(\<And>ok. app_step_f ok e s = t) \<Longrightarrow> (\<And>oks. P (app_sched oks es t)) \<Longrightarrow> P (app_sched oks (e # es) s)"
  by simp

lemma sched_one_dash: "app_dash (app_step e t) \<noteq> None \<Longrightarrow> app_dash (app_sched oks [e] t) \<noteq> None"
  by simp

lemma steps_sign_in_f:
  assumes a0: "at_login_form s f" and nl: "\<not> lf_loading f"
  shows "app_dash (app_sched oks [LoginInput (TypeUsername ''admin''), LoginInput (TypePassword ''admin123''),
                                LoginSubmit, LoginTimer] s) \<noteq> None"
proof -
  let ?f1 = "lf_input (TypeUsername ''admin'') f"
  let ?f2 = "lf_input (TypePassword ''admin123'') ?f1"
  let ?s1 = "app_step_f (oks 0) (LoginInput (TypeUsername ''admin'')) s"
  let ?s2 = "app_step_f (oks 1) (LoginInput (TypePassword ''admin123'')) ?s1"
  let ?s3 = "app_step_f (oks 2) LoginSubmit ?s2"
  have l0: "employees_loadable (app_store s)" using a0 by (simp add: at_login_form_def)
  have a1: "at_login_form ?s1 ?f1" using at_login_form_f [OF step_input [OF a0] l0] .
  have l1: "employees_loadable (app_store ?s1)" using a1 by (simp add: at_login_form_def)
  have a2: "at_login_form ?s2 ?f2" using at_login_form_f [OF step_input [OF a1] l1] .
  have l2: "employees_loadable (app_store ?s2)" using a2 by (simp add: at_login_form_def)
  have "\<not> lf_loading ?f2" "lf_constraints_ok ?f2" using nl by (simp_all add: lf_constraints_ok_def)
  from at_login_form_f [OF step_submit [OF a2 this] l2]
  have a3: "at_login_form ?s3 (lf_start ?f2)" .
  have pf: "pending (lf_start ?f2) = Some (''admin'', ''admin123'')" by (simp add: lf_start_def)
  have "app_dash (app_step LoginTimer ?s3) \<noteq> None"
    unfolding step_timer_admin [OF a3 pf] using a3
    by (intro settle_signed_in [THEN conjunct1]) (simp_all add: at_login_form_def)
  moreover have "app_sched oks [LoginInput (TypeUsername ''admin''), LoginInput (TypePassword ''admin123''),
                                LoginSubmit, LoginTimer] s = app_step_f (oks 3) LoginTimer ?s3"
    by (simp only: app_sched.simps numeral_2_eq_2 numeral_3_eq_3 One_nat_def)
  ultimately show ?thesis by (simp only: app_step_f_fields not_False_eq_True)
qed

lemma timer_sign_in_f:
  assumes "at_login_form (app_step LoginTimer t) f" "\<not> lf_loading f" "employees_loadable (app_store t)"
  shows "app_dash (app_sched oks [LoginTimer, LoginInput (TypeUsername ''admin''),
                                 LoginInput (TypePassword ''admin123''), LoginSubmit, LoginTimer] t) \<noteq> None"
proof -
  have "at_login_form (app_step_f (oks 0) LoginTimer t) f" using at_login_form_f [OF assms(1,3)] .
  from steps_sign_in_f [OF this assms(2), of "\<lambda>i. oks (Suc i)"] show ?thesis
    by (simp only: app_sched.simps not_False_eq_True)
qed


section \<open>Properties\<close>

text \<open>C21: storage failures never crash the application: started on storage whose
  collection the employee store can read, every run of events, whichever
  storage calls fail in each step, leaves the application running and the
  stored collection readable (a failed write keeps the previous value, which
  was readable).\<close>

theorem faults_never_crash:
  assumes "employees_loadable st"
  shows "app_crash (app_sched oks evs (app_start r st smp)) = None \<and>
         employees_loadable (app_store (app_sched oks evs (app_start r st smp)))"
proof -
  have "employees_loadable (app_store s) \<Longrightarrow> app_crash s = None \<Longrightarrow>
        app_crash (app_sched oks evs s) = None \<and> employees_loadable (app_store (app_sched oks evs s))" for s
  proof (induction evs arbitrary: oks s)
    case Nil
    then show ?case by simp
  next
    case (Cons e evs)
    from step_f_loadable [OF Cons.prems] Cons.IH show ?case by simp
  qed
  with assms show ?thesis by (simp add: app_start_settled)
qed

theorem faults_never_crash_witness:
  "employees_loadable Map.empty \<and>
   app_crash (app_sched (\<lambda>i k. False) [AuthRestore, LoginTimer, HeaderLogout]
     (app_start DashboardRoute Map.empty (SAMPLE_EMPLOYEES (\<lambda>k. k)))) = None"
proof -
  have l: "employees_loadable Map.empty" by (simp add: employees_loadable_def)
  from faults_never_crash [OF l] l show ?thesis by blast
qed

text \<open>Even when storage calls fail, only a signed-in user changes the employee
  data: every faulty step that changes the stored collection ends on
  \<open>/dashboard\<close> with the employee store mounted behind a settled,
  authenticated session.\<close>

theorem faulty_written_signed_in:
  assumes "app_reach_f s" and "app_store (app_step_f ok e s) EMPLOYEES \<noteq> app_store s EMPLOYEES"
  shows "app_dash (app_step_f ok e s) \<noteq> None \<and> app_route (app_step_f ok e s) = DashboardRoute \<and>
         isAuthenticated (app_auth (app_step_f ok e s)) \<and> \<not> isLoading (app_auth (app_step_f ok e s))"
proof -
  have g: "app_guarded s" using app_reach_f_inv [OF assms(1)] by (simp add: app_inv_f_def)
  have "app_store (app_step e s) EMPLOYEES \<noteq> app_store s EMPLOYEES"
    using assms(2) by (auto simp: mask_store_EMPLOYEES split: if_splits)
  from written_signed_in_guarded [OF g this] show ?thesis by simp
qed

theorem faulty_written_signed_in_witness:
  "app_reach_f (fold app_step [AuthRestore, LoginInput (TypeUsername ''admin''), LoginInput (TypePassword ''admin123''),
                             LoginSubmit, LoginTimer] (app_start LoginRoute Map.empty (SAMPLE_EMPLOYEES (\<lambda>k. k)))) \<and>
   app_store (app_step_f (\<lambda>k. k \<noteq> AUTH) (EmployeeAction (DeleteEmployee ''EMP001''))
     (fold app_step [AuthRestore, LoginInput (TypeUsername ''admin''), LoginInput (TypePassword ''admin123''),
                     LoginSubmit, LoginTimer] (app_start LoginRoute Map.empty (SAMPLE_EMPLOYEES (\<lambda>k. k))))) EMPLOYEES \<noteq>
   app_store (fold app_step [AuthRestore, LoginInput (TypeUsername ''admin''), LoginInput (TypePassword ''admin123''),
                             LoginSubmit, LoginTimer] (app_start LoginRoute Map.empty (SAMPLE_EMPLOYEES (\<lambda>k. k)))) EMPLOYEES \<and>
   isAuthenticated (app_auth (app_step_f (\<lambda>k. k \<noteq> AUTH) (EmployeeAction (DeleteEmployee ''EMP001''))
     (fold app_step [AuthRestore, LoginInput (TypeUsername ''admin''), LoginInput (TypePassword ''admin123''),
                     LoginSubmit, LoginTimer] (app_start LoginRoute Map.empty (SAMPLE_EMPLOYEES (\<lambda>k. k))))))"
proof -
  have r: "app_reach_f (fold app_step [AuthRestore, LoginInput (TypeUsername ''admin''), LoginInput (TypePassword ''admin123''),
                             LoginSubmit, LoginTimer] (app_start LoginRoute Map.empty (SAMPLE_EMPLOYEES (\<lambda>k. k))))"
    using signed_in_demo by (blast intro: app_reach_app_reach_f)
  have ch: "app_store (app_step_f (\<lambda>k. k \<noteq> AUTH) (EmployeeAction (DeleteEmployee ''EMP001''))
     (fold app_step [AuthRestore, LoginInput (TypeUsername ''admin''), LoginInput (TypePassword ''admin123''),
                     LoginSubmit, LoginTimer] (app_start LoginRoute Map.empty (SAMPLE_EMPLOYEES (\<lambda>k. k))))) EMPLOYEES \<noteq>
   app_store (fold app_step [AuthRestore, LoginInput (TypeUsername ''admin''), LoginInput (TypePassword ''admin123''),
                             LoginSubmit, LoginTimer] (app_start LoginRoute Map.empty (SAMPLE_EMPLOYEES (\<lambda>k. k)))) EMPLOYEES"
    using demo_delete_changes by (simp only: app_step_f_fields mask_store_EMPLOYEES) simp
  from faulty_written_signed_in [OF r ch] r ch show ?thesis by blast
qed

text \<open>C22: storage failures never lock the user out: from every state reachable
  under failures that has not crashed and whose stored collection the store can
  read, there is a sequence of user actions that mounts the dashboard whichever
  storage calls fail at each of its steps.\<close>

theorem dashboard_reachable_faults:
  assumes "app_reach_f s" "app_crash s = None" "employees_loadable (app_store s)"
  shows "\<exists>evs. \<forall>oks. app_dash (app_sched oks evs s) \<noteq> None"
proof -
  let ?s1 = "app_step AuthRestore s"
  let ?signin = "[LoginInput (TypeUsername ''admin''), LoginInput (TypePassword ''admin123''), LoginSubmit, LoginTimer]"
  from step_restore [OF assms(2,3)] show ?thesis
  proof
    assume "app_dash ?s1 \<noteq> None"
    then have "\<forall>oks. app_dash (app_sched oks [AuthRestore] s) \<noteq> None" by (simp add: sched_one_dash)
    then show ?thesis by (rule exI [where x = "[AuthRestore]"])
  next
    assume "\<exists>f. at_login_form ?s1 f"
    then obtain f where f: "at_login_form ?s1 f" ..
    have same1: "app_step_f ok AuthRestore s = ?s1" for ok by (rule restore_login_same [OF assms(2) f])
    have "app_inv_f (app_step_f (\<lambda>k. True) AuthRestore s)"
      by (rule app_reach_f_inv [OF app_reach_f.step [OF assms(1)]])
    then have fo: "form_ok ?s1" unfolding app_step_f_ok app_inv_f_def by (elim conjE) assumption
    have l1: "employees_loadable (app_store ?s1)" using f by (simp add: at_login_form_def)
    from step_timer [OF f fo] show ?thesis
    proof
      assume d: "app_dash (app_step LoginTimer ?s1) \<noteq> None"
      have "app_dash (app_sched oks [AuthRestore, LoginTimer] s) \<noteq> None" for oks
        by (rule sched_Cons_det [OF same1, where P = "\<lambda>t. app_dash t \<noteq> None"]) (rule sched_one_dash [OF d])
      then have "\<forall>oks. app_dash (app_sched oks [AuthRestore, LoginTimer] s) \<noteq> None" ..
      then show ?thesis by (rule exI [where x = "[AuthRestore, LoginTimer]"])
    next
      assume "\<exists>f'. at_login_form (app_step LoginTimer ?s1) f' \<and> \<not> lf_loading f'"
      then obtain f' where f': "at_login_form (app_step LoginTimer ?s1) f'" "\<not> lf_loading f'" by blast
      have "app_dash (app_sched oks (AuthRestore # LoginTimer # ?signin) s) \<noteq> None" for oks
        by (rule sched_Cons_det [OF same1, where P = "\<lambda>t. app_dash t \<noteq> None"]) (rule timer_sign_in_f [OF f' l1])
      then have "\<forall>oks. app_dash (app_sched oks (AuthRestore # LoginTimer # ?signin) s) \<noteq> None" ..
      then show ?thesis by (rule exI [where x = "AuthRestore # LoginTimer # ?signin"])
    qed
  qed
qed

theorem dashboard_reachable_faults_witness:
  "app_reach_f (app_start LoginRoute Map.empty (SAMPLE_EMPLOYEES (\<lambda>k. k))) \<and>
   app_crash (app_start LoginRoute Map.empty (SAMPLE_EMPLOYEES (\<lambda>k. k))) = None \<and>
   employees_loadable (app_store (app_start LoginRoute Map.empty (SAMPLE_EMPLOYEES (\<lambda>k. k)))) \<and>
   (\<exists>evs. \<forall>oks. app_dash (app_sched oks evs (app_start LoginRoute Map.empty (SAMPLE_EMPLOYEES (\<lambda>k. k)))) \<noteq> None)"
proof -
  let ?s = "app_start LoginRoute Map.empty (SAMPLE_EMPLOYEES (\<lambda>k. k))"
  have r: "app_reach_f ?s" by (rule app_reach_f.start)
  have c: "app_crash ?s = None" and l: "employees_loadable (app_store ?s)"
    by (simp_all add: app_start_settled employees_loadable_def)
  from dashboard_reachable_faults [OF r c l] r c l show ?thesis by blast
qed

end
