(* ===== verification/Spec2Isabelle.thy ===== *)
theory Spec2Isabelle
  imports Employee_Lifecycle Employee_Bounds Employee_Refinement Employee_Tabs Storage_Faults Auth_Faults View_List App_Faults
begin

text \<open>
  \<^bold>\<open>EMS Dashboard: a verification development.\<close>

  The repository is a browser application (React, TypeScript) that keeps
  employee records in the browser's local storage behind a one-user demo login.
  Its parts and how they interact:
  \<^item> the \<^emph>\<open>persistence adapter\<close> (\<open>@/utils/localStorage\<close>: \<open>getItem\<close>,
    \<open>setItem\<close>, \<open>removeItem\<close>, three keys) and the \<^emph>\<open>configuration\<close>
    (\<open>@/utils/constants\<close>: the credential pair, \<open>GENDERS\<close>,
    \<open>INDIAN_STATES\<close>). Neither file is in the repository; both are modelled
    from the specification's contract: theory \<open>Storage\<close> (a map from keys to
    parsed JSON or unparseable text) and \<open>GENDERS\<close> in \<open>View_Filters\<close>;
    \<open>INDIAN_STATES\<close>, whose contents are unknown, is a parameter;
  \<^item> the \<^emph>\<open>session store\<close> (\<open>src/src/context/AuthContext.tsx\<close>), theory
    \<open>Auth_Store\<close>: record \<open>auth_state\<close> for its three state cells,
    \<open>restore_session\<close> for the mount effect, \<open>login\<close> and \<open>logout\<close>, the step
    relation \<open>auth_trans\<close> and the reachable states \<open>auth_reach\<close>; theory
    \<open>Auth_Faults\<close> runs \<open>login\<close> and \<open>logout\<close> over an adapter whose calls
    may fail (\<open>setItem_f\<close>, \<open>removeItem_f\<close>), as \<open>login_f\<close>, \<open>logout_f\<close> and
    the relation \<open>auth_trans_f\<close>;
  \<^item> the \<^emph>\<open>employee store\<close> (\<open>src/src/context/EmployeeContext.tsx\<close> over the
    types of \<open>src/src/types/employee.ts\<close>), theories \<open>Employee_Types\<close> (records
    \<open>employee_form_data\<close>, \<open>employee\<close> as its extension, \<open>employee_filters\<close>,
    the JSON encoding of the collection), \<open>Employee_Store\<close> (\<open>generateId\<close>,
    \<open>SAMPLE_EMPLOYEES\<close>, \<open>mount_employees\<close>, \<open>saveEmployees\<close>,
    \<open>addEmployee\<close>, \<open>updateEmployee\<close>, \<open>deleteEmployee\<close>,
    \<open>toggleEmployeeStatus\<close>, \<open>setFilters\<close>, \<open>getEmployeeById\<close>,
    \<open>filteredEmployees\<close>, \<open>stats\<close>, the provider's value; each a function on
    the pair of provider state and storage), \<open>Employee_Lifecycle\<close> (worlds
    with a clock, the transition relation \<open>emp_trans\<close> of user actions,
    reachability from a mount), \<open>Employee_Tabs\<close> (two providers, two open
    tabs, over one storage), \<open>Storage_Faults\<close> (the same actions when a
    write may fail and be swallowed), \<open>Employee_Bounds\<close> (identifier format and
    identifier space over runs) and \<open>Employee_Refinement\<close> (the abstract map
    the store implements);
  \<^item> the \<^emph>\<open>view layer\<close>: \<open>View_Employees\<close> (EmployeeRow, the EmployeeList
    handlers and print document, ConfirmDialog's handler, Modal, the EmployeeForm
    state and handlers, the Filters patches, DashboardSummary), \<open>View_Filters\<close>
    (what the filter bar shows and the events it can produce), \<open>View_Form\<close>
    (what the form shows and the browser's constraint validation before
    \<open>onSubmit\<close>), \<open>View_List\<close> (the EmployeeList, Modal, ConfirmDialog, DashboardSummary
    and Loader markup, and the controls that close the two modals) and
    \<open>View_Auth\<close> (LoginForm with its delayed submit and required inputs,
    PrivateRoute, the Login page, Header);
  \<^item> the \<^emph>\<open>application\<close>, theory \<open>App_Session\<close>: the session store, the two
    routes, the dashboard (\<open>src/src/pages/Dashboard.tsx\<close>) whose
    \<open>EmployeeProvider\<close> exists only while \<open>PrivateRoute\<close> renders it, and the
    login form, composed into one state \<open>app_state\<close> with one event function
    \<open>app_step\<close> (handle the event, then render, follow a redirect and mount or
    unmount what the screen shows). \<open>App.tsx\<close>, which wires them, is not in the
    repository; the theory takes only the routes the code navigates to.
    Theory \<open>App_Faults\<close> runs the same application when storage calls fail:
    \<open>app_step_f\<close> puts back every key whose call failed, \<open>app_sched\<close> runs
    events under a schedule of failures.
  \<^item> the \<^emph>\<open>JavaScript runtime\<close> the code calls, modelled from the
    language's definition: \<open>JS_String\<close> (\<open>toLowerCase\<close>, \<open>includes\<close>,
    \<open>padStart\<close>, number printing, \<open>split\<close>) and \<open>JS_Date\<close> (ECMA-262's
    calendar, \<open>toISOString\<close>, the user's local date, and a date input's value
    as the browser reads and compares it); \<open>Storage\<close> also holds \<open>.length\<close>
    and property access on parsed JSON.
  The view layer calls the stores' operations; both stores write through to the
  same storage under different keys; a page reload re-runs both mount effects
  on that storage; logging out unmounts the dashboard and its store.

  \<^bold>\<open>How the code is read.\<close> A React state cell is a record field; a
  \<open>useCallback\<close> handler is a function from the state (and the storage) to
  the new state; an effect that runs on mount is a function applied once, when
  the component is mounted. Values the code draws from the environment are
  parameters: the random draw \<open>Math.floor(Math.random() * 10000)\<close> of
  \<open>generateId\<close> (a number below 10000 where a claim needs it), each
  \<open>new Date()\<close> (one parameter per call, a \<open>timestamp\<close>; the form's date bound
  takes the ISO string of the instant, \<open>toISOString t\<close> in C29), the date-fns
  formatter of the screens. Errors are
  values: a stored collection that is not an employee array is
  \<open>Inl (NotAnEmployeeArray v)\<close>, a stored \<open>null\<close>, on which \<open>.length\<close>
  throws, is \<open>Inl LengthOfNull\<close>, and either crashes the application until a
  reload;
  the hooks used outside their provider return \<open>Inl\<close>; a failed login is the
  result \<open>False\<close>; operations on an absent identifier are no-ops; a form the
  browser finds invalid is not submitted (\<open>None\<close>). No loop of the program
  needs fuel: every function is structurally recursive except React's render
  loop after an event, \<open>render_loop\<close>, a \<open>partial_function (option)\<close> proved to
  return after at most one redirect on every state (a guard redirects only to
  a page whose guard does not redirect back), which is why \<open>settle\<close> follows
  one redirect. The asynchronous login submission is split at
  its \<open>await\<close> into two steps so that other events can be interleaved.

  \<^bold>\<open>What is proved.\<close>
  \<^item> Employee store (\<open>Employee_Store\<close>): the filtered view is the
    conjunction of the three filters and keeps order (C1); the counts of the
    statistics are the sizes of the list under the status filter (C2); operations on
    absent identifiers (C3); the identifier format and its round trip (C4);
    delete (C5); adding a record and deleting it by its fresh identifier is a round
    trip (C6); what the mount does with malformed stored values (C33).
  \<^item> Lifecycle (\<open>Employee_Lifecycle\<close>, \<open>Employee_Tabs\<close>, \<open>Storage_Faults\<close>):
    write-through in every reachable state (C7); what a reload gives (C8);
    with two tabs open, each tab sees only its own operations and the storage
    holds the collection of the last tab that wrote, so the other tab's changes
    are lost (C9); a reload when writes fail and are swallowed (C10); the
    timestamp order under a monotone clock (C11).
  \<^item> Session store (\<open>Auth_Store\<close>, \<open>Auth_Faults\<close>): the login check
    (C12); the session invariant over reachable states (C13); session restore
    across a reload (C14); with failing storage calls, a logout survives a
    reload unless both removals fail (C15), a login survives it only when both
    writes succeed (C16); the Loading/Unauthenticated/Authenticated machine (C17); the
    login submission under interleaved typing (\<open>View_Auth\<close>, C18).
  \<^item> Application (\<open>App_Session\<close>): the employee store and the login form only
    behind their guards (C19); only a signed-in user on the dashboard changes
    the stored collection (C20); from every state that has not crashed the
    dashboard can be reached (C23, liveness); logging out and in again reloads
    the collection with the filters reset (C24); a reload at any point resumes
    on the dashboard with the stored collection or on an empty login form
    (C25); the render loop after an event terminates after at most one redirect
    (C26, termination).
  \<^item> Application with failing storage calls (\<open>App_Faults\<close>): no run started
    on readable storage crashes (C21); the dashboard can always be reached,
    whichever calls fail (C22, liveness).
  \<^item> Identifiers (\<open>Employee_Bounds\<close>): the identifier format on a first run
    (C27).
  \<^item> Screens: the form only hands valid data to the store (C28); the date bound
    is the UTC date of the instant, so the user's local date of today can be
    rejected (\<open>JS_Date\<close>, C29); every control of the delete confirmation closes it
    and only its confirm button deletes (\<open>View_List\<close>, C31); unescaped print
    output (C32).
  \<^item> Refinement (\<open>Employee_Refinement\<close>): the list operations implement the
    map operations (C30).
  Further lemmas of the theories (the specification's end-to-end scenario on
  the seed, in this theory; lookup after an update and after a fresh add; the
  identifier collision of \<open>addEmployee\<close>; the two clock reads of add; the seed
  identifiers never generated; the single-pass filter against the rule applied
  one criterion at a time; the bound of 10004 distinct identifiers; the
  write-through and session invariant of the composed application and, under
  failing calls, its signed-in guarantee; the in-memory session invariant under
  failures; filter merging, the specification's filtering example,
  preservation of distinct identifiers, a lost update between two tabs, the
  filter bar keeping the filters within the values it offers, a double toggle,
  the form preview, the summary cards, the table's shape, the header, the route
  guards, editing without changes, logout then reload, a failed login, session
  steps leaving the collection alone, the growth of the collection per action,
  failures never reaching the caller of \<open>login\<close>; in \<open>JS_Date\<close>, the round
  trips of dates and day numbers and the order of dates) are kept as lemmas
  beside the claims.
  \<^bold>\<open>Bounds.\<close> The random draw is below 10000 because
  \<open>Math.random()\<close> is below 1; the identifier space of a first run is the
  four seed identifiers and the 10000 values of \<open>generateId\<close>, which is
  injective (its digits read back as the draw).

  \<^bold>\<open>Assumptions and what is not modelled.\<close> The clock is monotone where a
  claim needs it (C11 takes the readings no earlier than the clock). Strings are
  modelled on code units below 256, where \<open>toLowerCase\<close> is exact. Writes to
  storage succeed except in \<open>Storage_Faults\<close>, \<open>Auth_Faults\<close> and
  \<open>App_Faults\<close>, where any
  write or removal may fail and be swallowed by the adapter (the only failure
  the specification names). A date input's value is compared with its bound
  as a (year, month, day) triple, as the browser does. Time values are
  non-negative (instants from 1970 on); C29 takes an instant of a year with four
  digits, the years \<open>toISOString\<close> writes as \<open>YYYY\<close>, and dates of birth from
  1970 on. The stored collection encodes a timestamp as a JSON number where
  the code stores the ISO string; a claim only reads back what the model wrote. Not modelled: the merging of class names by
  \<open>cn\<close> (tailwind-merge, a library; \<open>Loader\<close> is modelled up to the
  classes it passes), \<open>handlePrintAll\<close>
  (\<open>window.print\<close>), styling, routes other than the two the code navigates to,
  and React's scheduling beyond one event at a time (the specification's
  single-threaded model).

  \<^bold>\<open>Possible extensions.\<close> The print window's document as a
  function of the list's rows; the composed application with a clock
  (timestamps across reloads); timestamps stored as ISO strings, read back
  through a parser of \<open>toISOString\<close>'s output.
\<close>

section \<open>Properties across components\<close>

text \<open>The specification's end-to-end scenario. On empty storage the mount
  seeds the four sample records and writes them through; adding one makes the
  total 5; deleting the new record by its identifier makes it 4 again with the
  remaining records in their original order.\<close>

theorem e2e_seed_add_delete:
  "let s0 = (init_emp_ctx\<lparr>employees := SAMPLE_EMPLOYEES clk\<rparr>,
             setItem EMPLOYEES (encode_employees (SAMPLE_EMPLOYEES clk)) Map.empty);
       s1 = addEmployee 7 t1 t2 d s0;
       s2 = deleteEmployee (generateId 7) s1
   in mount_employees (SAMPLE_EMPLOYEES clk) init_emp_ctx Map.empty = Inr s0 \<and>
      total (stats (fst s0)) = 4 \<and> total (stats (fst s1)) = 5 \<and> total (stats (fst s2)) = 4 \<and>
      employees (fst s2) = employees (fst s0)"
  by (simp add: Let_def mount_employees_def employees_addEmployee employees_deleteEmployee stats_def
                SAMPLE_EMPLOYEES_def generateId_def js_string_eval)

text \<open>Opening an employee for editing and submitting the form without a
  change leaves the record as it was except for \<open>updatedAt\<close>, which becomes
  the clock reading; the form closes.\<close>

theorem edit_without_changes:
  assumes "getEmployeeById (emp_id e) c = Some e"
  shows "let x = handleFormSubmit r t1 t2 (form_submit (form_load (Some e) init_form_ui))
                   (handleEditClick e u, (c, st))
         in getEmployeeById (emp_id e) (fst (snd x)) = Some (e\<lparr>updatedAt := t1\<rparr>) \<and>
            \<not> isFormOpen (fst x) \<and> editingEmployee (fst x) = None"
proof -
  have "getEmployeeById (emp_id e) (fst (updateEmployee t1 (emp_id e) (form_of e) (c, st))) =
        map_option (\<lambda>x. x\<lparr>name := name e, gender := gender e, dob := dob e, state := state e,
                            emp_image := emp_image e, active := active e, updatedAt := t1\<rparr>)
          (getEmployeeById (emp_id e) c)"
    unfolding getEmployeeById_def employees_updateEmployee fst_conv form_of_fields
    by (rule find_map_if) simp
  with assms have "getEmployeeById (emp_id e) (fst (updateEmployee t1 (emp_id e) (form_of e) (c, st))) =
                   Some (e\<lparr>updatedAt := t1\<rparr>)"
    by simp
  moreover have "form_submit (form_load (Some e) init_form_ui) = form_of e"
    by (simp add: form_submit_def form_load_def form_of_def employee_form_data.defs)
  ultimately show ?thesis
    by (simp add: handleFormSubmit_def handleEditClick_def Let_def)
qed

theorem edit_without_changes_witness:
  "getEmployeeById ''EMP001'' (init_emp_ctx\<lparr>employees := SAMPLE_EMPLOYEES (\<lambda>k. k)\<rparr>) =
     Some (hd (SAMPLE_EMPLOYEES (\<lambda>k. k))) \<and>
   getEmployeeById ''EMP001'' (fst (snd (handleFormSubmit 7 10 11
       (form_submit (form_load (Some (hd (SAMPLE_EMPLOYEES (\<lambda>k. k)))) init_form_ui))
       (handleEditClick (hd (SAMPLE_EMPLOYEES (\<lambda>k. k))) init_list_ui,
        (init_emp_ctx\<lparr>employees := SAMPLE_EMPLOYEES (\<lambda>k. k)\<rparr>, Map.empty))))) =
     Some ((hd (SAMPLE_EMPLOYEES (\<lambda>k. k)))\<lparr>updatedAt := 10\<rparr>)"
proof -
  have h: "getEmployeeById (emp_id (hd (SAMPLE_EMPLOYEES (\<lambda>k. k))))
             (init_emp_ctx\<lparr>employees := SAMPLE_EMPLOYEES (\<lambda>k. k)\<rparr>) = Some (hd (SAMPLE_EMPLOYEES (\<lambda>k. k)))"
    by (simp add: getEmployeeById_def SAMPLE_EMPLOYEES_def)
  have i: "emp_id (hd (SAMPLE_EMPLOYEES (\<lambda>k. k))) = ''EMP001''"
    by (simp add: SAMPLE_EMPLOYEES_def)
  from edit_without_changes [OF h, of 7 10 11 init_list_ui Map.empty] h show ?thesis
    by (simp only: i Let_def)
qed

lemma auth_trans_employees_entry: "auth_trans x y \<Longrightarrow> snd y EMPLOYEES = snd x EMPLOYEES"
  by (induction rule: auth_trans.induct) (simp_all add: login_cases logout_def setItem_def removeItem_def)

lemma auth_steps_employees_entry: "auth_trans\<^sup>*\<^sup>* x y \<Longrightarrow> snd y EMPLOYEES = snd x EMPLOYEES"
  by (induction rule: rtranclp_induct) (simp_all add: auth_trans_employees_entry)

text \<open>The session store's steps never touch the stored collection, so after
  any sequence of restores, logins and logouts a new dashboard mount shows the
  collection the employee store last wrote.\<close>

theorem session_steps_keep_collection:
  assumes "auth_trans\<^sup>*\<^sup>* (a, st) (a', st')" and "persisted (c, st)" and "employees c \<noteq> []"
  shows "mount_employees samples init_emp_ctx st' = Inr (init_emp_ctx\<lparr>employees := employees c\<rparr>, st')"
proof -
  from assms(1) have "st' EMPLOYEES = st EMPLOYEES"
    using auth_steps_employees_entry by fastforce
  then have "getItem EMPLOYEES (JArr []) st' = getItem EMPLOYEES (JArr []) st"
    by (simp add: getItem_def)
  with assms(2) have "decode_employees (getItem EMPLOYEES (JArr []) st') = Some (employees c)"
    by (simp add: persisted_def)
  with assms(3) show ?thesis by (simp add: mount_from_saved)
qed

theorem session_steps_keep_collection_witness:
  "auth_trans\<^sup>*\<^sup>* (init_auth, setItem EMPLOYEES (encode_employees (SAMPLE_EMPLOYEES (\<lambda>k. k))) Map.empty)
     (logout (snd (login ''admin'' ''admin123''
        (init_auth, setItem EMPLOYEES (encode_employees (SAMPLE_EMPLOYEES (\<lambda>k. k))) Map.empty)))) \<and>
   mount_employees (SAMPLE_EMPLOYEES (\<lambda>k. k)) init_emp_ctx
     (snd (logout (snd (login ''admin'' ''admin123''
        (init_auth, setItem EMPLOYEES (encode_employees (SAMPLE_EMPLOYEES (\<lambda>k. k))) Map.empty))))) =
   Inr (init_emp_ctx\<lparr>employees := SAMPLE_EMPLOYEES (\<lambda>k. k)\<rparr>,
        snd (logout (snd (login ''admin'' ''admin123''
          (init_auth, setItem EMPLOYEES (encode_employees (SAMPLE_EMPLOYEES (\<lambda>k. k))) Map.empty)))))"
  (is "?steps \<and> ?m")
proof -
  let ?x0 = "(init_auth, setItem EMPLOYEES (encode_employees (SAMPLE_EMPLOYEES (\<lambda>k. k))) Map.empty)"
  let ?x1 = "snd (login ''admin'' ''admin123'' ?x0)"
  have t1: "auth_trans ?x0 ?x1" by (rule auth_trans.login)
  have t2: "auth_trans ?x1 (logout ?x1)" by (rule auth_trans.logout)
  from t1 t2 have s: "auth_trans\<^sup>*\<^sup>* ?x0 (logout ?x1)"
    by (blast intro: rtranclp.rtrancl_into_rtrancl r_into_rtranclp)
  then have s': "auth_trans\<^sup>*\<^sup>* (init_auth, snd ?x0) (fst (logout ?x1), snd (logout ?x1))"
    by simp
  have p: "persisted (init_emp_ctx\<lparr>employees := SAMPLE_EMPLOYEES (\<lambda>k. k)\<rparr>, snd ?x0)"
    by (simp add: persisted_def)
  have n: "employees (init_emp_ctx\<lparr>employees := SAMPLE_EMPLOYEES (\<lambda>k. k)\<rparr>) \<noteq> []"
    by (simp add: SAMPLE_EMPLOYEES_def)
  from session_steps_keep_collection [OF s' p n, of "SAMPLE_EMPLOYEES (\<lambda>k. k)"] s show ?thesis
    by simp
qed

end
